theory Spec2Isabelle
  imports Main "HOL-Library.AList"
begin

section \<open>Decoded payloads and the Python operations used on them\<close>

text \<open>
  A decoded API payload is a JSON value. Python's \<open>None\<close> is \<open>JNull\<close>, a dict is an
  association list read with \<open>map_of\<close>. JSON numbers are integers here; floats are left out.
\<close>

datatype json =
    JNull
  | JBool bool
  | JInt int
  | JStr string
  | JList "json list"
  | JObj "(string \<times> json) list"

datatype exn =
    Attribute_error
  | Key_error
  | Type_error
  | Value_error
  | Db_error
  | Json_decode_error
  | Request_exception
  | System_exit string
  | Fetch_exhausted string
  | Fetch_failed string int json
  | Organizations_get_failed int json
  | Tickets_get_failed int json
  | Script_end

text \<open>Truthiness, as \<open>bool(x)\<close>, \<open>if x\<close> and \<open>x or y\<close> use it.\<close>

fun truthy :: "json \<Rightarrow> bool" where
  "truthy JNull = False"
| "truthy (JBool b) = b"
| "truthy (JInt n) = (n \<noteq> 0)"
| "truthy (JStr s) = (s \<noteq> [])"
| "truthy (JList xs) = (xs \<noteq> [])"
| "truthy (JObj kvs) = (kvs \<noteq> [])"

definition por :: "json \<Rightarrow> json \<Rightarrow> json" where
  "por a b = (if truthy a then a else b)"

text \<open>\<open>d.get(k)\<close> and \<open>d.get(k, default)\<close> on a dict, and \<open>d[k]\<close>.\<close>

definition dget :: "(string \<times> json) list \<Rightarrow> string \<Rightarrow> json" where
  "dget kv k = (case map_of kv k of None \<Rightarrow> JNull | Some v \<Rightarrow> v)"

definition dget_default :: "(string \<times> json) list \<Rightarrow> string \<Rightarrow> json \<Rightarrow> json" where
  "dget_default kv k d = (case map_of kv k of None \<Rightarrow> d | Some v \<Rightarrow> v)"

definition dindex :: "(string \<times> json) list \<Rightarrow> string \<Rightarrow> exn + json" where
  "dindex kv k = (case map_of kv k of None \<Rightarrow> Inl Key_error | Some v \<Rightarrow> Inr v)"

text \<open>\<open>x.get(k)\<close> on an arbitrary value: anything but a dict has no \<open>get\<close>.\<close>

definition pget :: "json \<Rightarrow> string \<Rightarrow> exn + json" where
  "pget x k = (case x of JObj kv \<Rightarrow> Inr (dget kv k) | _ \<Rightarrow> Inl Attribute_error)"

definition pget_default :: "json \<Rightarrow> string \<Rightarrow> json \<Rightarrow> exn + json" where
  "pget_default x k d = (case x of JObj kv \<Rightarrow> Inr (dget_default kv k d) | _ \<Rightarrow> Inl Attribute_error)"

text \<open>
  \<open>for x in v\<close>: a list yields its items, a dict its keys, a string its characters;
  \<open>None\<close>, booleans and numbers are not iterable.
\<close>

definition iter_items :: "json \<Rightarrow> exn + json list" where
  "iter_items v =
     (case v of
        JList xs \<Rightarrow> Inr xs
      | JObj kv \<Rightarrow> Inr (map JStr (remdups (map fst kv)))
      | JStr s \<Rightarrow> Inr (map (\<lambda>c. JStr [c]) s)
      | _ \<Rightarrow> Inl Type_error)"

subsection \<open>\<open>int(x)\<close>, \<open>str(x)\<close> and \<open>s.lower()\<close>\<close>

definition is_space :: "char \<Rightarrow> bool" where
  "is_space c = (let n = (of_char c :: nat) in (9 \<le> n \<and> n \<le> 13) \<or> (28 \<le> n \<and> n \<le> 32))"

definition is_digit :: "char \<Rightarrow> bool" where
  "is_digit c = (let n = (of_char c :: nat) in 48 \<le> n \<and> n \<le> 57)"

definition digit_val :: "char \<Rightarrow> nat" where
  "digit_val c = (of_char c :: nat) - 48"

definition strip :: "string \<Rightarrow> string" where
  "strip s = rev (dropWhile is_space (rev (dropWhile is_space s)))"

text \<open>Decimal digits, a single underscore allowed between two digits.\<close>

fun py_digits :: "nat \<Rightarrow> bool \<Rightarrow> string \<Rightarrow> nat option" where
  "py_digits acc prev [] = (if prev then Some acc else None)"
| "py_digits acc prev (c # cs) =
     (if is_digit c then py_digits (10 * acc + digit_val c) True cs
      else if c = CHR ''_'' \<and> prev \<and> cs \<noteq> [] \<and> is_digit (hd cs) then py_digits acc False cs
      else None)"

definition int_of_str :: "string \<Rightarrow> int option" where
  "int_of_str s =
     (case strip s of
        [] \<Rightarrow> None
      | c # cs \<Rightarrow>
          if c = CHR ''-'' then map_option (\<lambda>n. - int n) (py_digits 0 False cs)
          else if c = CHR ''+'' then map_option int (py_digits 0 False cs)
          else map_option int (py_digits 0 False (c # cs)))"

fun py_int :: "json \<Rightarrow> exn + int" where
  "py_int JNull = Inl Type_error"
| "py_int (JBool b) = Inr (if b then 1 else 0)"
| "py_int (JInt n) = Inr n"
| "py_int (JStr s) = (case int_of_str s of None \<Rightarrow> Inl Value_error | Some n \<Rightarrow> Inr n)"
| "py_int (JList xs) = Inl Type_error"
| "py_int (JObj kv) = Inl Type_error"

function dec_nat :: "nat \<Rightarrow> string" where
  "dec_nat n = (if n < 10 then [''0123456789'' ! n] else dec_nat (n div 10) @ [''0123456789'' ! (n mod 10)])"
  by pat_completeness auto
termination
  by (relation "measure id") auto

definition str_of_int :: "int \<Rightarrow> string" where
  "str_of_int i = (if i < 0 then CHR ''-'' # dec_nat (nat (- i)) else dec_nat (nat i))"

definition lower_char :: "char \<Rightarrow> char" where
  "lower_char c = (let n = (of_char c :: nat) in if 65 \<le> n \<and> n \<le> 90 then char_of (n + 32) else c)"

definition lower :: "string \<Rightarrow> string" where
  "lower s = map lower_char s"

section \<open>What the program is run with\<close>

text \<open>
  Library and collaborator behaviour the two scripts rely on but do not define is a field
  of the environment: \<open>datetime.fromisoformat\<close>, the store's conversion of a bound
  parameter to \<open>BIGINT\<close>, the text the store makes of a bound list, the per-process string \<open>hash\<close>, \<open>repr\<close> of containers,
  \<open>json.loads\<close>, whether \<open>float(h)\<close> parses and whether \<open>time.sleep\<close> takes the result,
  the blob download, the clock, and the configuration read from the process environment.
\<close>

record env =
  fromisoformat :: "string \<Rightarrow> int option"
  pg_bigint :: "json \<Rightarrow> int option"
  array_text :: "json list \<Rightarrow> string option"
  hash_str :: "string \<Rightarrow> int"
  repr_of :: "json \<Rightarrow> string"
  json_loads :: "string \<Rightarrow> json option"
  float_parses :: "string \<Rightarrow> bool"
  sleep_accepts :: "string \<Rightarrow> bool"
  download_attachment :: "int \<Rightarrow> int \<Rightarrow> json \<Rightarrow> exn + string option"
  now :: int
  Z_BASE :: string
  CLOSED_TICKETS_ONLY :: bool
  PRUNE_REOPENED_FROM_DB :: bool
  USE_TICKET_EVENTS_FOR_COMMENTS :: bool
  FORCE_ORG_SNAPSHOT :: bool

definition py_str :: "env \<Rightarrow> json \<Rightarrow> string" where
  "py_str env v =
     (case v of
        JNull \<Rightarrow> ''None''
      | JBool b \<Rightarrow> (if b then ''True'' else ''False'')
      | JInt n \<Rightarrow> str_of_int n
      | JStr s \<Rightarrow> s
      | _ \<Rightarrow> repr_of env v)"

definition replace_Z :: "string \<Rightarrow> string" where
  "replace_Z s = concat (map (\<lambda>c. if c = CHR ''Z'' then ''+00:00'' else [c]) s)"

text \<open>\<open>parse_dt\<close>: every exception inside the \<open>try\<close> gives \<open>None\<close>.\<close>

definition parse_dt :: "env \<Rightarrow> json \<Rightarrow> int option" where
  "parse_dt env s =
     (if \<not> truthy s then None
      else case s of JStr t \<Rightarrow> fromisoformat env (replace_Z t) | _ \<Rightarrow> None)"

section \<open>The relational store\<close>

text \<open>
  A cell is what the driver binds for one \<open>%s\<close>: SQL \<open>NULL\<close> for \<open>None\<close>, the Python value
  otherwise, a boolean for \<open>bool(x)\<close>, an integer for a Python \<open>int\<close> argument, an instant
  for a parsed timestamp, a document for \<open>json.dumps(x)\<close> cast to \<open>jsonb\<close>, a text for a
  Python \<open>str\<close> argument. Cells are kept as bound; of the store's conversions of columns
  outside the primary key only that of the cursor token is modelled.
  A row lists its columns by name. The store maps (table, primary key) to a row, and
  \<open>INSERT ... ON CONFLICT (key) DO UPDATE SET\<close> of every other column replaces the row.
\<close>

datatype cell = Null | Val json | Flag bool | Num int | Time int | Jsonb json | Text string

datatype pkey = Row_id int | Name string | Raw string int

type_synonym row = "(string \<times> cell) list"

type_synonym db = "((string \<times> pkey) \<times> row) list"

type_synonym outcome = "db \<times> exn option"

definition param :: "json \<Rightarrow> cell" where
  "param v = (case v of JNull \<Rightarrow> Null | _ \<Rightarrow> Val v)"

definition stamp :: "int option \<Rightarrow> cell" where
  "stamp t = (case t of None \<Rightarrow> Null | Some i \<Rightarrow> Time i)"

definition num_opt :: "int option \<Rightarrow> cell" where
  "num_opt t = (case t of None \<Rightarrow> Null | Some i \<Rightarrow> Num i)"

definition text_opt :: "string option \<Rightarrow> cell" where
  "text_opt t = (case t of None \<Rightarrow> Null | Some s \<Rightarrow> Text s)"

definition put :: "string \<Rightarrow> pkey \<Rightarrow> row \<Rightarrow> db \<Rightarrow> db" where
  "put t k r d = AList.update (t, k) r d"

definition table :: "db \<Rightarrow> string \<Rightarrow> (pkey \<times> row) list" where
  "table d t = map (\<lambda>((t', k), r). (k, r)) (filter (\<lambda>((t', k), r). t' = t) d)"

definition column :: "row \<Rightarrow> string \<Rightarrow> cell option" where
  "column r c = map_of r c"

subsection \<open>Cursor state\<close>

text \<open>
  \<open>cursor_token\<close> is \<open>TEXT NOT NULL\<close>. What the store keeps of a bound token: nothing for
  \<open>None\<close> (the insert fails), the string itself unless it holds a NUL character (the driver
  refuses it), the decimal text of an integer, \<open>true\<close> or \<open>false\<close> for a boolean, the
  store's text of a list, nothing for a dict (the driver cannot adapt it).
\<close>

definition pg_text :: "env \<Rightarrow> json \<Rightarrow> string option" where
  "pg_text env v =
     (case v of
        JNull \<Rightarrow> None
      | JBool b \<Rightarrow> Some (if b then ''true'' else ''false'')
      | JInt n \<Rightarrow> Some (str_of_int n)
      | JStr t \<Rightarrow> (if CHR 0x00 \<in> set t then None else Some t)
      | JList xs \<Rightarrow> array_text env xs
      | JObj kv \<Rightarrow> None)"

text \<open>
  \<open>get_cursor_val\<close> returns the stored text, or \<open>None\<close> when the resource has no row
  (a row of \<open>sync_state\<close> always holds a text).
\<close>

definition get_cursor_val :: "db \<Rightarrow> string \<Rightarrow> json" where
  "get_cursor_val d resource =
     (case map_of d (''sync_state'', Name resource) of
        None \<Rightarrow> JNull
      | Some r \<Rightarrow> (case column r ''cursor_token'' of Some (Text t) \<Rightarrow> JStr t | _ \<Rightarrow> JNull))"

definition set_cursor_val :: "env \<Rightarrow> db \<Rightarrow> string \<Rightarrow> json \<Rightarrow> db \<times> exn option" where
  "set_cursor_val env d resource token =
     (case pg_text env token of
        None \<Rightarrow> (d, Some Db_error)
      | Some t \<Rightarrow>
          (put ''sync_state'' (Name resource)
             [(''cursor_token'', Text t), (''updated_at'', Time (now env))] d,
           None))"

subsection \<open>Raw payload upsert\<close>

definition upsert_raw :: "env \<Rightarrow> db \<Rightarrow> string \<Rightarrow> int \<Rightarrow> json \<Rightarrow> json \<Rightarrow> outcome" where
  "upsert_raw env d resource entity_id updated_at payload =
     (case pg_bigint env (JInt entity_id) of
        None \<Rightarrow> (d, Some Db_error)
      | Some k \<Rightarrow>
          (put ''raw_snapshots'' (Raw resource k)
             [(''updated_at'', stamp (parse_dt env updated_at)), (''payload_json'', Jsonb payload)] d,
           None))"

text \<open>
  The tail shared by the structured upserts: \<open>upsert_raw(conn, R, int(x["id"]), ts, x)\<close>,
  whose argument \<open>int(x["id"])\<close> can raise before the call.
\<close>

definition raw_by_id :: "env \<Rightarrow> db \<Rightarrow> string \<Rightarrow> (string \<times> json) list \<Rightarrow> json \<Rightarrow> outcome" where
  "raw_by_id env d resource kv updated_at =
     (case dindex kv ''id'' of
        Inl e \<Rightarrow> (d, Some e)
      | Inr i \<Rightarrow>
          (case py_int i of
             Inl e \<Rightarrow> (d, Some e)
           | Inr n \<Rightarrow> upsert_raw env d resource n updated_at (JObj kv)))"

text \<open>
  The head shared by the structured upserts on a \<open>BIGINT\<close> key: the \<open>INSERT\<close> fails when
  the store cannot take the bound id as a \<open>BIGINT\<close> (\<open>NULL\<close> included).
\<close>

definition insert_by_id :: "env \<Rightarrow> db \<Rightarrow> string \<Rightarrow> json \<Rightarrow> row \<Rightarrow> outcome" where
  "insert_by_id env d t i r =
     (case pg_bigint env i of
        None \<Rightarrow> (d, Some Db_error)
      | Some k \<Rightarrow> (put t (Row_id k) r d, None))"

definition and_then :: "outcome \<Rightarrow> (db \<Rightarrow> outcome) \<Rightarrow> outcome" where
  "and_then m f = (case m of (d, None) \<Rightarrow> f d | (d, Some e) \<Rightarrow> (d, Some e))"

section \<open>Structured upserts of backup.py\<close>

definition upsert_user :: "env \<Rightarrow> db \<Rightarrow> json \<Rightarrow> outcome" where
  "upsert_user env d u =
     (case u of
        JObj kv \<Rightarrow>
          and_then
            (insert_by_id env d ''users'' (dget kv ''id'')
               [(''name'', param (dget kv ''name'')),
                (''email'', param (dget kv ''email'')),
                (''role'', param (dget kv ''role'')),
                (''role_type'', param (dget kv ''role_type'')),
                (''active'', Flag (truthy (dget kv ''active''))),
                (''suspended'', Flag (truthy (dget kv ''suspended''))),
                (''organization_id'', param (dget kv ''organization_id'')),
                (''phone'', param (dget kv ''phone'')),
                (''locale'', param (dget kv ''locale'')),
                (''time_zone'', param (dget kv ''time_zone'')),
                (''created_at'', stamp (parse_dt env (dget kv ''created_at''))),
                (''updated_at'', stamp (parse_dt env (dget kv ''updated_at''))),
                (''last_login_at'', stamp (parse_dt env (dget kv ''last_login_at''))),
                (''tags_json'', Jsonb (por (dget kv ''tags'') (JList []))),
                (''user_fields_json'', Jsonb (por (dget kv ''user_fields'') (JObj []))),
                (''photo_json'', Jsonb (por (dget kv ''photo'') (JObj [])))])
            (\<lambda>d1. raw_by_id env d1 ''users'' kv (dget kv ''updated_at''))
      | _ \<Rightarrow> (d, Some Attribute_error))"

definition upsert_org :: "env \<Rightarrow> db \<Rightarrow> json \<Rightarrow> outcome" where
  "upsert_org env d org =
     (case org of
        JObj kv \<Rightarrow>
          and_then
            (insert_by_id env d ''organizations'' (dget kv ''id'')
               [(''name'', param (dget kv ''name'')),
                (''external_id'', param (dget kv ''external_id'')),
                (''group_id'', param (dget kv ''group_id'')),
                (''details'', param (dget kv ''details'')),
                (''notes'', param (dget kv ''notes'')),
                (''shared_tickets'', Flag (truthy (dget kv ''shared_tickets''))),
                (''shared_comments'', Flag (truthy (dget kv ''shared_comments''))),
                (''domain_names_json'', Jsonb (por (dget kv ''domain_names'') (JList []))),
                (''tags_json'', Jsonb (por (dget kv ''tags'') (JList []))),
                (''organization_fields_json'', Jsonb (por (dget kv ''organization_fields'') (JObj []))),
                (''created_at'', stamp (parse_dt env (dget kv ''created_at''))),
                (''updated_at'', stamp (parse_dt env (dget kv ''updated_at'')))])
            (\<lambda>d1. raw_by_id env d1 ''organizations'' kv (dget kv ''updated_at''))
      | _ \<Rightarrow> (d, Some Attribute_error))"

definition upsert_ticket :: "env \<Rightarrow> db \<Rightarrow> json \<Rightarrow> outcome" where
  "upsert_ticket env d t =
     (case t of
        JObj kv \<Rightarrow>
          and_then
            (insert_by_id env d ''tickets'' (dget kv ''id'')
               [(''subject'', param (dget kv ''subject'')),
                (''description'', param (dget kv ''description'')),
                (''status'', param (dget kv ''status'')),
                (''priority'', param (dget kv ''priority'')),
                (''type'', param (dget kv ''type'')),
                (''requester_id'', param (dget kv ''requester_id'')),
                (''assignee_id'', param (dget kv ''assignee_id'')),
                (''organization_id'', param (dget kv ''organization_id'')),
                (''created_at'', stamp (parse_dt env (dget kv ''created_at''))),
                (''updated_at'', stamp (parse_dt env (dget kv ''updated_at''))),
                (''due_at'', stamp (parse_dt env (dget kv ''due_at'')))])
            (\<lambda>d1. raw_by_id env d1 ''tickets'' kv (dget kv ''updated_at''))
      | _ \<Rightarrow> (d, Some Attribute_error))"

text \<open>\<open>DELETE FROM t WHERE ticket_id = n\<close> and \<open>DELETE FROM tickets WHERE id = n\<close>.\<close>

definition delete_where_ticket :: "string \<Rightarrow> int \<Rightarrow> db \<Rightarrow> db" where
  "delete_where_ticket t n d =
     filter (\<lambda>((t', k), r). \<not> (t' = t \<and> column r ''ticket_id'' = Some (Num n))) d"

definition delete_ticket :: "db \<Rightarrow> int \<Rightarrow> db" where
  "delete_ticket d ticket_id =
     (let d1 = delete_where_ticket ''attachments'' ticket_id d;
          d2 = delete_where_ticket ''ticket_comments'' ticket_id d1
      in filter (\<lambda>((t', k), r). \<not> (t' = ''tickets'' \<and> k = Row_id ticket_id)) d2)"

definition upsert_comment :: "env \<Rightarrow> db \<Rightarrow> int \<Rightarrow> json \<Rightarrow> outcome" where
  "upsert_comment env d ticket_id c =
     (case c of
        JObj kv \<Rightarrow>
          and_then
            (insert_by_id env d ''ticket_comments'' (dget kv ''id'')
               [(''ticket_id'', Num ticket_id),
                (''author_id'', param (dget kv ''author_id'')),
                (''public'', Flag (truthy (dget kv ''public''))),
                (''body'', param (dget kv ''body'')),
                (''created_at'', stamp (parse_dt env (dget kv ''created_at''))),
                (''updated_at'', stamp (parse_dt env (por (dget kv ''updated_at'') (dget kv ''created_at''))))])
            (\<lambda>d1. raw_by_id env d1 ''comments'' kv (por (dget kv ''updated_at'') (dget kv ''created_at'')))
      | _ \<Rightarrow> (d, Some Attribute_error))"

definition upsert_attachment :: "env \<Rightarrow> db \<Rightarrow> int \<Rightarrow> int option \<Rightarrow> json \<Rightarrow> string option \<Rightarrow> outcome" where
  "upsert_attachment env d ticket_id comment_id a local_path =
     (case a of
        JObj kv \<Rightarrow>
          and_then
            (insert_by_id env d ''attachments'' (dget kv ''id'')
               [(''ticket_id'', Num ticket_id),
                (''comment_id'', num_opt comment_id),
                (''file_name'', param (dget kv ''file_name'')),
                (''content_url'', param (dget kv ''content_url'')),
                (''local_path'', text_opt local_path),
                (''content_type'', param (dget kv ''content_type'')),
                (''size'', param (dget kv ''size'')),
                (''thumbnails_json'', Jsonb (por (dget kv ''thumbnails'') (JList []))),
                (''created_at'', stamp (parse_dt env (dget kv ''created_at'')))])
            (\<lambda>d1. raw_by_id env d1 ''attachments'' kv (dget kv ''created_at''))
      | _ \<Rightarrow> (d, Some Attribute_error))"

definition upsert_view :: "env \<Rightarrow> db \<Rightarrow> json \<Rightarrow> outcome" where
  "upsert_view env d v =
     (case v of
        JObj kv \<Rightarrow>
          and_then
            (insert_by_id env d ''views'' (dget kv ''id'')
               [(''title'', param (dget kv ''title'')),
                (''description'', param (dget kv ''description'')),
                (''active'', Flag (truthy (dget kv ''active''))),
                (''position'', param (dget kv ''position'')),
                (''default_view'', Flag (truthy (dget kv ''default''))),
                (''restriction_json'', Jsonb (dget kv ''restriction'')),
                (''execution_json'', Jsonb (dget kv ''execution'')),
                (''conditions_json'', Jsonb (dget kv ''conditions'')),
                (''created_at'', stamp (parse_dt env (dget kv ''created_at''))),
                (''updated_at'', stamp (parse_dt env (dget kv ''updated_at'')))])
            (\<lambda>d1. raw_by_id env d1 ''views'' kv (dget kv ''updated_at''))
      | _ \<Rightarrow> (d, Some Attribute_error))"

definition upsert_trigger :: "env \<Rightarrow> db \<Rightarrow> json \<Rightarrow> outcome" where
  "upsert_trigger env d t =
     (case t of
        JObj kv \<Rightarrow>
          and_then
            (insert_by_id env d ''triggers'' (dget kv ''id'')
               [(''title'', param (dget kv ''title'')),
                (''description'', param (dget kv ''description'')),
                (''active'', Flag (truthy (dget kv ''active''))),
                (''position'', param (dget kv ''position'')),
                (''category_id'', param (dget kv ''category_id'')),
                (''raw_title'', param (dget kv ''raw_title'')),
                (''default_trigger'', Flag (truthy (dget kv ''default''))),
                (''conditions_json'', Jsonb (por (dget kv ''conditions'') (JObj []))),
                (''actions_json'', Jsonb (por (dget kv ''actions'') (JList []))),
                (''created_at'', stamp (parse_dt env (dget kv ''created_at''))),
                (''updated_at'', stamp (parse_dt env (dget kv ''updated_at'')))])
            (\<lambda>d1. raw_by_id env d1 ''triggers'' kv (dget kv ''updated_at''))
      | _ \<Rightarrow> (d, Some Attribute_error))"

text \<open>
  Trigger categories are keyed by the text \<open>str(c.get("id"))\<close>. The raw key is
  \<open>int(c["id"])\<close>, or \<open>abs(hash(str(c["id"]))) % 10**15\<close> when that raises; a missing
  \<open>id\<close> raises again inside the handler.
\<close>

definition upsert_trigger_category :: "env \<Rightarrow> db \<Rightarrow> json \<Rightarrow> outcome" where
  "upsert_trigger_category env d c =
     (case c of
        JObj kv \<Rightarrow>
          (let d1 = put ''trigger_categories'' (Name (py_str env (dget kv ''id'')))
                      [(''name'', param (dget kv ''name'')),
                       (''position'', param (dget kv ''position'')),
                       (''created_at'', stamp (parse_dt env (dget kv ''created_at''))),
                       (''updated_at'', stamp (parse_dt env (dget kv ''updated_at'')))] d
           in case dindex kv ''id'' of
                Inl e \<Rightarrow> (d1, Some e)
              | Inr i \<Rightarrow>
                  upsert_raw env d1 ''trigger_categories''
                    (case py_int i of
                       Inr n \<Rightarrow> n
                     | Inl e \<Rightarrow> \<bar>hash_str env (py_str env i)\<bar> mod 10 ^ 15)
                    (dget kv ''updated_at'') c)
      | _ \<Rightarrow> (d, Some Attribute_error))"

definition upsert_macro :: "env \<Rightarrow> db \<Rightarrow> json \<Rightarrow> outcome" where
  "upsert_macro env d m =
     (case m of
        JObj kv \<Rightarrow>
          and_then
            (insert_by_id env d ''macros'' (dget kv ''id'')
               [(''title'', param (dget kv ''title'')),
                (''description'', param (dget kv ''description'')),
                (''active'', Flag (truthy (dget kv ''active''))),
                (''position'', param (dget kv ''position'')),
                (''default_macro'', Flag (truthy (dget kv ''default''))),
                (''restriction_json'', Jsonb (dget kv ''restriction'')),
                (''actions_json'', Jsonb (por (dget kv ''actions'') (JList []))),
                (''created_at'', stamp (parse_dt env (dget kv ''created_at''))),
                (''updated_at'', stamp (parse_dt env (dget kv ''updated_at'')))])
            (\<lambda>d1. raw_by_id env d1 ''macros'' kv (dget kv ''updated_at''))
      | _ \<Rightarrow> (d, Some Attribute_error))"

section \<open>Pages of entities\<close>

text \<open>\<open>for x in items: f(conn, x)\<close>: the first exception leaves the loop.\<close>

fun run_page :: "(db \<Rightarrow> 'e \<Rightarrow> outcome) \<Rightarrow> db \<Rightarrow> 'e list \<Rightarrow> outcome" where
  "run_page f d [] = (d, None)"
| "run_page f d (x # xs) = and_then (f d x) (\<lambda>d1. run_page f d1 xs)"

section \<open>The retrying fetcher\<close>

text \<open>
  The remote API is a script: each \<open>SESSION.get\<close> takes the next event, a response
  (status, \<open>Retry-After\<close> header, the result of \<open>resp.json()\<close> or \<open>None\<close> when it raises,
  \<open>resp.text\<close>) or a network error. A run that asks for more than the script holds ends
  with \<open>Script_end\<close>. Request parameters and sleep durations have no effect on the store
  and are not part of the model.
\<close>

datatype http_event = Response int "string option" "json option" string | Net_error

type_synonym script = "http_event list"

definition RETRY_STATUS :: "int set" where
  "RETRY_STATUS = {429, 500, 502, 503, 504}"

definition failure_detail :: "json option \<Rightarrow> string \<Rightarrow> json" where
  "failure_detail body txt = (case body of Some j \<Rightarrow> j | None \<Rightarrow> JObj [(''text'', JStr (take 300 txt))])"

fun get_with_retry_loop :: "env \<Rightarrow> string \<Rightarrow> nat \<Rightarrow> script \<Rightarrow> (exn + json) \<times> script" where
  "get_with_retry_loop env url 0 s = (Inl (Fetch_exhausted url), s)"
| "get_with_retry_loop env url (Suc n) [] = (Inl Script_end, [])"
| "get_with_retry_loop env url (Suc n) (Net_error # s) = (Inl Request_exception, s)"
| "get_with_retry_loop env url (Suc n) (Response st ra body txt # s) =
     (if st = 200 then
        (case body of None \<Rightarrow> (Inl Json_decode_error, s) | Some j \<Rightarrow> (Inr j, s))
      else if st \<in> RETRY_STATUS then
        (case ra of
           None \<Rightarrow> get_with_retry_loop env url n s
         | Some h \<Rightarrow>
             if h = [] then get_with_retry_loop env url n s
             else if \<not> float_parses env h then (Inl Value_error, s)
             else if \<not> sleep_accepts env h then (Inl Value_error, s)
             else get_with_retry_loop env url n s)
      else (Inl (Fetch_failed url st (failure_detail body txt)), s))"

definition get_with_retry :: "env \<Rightarrow> string \<Rightarrow> script \<Rightarrow> (exn + json) \<times> script" where
  "get_with_retry env url s = get_with_retry_loop env url 8 s"

text \<open>
  An attempt that the fetcher retries: a status of \<open>RETRY_STATUS\<close>, and a retry hint
  that is absent, empty, or a number \<open>time.sleep\<close> takes.
\<close>

definition retryable :: "env \<Rightarrow> http_event \<Rightarrow> bool" where
  "retryable env ev =
     (case ev of
        Response st ra body tx \<Rightarrow>
          st \<noteq> 200 \<and> st \<in> RETRY_STATUS
          \<and> (case ra of None \<Rightarrow> True | Some h \<Rightarrow> h = [] \<or> (float_parses env h \<and> sleep_accepts env h))
      | Net_error \<Rightarrow> False)"

text \<open>\<open>page.get(key) or page.get("links", {}).get("next")\<close>.\<close>

definition next_link :: "string \<Rightarrow> json \<Rightarrow> exn + json" where
  "next_link key page =
     (case pget page key of
        Inl e \<Rightarrow> Inl e
      | Inr n \<Rightarrow>
          if truthy n then Inr n
          else (case pget_default page ''links'' (JObj []) of
                  Inl e \<Rightarrow> Inl e
                | Inr l \<Rightarrow> pget l ''next''))"

lemma get_with_retry_loop_length:
  "get_with_retry_loop env url n s = (r, s') \<Longrightarrow> length s' \<le> length s"
proof (induction env url n s rule: get_with_retry_loop.induct)
  case (4 env url n st ra body tx s)
  then show ?case
    by (auto split: if_splits option.splits simp: le_Suc_eq)
qed auto

lemma get_with_retry_loop_shorter:
  "get_with_retry_loop env url n s = (Inr p, s') \<Longrightarrow> length s' < length s"
proof (induction env url n s rule: get_with_retry_loop.induct)
  case (4 env url n st ra body tx s)
  then show ?case
    by (auto split: if_splits option.splits simp: less_Suc_eq)
qed auto

lemma get_with_retry_shorter:
  "get_with_retry env url s = (Inr p, s') \<Longrightarrow> length s' < length s"
  unfolding get_with_retry_def by (rule get_with_retry_loop_shorter)

lemma get_with_retry_length:
  "get_with_retry env url s = (r, s') \<Longrightarrow> length s' \<le> length s"
  unfolding get_with_retry_def by (rule get_with_retry_loop_length)

section \<open>Sync: users\<close>

text \<open>The body of the page loop: upsert every user, then checkpoint the cursor.\<close>

definition users_page :: "env \<Rightarrow> db \<Rightarrow> json \<Rightarrow> outcome" where
  "users_page env d page =
     (case page of
        JObj kv \<Rightarrow>
          (case iter_items (dget_default kv ''users'' (JList [])) of
             Inl e \<Rightarrow> (d, Some e)
           | Inr us \<Rightarrow>
               and_then (run_page (upsert_user env) d us)
                 (\<lambda>d1. if truthy (dget kv ''after_cursor'')
                       then set_cursor_val env d1 ''users'' (dget kv ''after_cursor'')
                       else (d1, None)))
      | _ \<Rightarrow> (d, Some Attribute_error))"

function users_pages :: "env \<Rightarrow> db \<Rightarrow> json \<Rightarrow> script \<Rightarrow> outcome \<times> script" where
  "users_pages env d page s =
     (case users_page env d page of
        (d1, Some e) \<Rightarrow> ((d1, Some e), s)
      | (d1, None) \<Rightarrow>
          (case pget page ''end_of_stream'' of
             Inl e \<Rightarrow> ((d1, Some e), s)
           | Inr eos \<Rightarrow>
               if truthy eos then ((d1, None), s)
               else (case next_link ''after_url'' page of
                       Inl e \<Rightarrow> ((d1, Some e), s)
                     | Inr nxt \<Rightarrow>
                         if \<not> truthy nxt then ((d1, None), s)
                         else (case get_with_retry env (py_str env nxt) s of
                                 (Inl e, s') \<Rightarrow> ((d1, Some e), s')
                               | (Inr p, s') \<Rightarrow> users_pages env d1 p s'))))"
  by pat_completeness auto
termination
  by (relation "measure (\<lambda>(env, d, page, s). length s)")
    (auto dest: get_with_retry_shorter [OF sym])

definition sync_users :: "env \<Rightarrow> db \<Rightarrow> script \<Rightarrow> outcome \<times> script" where
  "sync_users env d s =
     (case get_with_retry env (Z_BASE env @ ''/api/v2/incremental/users/cursor.json'') s of
        (Inl e, s') \<Rightarrow> ((d, Some e), s')
      | (Inr first, s') \<Rightarrow> users_pages env d first s')"

section \<open>Sync: organizations\<close>

datatype org_mode = Snapshot_complete | Incremental_complete

type_synonym org_result = "(db \<times> (exn + org_mode)) \<times> script"

definition set_now_cursor :: "env \<Rightarrow> db \<Rightarrow> outcome" where
  "set_now_cursor env d = set_cursor_val env d ''organizations'' (JStr (str_of_int (now env - 60)))"

function snapshot_pages :: "env \<Rightarrow> db \<Rightarrow> json \<Rightarrow> script \<Rightarrow> outcome \<times> script" where
  "snapshot_pages env d page s =
     (case page of
        JObj kv \<Rightarrow>
          (case iter_items (dget_default kv ''organizations'' (JList [])) of
             Inl e \<Rightarrow> ((d, Some e), s)
           | Inr orgs \<Rightarrow>
               (case run_page (upsert_org env) d orgs of
                  (d1, Some e) \<Rightarrow> ((d1, Some e), s)
                | (d1, None) \<Rightarrow>
                    (case next_link ''next_page'' page of
                       Inl e \<Rightarrow> ((d1, Some e), s)
                     | Inr nxt \<Rightarrow>
                         if \<not> truthy nxt then ((d1, None), s)
                         else (case get_with_retry env (py_str env nxt) s of
                                 (Inl e, s') \<Rightarrow> ((d1, Some e), s')
                               | (Inr p, s') \<Rightarrow> snapshot_pages env d1 p s'))))
      | _ \<Rightarrow> ((d, Some Attribute_error), s))"
  by pat_completeness auto
termination
  by (relation "measure (\<lambda>(env, d, page, s). length s)")
    (auto dest: get_with_retry_shorter [OF sym])

definition snapshot_once :: "env \<Rightarrow> db \<Rightarrow> script \<Rightarrow> org_result" where
  "snapshot_once env d s =
     (case get_with_retry env (Z_BASE env @ ''/api/v2/organizations.json'') s of
        (Inl e, s') \<Rightarrow> ((d, Inl e), s')
      | (Inr page, s') \<Rightarrow>
          (case snapshot_pages env d page s' of
             ((d1, Some e), s'') \<Rightarrow> ((d1, Inl e), s'')
           | ((d1, None), s'') \<Rightarrow>
               (case set_now_cursor env d1 of
                  (d2, Some e) \<Rightarrow> ((d2, Inl e), s'')
                | (d2, None) \<Rightarrow> ((d2, Inr Snapshot_complete), s''))))"

text \<open>
  The loop over one incremental page's organizations: \<open>seen_ids\<close> is a list without
  repetitions, so its length is the size of the Python set.
\<close>

fun org_items :: "env \<Rightarrow> db \<Rightarrow> int list \<Rightarrow> json list \<Rightarrow> outcome \<times> int list" where
  "org_items env d seen [] = ((d, None), seen)"
| "org_items env d seen (x # xs) =
     (case x of
        JObj kv \<Rightarrow>
          (let seen1 =
                 (if dget kv ''id'' = JNull then seen
                  else (case py_int (dget kv ''id'') of
                          Inr n \<Rightarrow> List.insert n seen
                        | Inl e \<Rightarrow> seen))
           in case upsert_org env d x of
                (d1, Some e) \<Rightarrow> ((d1, Some e), seen1)
              | (d1, None) \<Rightarrow> org_items env d1 seen1 xs)
      | _ \<Rightarrow> ((d, Some Attribute_error), seen))"

text \<open>One incremental page: the new store, and on success the new \<open>seen_ids\<close>,
  \<open>len(orgs)\<close> and \<open>added_unique\<close>.\<close>

definition org_page :: "env \<Rightarrow> db \<Rightarrow> int list \<Rightarrow> json \<Rightarrow> db \<times> (exn + int list \<times> nat \<times> nat)" where
  "org_page env d seen page =
     (case page of
        JObj kv \<Rightarrow>
          (case iter_items (dget_default kv ''organizations'' (JList [])) of
             Inl e \<Rightarrow> (d, Inl e)
           | Inr orgs \<Rightarrow>
               (case org_items env d seen orgs of
                  ((d1, Some e), seen1) \<Rightarrow> (d1, Inl e)
                | ((d1, None), seen1) \<Rightarrow>
                    (let end_time = dget kv ''end_time''
                     in case (if truthy end_time
                              then set_cursor_val env d1 ''organizations'' (JStr (py_str env end_time))
                              else (d1, None)) of
                          (d2, Some e) \<Rightarrow> (d2, Inl e)
                        | (d2, None) \<Rightarrow> (d2, Inr (seen1, length orgs, length seen1 - length seen)))))
      | _ \<Rightarrow> (d, Inl Attribute_error))"

fun org_loop :: "env \<Rightarrow> db \<Rightarrow> int list \<Rightarrow> nat \<Rightarrow> script \<Rightarrow> org_result" where
  "org_loop env d seen dup_only_streak [] = ((d, Inl Script_end), [])"
| "org_loop env d seen dup_only_streak (Net_error # s) = org_loop env d seen dup_only_streak s"
| "org_loop env d seen dup_only_streak (Response st ra body tx # s) =
     (if st = 200 then
        (case body of
           None \<Rightarrow> ((d, Inl Json_decode_error), s)
         | Some page \<Rightarrow>
             (case org_page env d seen page of
                (d1, Inl e) \<Rightarrow> ((d1, Inl e), s)
              | (d1, Inr (seen1, n, added_unique)) \<Rightarrow>
                  (let streak1 = (if n > 0 \<and> added_unique = 0 then dup_only_streak + 1 else 0)
                   in if streak1 \<ge> 3 then snapshot_once env d1 s
                      else (case pget page ''next_page'' of
                              Inl e \<Rightarrow> ((d1, Inl e), s)
                            | Inr nxt \<Rightarrow>
                                if \<not> truthy nxt then ((d1, Inr Incremental_complete), s)
                                else org_loop env d1 seen1 streak1 s))))
      else if st = 429 then
        (case ra of
           None \<Rightarrow> org_loop env d seen dup_only_streak s
         | Some h \<Rightarrow>
             if h \<noteq> [] \<and> \<not> float_parses env h then ((d, Inl Value_error), s)
             else org_loop env d seen dup_only_streak s)
      else if st \<in> RETRY_STATUS then org_loop env d seen dup_only_streak s
      else ((d, Inl (Organizations_get_failed st (failure_detail body tx))), s))"

definition sync_organizations :: "env \<Rightarrow> db \<Rightarrow> script \<Rightarrow> org_result" where
  "sync_organizations env d s =
     (let last_epoch = get_cursor_val d ''organizations''
      in if FORCE_ORG_SNAPSHOT env \<or> \<not> truthy last_epoch then snapshot_once env d s
         else (case py_int last_epoch of
                 Inl e \<Rightarrow> ((d, Inl e), s)
               | Inr start_time \<Rightarrow> org_loop env d [] 0 s))"

section \<open>Sync: tickets, comments, attachments\<close>

text \<open>
  One attachment of a comment: \<open>download_attachment(tid, int(cid), a)\<close>, then
  \<open>upsert_attachment(conn, tid, int(cid), a, local_path)\<close>.
\<close>

definition attach :: "env \<Rightarrow> int \<Rightarrow> json \<Rightarrow> db \<Rightarrow> json \<Rightarrow> outcome" where
  "attach env tid cid d a =
     (case py_int cid of
        Inl e \<Rightarrow> (d, Some e)
      | Inr n \<Rightarrow>
          (case download_attachment env tid n a of
             Inl e \<Rightarrow> (d, Some e)
           | Inr local_path \<Rightarrow> upsert_attachment env d tid (Some n) a local_path))"

definition comment_step :: "env \<Rightarrow> int \<Rightarrow> db \<Rightarrow> json \<Rightarrow> outcome" where
  "comment_step env tid d c =
     and_then (upsert_comment env d tid c)
       (\<lambda>d1. case c of
                JObj kv \<Rightarrow>
                  (case iter_items (por (dget kv ''attachments'') (JList [])) of
                     Inl e \<Rightarrow> (d1, Some e)
                   | Inr atts \<Rightarrow> run_page (attach env tid (por (dget kv ''id'') (JInt 0))) d1 atts)
              | _ \<Rightarrow> (d1, Some Attribute_error))"

definition comments_page :: "env \<Rightarrow> int \<Rightarrow> db \<Rightarrow> json \<Rightarrow> outcome" where
  "comments_page env tid d cpage =
     (case cpage of
        JObj kv \<Rightarrow>
          (case iter_items (dget_default kv ''comments'' (JList [])) of
             Inl e \<Rightarrow> (d, Some e)
           | Inr cs \<Rightarrow> run_page (comment_step env tid) d cs)
      | _ \<Rightarrow> (d, Some Attribute_error))"

text \<open>\<open>for cpage in iter_list_pages(comments_url, ...)\<close>, from the page already fetched.\<close>

function comment_pages :: "env \<Rightarrow> int \<Rightarrow> db \<Rightarrow> json \<Rightarrow> script \<Rightarrow> outcome \<times> script" where
  "comment_pages env tid d cpage s =
     (case comments_page env tid d cpage of
        (d1, Some e) \<Rightarrow> ((d1, Some e), s)
      | (d1, None) \<Rightarrow>
          (case next_link ''next_page'' cpage of
             Inl e \<Rightarrow> ((d1, Some e), s)
           | Inr nxt \<Rightarrow>
               if \<not> truthy nxt then ((d1, None), s)
               else (case get_with_retry env (py_str env nxt) s of
                       (Inl e, s') \<Rightarrow> ((d1, Some e), s')
                     | (Inr p, s') \<Rightarrow> comment_pages env tid d1 p s')))"
  by pat_completeness auto
termination
  by (relation "measure (\<lambda>(env, tid, d, cpage, s). length s)")
    (auto dest: get_with_retry_shorter [OF sym])

text \<open>
  One ticket of a page. After \<open>upsert_ticket\<close> has returned, \<open>t["id"]\<close> exists and
  \<open>int(t["id"])\<close> has already succeeded inside it, so the ticket id is computed once here.
\<close>

definition ticket_step :: "env \<Rightarrow> db \<Rightarrow> json \<Rightarrow> script \<Rightarrow> outcome \<times> script" where
  "ticket_step env d t s =
     (case t of
        JObj kv \<Rightarrow>
          (case por (dget kv ''status'') (JStr []) of
             JStr status \<Rightarrow>
               (let is_closed = (lower status = ''closed'')
                in if CLOSED_TICKETS_ONLY env \<and> \<not> is_closed then
                     (if PRUNE_REOPENED_FROM_DB env then
                        (case dindex kv ''id'' of
                           Inl e \<Rightarrow> ((d, Some e), s)
                         | Inr i \<Rightarrow>
                             (case py_int i of
                                Inl e \<Rightarrow> ((d, Some e), s)
                              | Inr n \<Rightarrow> ((delete_ticket d n, None), s)))
                      else ((d, None), s))
                   else
                     (case upsert_ticket env d t of
                        (d1, Some e) \<Rightarrow> ((d1, Some e), s)
                      | (d1, None) \<Rightarrow>
                          if USE_TICKET_EVENTS_FOR_COMMENTS env then ((d1, None), s)
                          else
                            (case dindex kv ''id'' of
                               Inl e \<Rightarrow> ((d1, Some e), s)
                             | Inr i \<Rightarrow>
                                 (case py_int i of
                                    Inl e \<Rightarrow> ((d1, Some e), s)
                                  | Inr tid \<Rightarrow>
                                      (case get_with_retry env
                                              (Z_BASE env @ ''/api/v2/tickets/'' @ py_str env i @ ''/comments.json'') s of
                                         (Inl e, s') \<Rightarrow> ((d1, Some e), s')
                                       | (Inr cpage, s') \<Rightarrow> comment_pages env tid d1 cpage s')))))
           | _ \<Rightarrow> ((d, Some Attribute_error), s))
      | _ \<Rightarrow> ((d, Some Attribute_error), s))"

fun tickets_items :: "env \<Rightarrow> db \<Rightarrow> json list \<Rightarrow> script \<Rightarrow> outcome \<times> script" where
  "tickets_items env d [] s = ((d, None), s)"
| "tickets_items env d (t # ts) s =
     (case ticket_step env d t s of
        ((d1, Some e), s1) \<Rightarrow> ((d1, Some e), s1)
      | ((d1, None), s1) \<Rightarrow> tickets_items env d1 ts s1)"

text \<open>The body for one page of tickets: every ticket, then the cursor checkpoint.\<close>

definition tickets_page :: "env \<Rightarrow> db \<Rightarrow> json \<Rightarrow> script \<Rightarrow> outcome \<times> script" where
  "tickets_page env d page s =
     (case page of
        JObj kv \<Rightarrow>
          (case iter_items (dget_default kv ''tickets'' (JList [])) of
             Inl e \<Rightarrow> ((d, Some e), s)
           | Inr ts \<Rightarrow>
               (case tickets_items env d ts s of
                  ((d1, Some e), s1) \<Rightarrow> ((d1, Some e), s1)
                | ((d1, None), s1) \<Rightarrow>
                    (if truthy (dget kv ''after_cursor'')
                     then set_cursor_val env d1 ''tickets'' (dget kv ''after_cursor'')
                     else (d1, None), s1)))
      | _ \<Rightarrow> ((d, Some Attribute_error), s))"

lemma comment_pages_length:
  "length (snd (comment_pages env tid d cpage s)) \<le> length s"
proof (induction env tid d cpage s rule: comment_pages.induct)
  case (1 env tid d cpage s)
  show ?case
  proof (cases "comments_page env tid d cpage")
    case (Pair d1 e)
    show ?thesis
    proof (cases e)
      case (Some x)
      then show ?thesis using Pair by (subst comment_pages.simps) simp
    next
      case None
      show ?thesis
      proof (cases "next_link ''next_page'' cpage")
        case (Inl x)
        then show ?thesis using Pair None by (subst comment_pages.simps) simp
      next
        case (Inr nxt)
        show ?thesis
        proof (cases "truthy nxt")
          case False
          then show ?thesis using Pair None Inr by (subst comment_pages.simps) simp
        next
          case True
          obtain r s' where g: "get_with_retry env (py_str env nxt) s = (r, s')"
            by (cases "get_with_retry env (py_str env nxt) s")
          show ?thesis
          proof (cases r)
            case (Inl x)
            then show ?thesis using Pair None Inr True g get_with_retry_length [OF g]
              by (subst comment_pages.simps) simp
          next
            case (Inr p)
            have "length (snd (comment_pages env tid d1 p s')) \<le> length s'"
              using "1.IH" [OF Pair [symmetric] None \<open>next_link ''next_page'' cpage = Inr nxt\<close> _ g [symmetric, unfolded Inr] refl] True
              by simp
            moreover have "length s' < length s"
              using get_with_retry_shorter g Inr by blast
            ultimately show ?thesis using Pair None \<open>next_link ''next_page'' cpage = Inr nxt\<close> True g Inr
              by (subst comment_pages.simps) simp
          qed
        qed
      qed
    qed
  qed
qed

lemma ticket_step_length:
  "length (snd (ticket_step env d t s)) \<le> length s"
proof -
  have a: "length (snd (case get_with_retry env u s of
                 (Inl e, s') \<Rightarrow> ((d1, Some e), s')
               | (Inr cpage, s') \<Rightarrow> comment_pages env tid d1 cpage s')) \<le> length s" for u d1 tid
  proof (cases "get_with_retry env u s")
    case (Pair r s')
    then show ?thesis
      using get_with_retry_length [OF Pair] comment_pages_length [of env tid d1 _ s']
      by (cases r) (auto intro: order_trans)
  qed
  show ?thesis
    unfolding ticket_step_def Let_def
    by (simp add: a split: json.split prod.split option.split sum.split)
qed

lemma tickets_items_length:
  "length (snd (tickets_items env d ts s)) \<le> length s"
proof (induction ts arbitrary: d s)
  case Nil
  then show ?case by simp
next
  case (Cons t ts)
  obtain d1 e s1 where st: "ticket_step env d t s = ((d1, e), s1)"
    by (cases "ticket_step env d t s") auto
  have "length s1 \<le> length s"
    using ticket_step_length [of env d t s] st by simp
  then show ?case
    using st Cons.IH [of d1 s1] by (cases e) auto
qed

lemma tickets_items_lengthD:
  "tickets_items env d ts s = (r, s') \<Longrightarrow> length s' \<le> length s"
  using tickets_items_length [of env d ts s] by simp

lemma tickets_page_length:
  "tickets_page env d page s = (r, s') \<Longrightarrow> length s' \<le> length s"
  unfolding tickets_page_def
  by (auto split: json.splits prod.splits option.splits sum.splits dest: tickets_items_lengthD)

function tickets_loop :: "env \<Rightarrow> db \<Rightarrow> script \<Rightarrow> outcome \<times> script" where
  "tickets_loop env d [] = ((d, Some Script_end), [])"
| "tickets_loop env d (Net_error # s) = tickets_loop env d s"
| "tickets_loop env d (Response st ra body tx # s) =
     (if st = 200 then
        (case body of
           None \<Rightarrow> ((d, Some Json_decode_error), s)
         | Some page \<Rightarrow>
             (case tickets_page env d page s of
                ((d1, Some e), s1) \<Rightarrow> ((d1, Some e), s1)
              | ((d1, None), s1) \<Rightarrow>
                  (case pget page ''end_of_stream'' of
                     Inl e \<Rightarrow> ((d1, Some e), s1)
                   | Inr eos \<Rightarrow>
                       if truthy eos then ((d1, None), s1)
                       else (case next_link ''after_url'' page of
                               Inl e \<Rightarrow> ((d1, Some e), s1)
                             | Inr nxt \<Rightarrow> tickets_loop env d1 s1))))
      else if st = 429 then
        (case ra of
           None \<Rightarrow> tickets_loop env d s
         | Some h \<Rightarrow>
             if h \<noteq> [] \<and> \<not> float_parses env h then ((d, Some Value_error), s)
             else tickets_loop env d s)
      else if st \<in> RETRY_STATUS then tickets_loop env d s
      else ((d, Some (Tickets_get_failed st (failure_detail body tx))), s))"
  by pat_completeness auto
termination
  by (relation "measure (\<lambda>(env, d, s). length s)")
    (auto dest!: tickets_page_length [OF sym] simp: less_Suc_eq_le)

definition sync_tickets_comments_attachments :: "env \<Rightarrow> db \<Rightarrow> script \<Rightarrow> outcome \<times> script" where
  "sync_tickets_comments_attachments env d s = tickets_loop env d s"

section \<open>Sync: comments from ticket events\<close>

text \<open>The comment built from a child event whose \<open>id\<close> is \<open>i\<close>.\<close>

definition comment_of_child_event :: "(string \<times> json) list \<Rightarrow> json \<Rightarrow> json" where
  "comment_of_child_event ce i =
     JObj [(''id'', i),
           (''author_id'', dget ce ''author_id''),
           (''public'', dget_default ce ''public'' (JBool False)),
           (''body'', dget ce ''body''),
           (''created_at'', dget ce ''created_at''),
           (''updated_at'', dget ce ''created_at''),
           (''attachments'', por (dget ce ''attachments'') (JList []))]"

definition child_step :: "env \<Rightarrow> int \<Rightarrow> db \<Rightarrow> json \<Rightarrow> outcome" where
  "child_step env tid d ce =
     (case ce of
        JObj kv \<Rightarrow>
          if por (dget kv ''event_type'') (dget kv ''type'') = JStr ''Comment'' then
            (case dindex kv ''id'' of
               Inl e \<Rightarrow> (d, Some e)
             | Inr i \<Rightarrow>
                 and_then (upsert_comment env d tid (comment_of_child_event kv i))
                   (\<lambda>d1. case iter_items (por (dget kv ''attachments'') (JList [])) of
                            Inl e \<Rightarrow> (d1, Some e)
                          | Inr atts \<Rightarrow> run_page (attach env tid i) d1 atts))
          else (d, None)
      | _ \<Rightarrow> (d, Some Attribute_error))"

text \<open>
  The closed-only filter of the event path: fetch the ticket and compare its status.
  \<open>Inr True\<close> lets the event through.
\<close>

definition closed_gate :: "env \<Rightarrow> int \<Rightarrow> script \<Rightarrow> (exn + bool) \<times> script" where
  "closed_gate env tid s =
     (if \<not> CLOSED_TICKETS_ONLY env then (Inr True, s)
      else (case get_with_retry env (Z_BASE env @ ''/api/v2/tickets/'' @ str_of_int tid @ ''.json'') s of
              (Inl e, s1) \<Rightarrow> (Inl e, s1)
            | (Inr tp, s1) \<Rightarrow>
                (case pget_default tp ''ticket'' (JObj []) of
                   Inl e \<Rightarrow> (Inl e, s1)
                 | Inr t \<Rightarrow>
                     (case pget t ''status'' of
                        Inl e \<Rightarrow> (Inl e, s1)
                      | Inr st \<Rightarrow>
                          (case por st (JStr []) of
                             JStr x \<Rightarrow> (Inr (lower x = ''closed''), s1)
                           | _ \<Rightarrow> (Inl Attribute_error, s1))))))"

definition event_step :: "env \<Rightarrow> db \<Rightarrow> json \<Rightarrow> script \<Rightarrow> outcome \<times> script" where
  "event_step env d ev s =
     (case ev of
        JObj kv \<Rightarrow>
          (case py_int (dget kv ''ticket_id'') of
             Inl e \<Rightarrow> ((d, Some e), s)
           | Inr tid \<Rightarrow>
               (case closed_gate env tid s of
                  (Inl e, s1) \<Rightarrow> ((d, Some e), s1)
                | (Inr pass, s1) \<Rightarrow>
                    if \<not> pass then ((d, None), s1)
                    else (case iter_items (por (dget kv ''child_events'') (JList [])) of
                            Inl e \<Rightarrow> ((d, Some e), s1)
                          | Inr ces \<Rightarrow> (run_page (child_step env tid) d ces, s1))))
      | _ \<Rightarrow> ((d, Some Attribute_error), s))"

fun events_items :: "env \<Rightarrow> db \<Rightarrow> json list \<Rightarrow> script \<Rightarrow> outcome \<times> script" where
  "events_items env d [] s = ((d, None), s)"
| "events_items env d (ev # evs) s =
     (case event_step env d ev s of
        ((d1, Some e), s1) \<Rightarrow> ((d1, Some e), s1)
      | ((d1, None), s1) \<Rightarrow> events_items env d1 evs s1)"

lemma closed_gate_length:
  "closed_gate env tid s = (r, s') \<Longrightarrow> length s' \<le> length s"
  unfolding closed_gate_def
  by (auto split: if_splits json.splits prod.splits sum.splits dest: get_with_retry_length)

lemma event_step_length:
  "event_step env d ev s = (r, s') \<Longrightarrow> length s' \<le> length s"
  unfolding event_step_def
  by (auto split: if_splits json.splits prod.splits sum.splits dest: closed_gate_length)

lemma events_items_length:
  "events_items env d evs s = (r, s') \<Longrightarrow> length s' \<le> length s"
proof (induction evs arbitrary: d s)
  case Nil
  then show ?case by simp
next
  case (Cons ev evs)
  obtain d1 e s1 where st: "event_step env d ev s = ((d1, e), s1)"
    by (cases "event_step env d ev s") auto
  have "length s1 \<le> length s"
    using event_step_length [OF st] .
  then show ?case
    using st Cons.IH [of d1 s1] Cons.prems by (cases e) auto
qed

function events_loop :: "env \<Rightarrow> db \<Rightarrow> string \<Rightarrow> script \<Rightarrow> outcome \<times> script" where
  "events_loop env d url s =
     (case get_with_retry env url s of
        (Inl e, s1) \<Rightarrow> ((d, Some e), s1)
      | (Inr page, s1) \<Rightarrow>
          (case page of
             JObj kv \<Rightarrow>
               (case iter_items (dget_default kv ''ticket_events'' (JList [])) of
                  Inl e \<Rightarrow> ((d, Some e), s1)
                | Inr evs \<Rightarrow>
                    (case events_items env d evs s1 of
                       ((d1, Some e), s2) \<Rightarrow> ((d1, Some e), s2)
                     | ((d1, None), s2) \<Rightarrow>
                         if truthy (dget kv ''next_page'')
                         then events_loop env d1 (py_str env (dget kv ''next_page'')) s2
                         else (if truthy (dget kv ''end_time'')
                               then set_cursor_val env d1 ''ticket_events'' (JStr (py_str env (dget kv ''end_time'')))
                               else (d1, None), s2)))
           | _ \<Rightarrow> ((d, Some Attribute_error), s1)))"
  by pat_completeness auto
termination
  by (relation "measure (\<lambda>(env, d, url, s). length s)")
    (auto dest!: get_with_retry_shorter [OF sym] events_items_length [OF sym])

definition sync_ticket_events_for_comments :: "env \<Rightarrow> db \<Rightarrow> script \<Rightarrow> outcome \<times> script" where
  "sync_ticket_events_for_comments env d s =
     (let last_epoch = get_cursor_val d ''ticket_events'';
          url = Z_BASE env @ ''/api/v2/incremental/ticket_events.json''
      in if truthy last_epoch then
           (case py_int last_epoch of
              Inl e \<Rightarrow> ((d, Some e), s)
            | Inr start_time \<Rightarrow> events_loop env d url s)
         else events_loop env d url s)"

section \<open>restore.py\<close>

text \<open>
  restore.py carries its own \<open>parse_dt\<close>, \<open>upsert_raw\<close> and structured upserts; they are
  transcribed from that file here, under the prefix \<open>restore_\<close> (comments and attachments
  have none).
\<close>

definition restore_parse_dt :: "env \<Rightarrow> json \<Rightarrow> int option" where
  "restore_parse_dt env s =
     (if \<not> truthy s then None
      else case s of JStr t \<Rightarrow> fromisoformat env (replace_Z t) | _ \<Rightarrow> None)"

definition restore_upsert_raw :: "env \<Rightarrow> db \<Rightarrow> string \<Rightarrow> int \<Rightarrow> json \<Rightarrow> json \<Rightarrow> outcome" where
  "restore_upsert_raw env d resource entity_id updated_at payload =
     (case pg_bigint env (JInt entity_id) of
        None \<Rightarrow> (d, Some Db_error)
      | Some k \<Rightarrow>
          (put ''raw_snapshots'' (Raw resource k)
             [(''updated_at'', stamp (restore_parse_dt env updated_at)), (''payload_json'', Jsonb payload)] d,
           None))"

definition restore_raw_by_id :: "env \<Rightarrow> db \<Rightarrow> string \<Rightarrow> (string \<times> json) list \<Rightarrow> json \<Rightarrow> outcome" where
  "restore_raw_by_id env d resource kv updated_at =
     (case dindex kv ''id'' of
        Inl e \<Rightarrow> (d, Some e)
      | Inr i \<Rightarrow>
          (case py_int i of
             Inl e \<Rightarrow> (d, Some e)
           | Inr n \<Rightarrow> restore_upsert_raw env d resource n updated_at (JObj kv)))"

definition restore_upsert_user :: "env \<Rightarrow> db \<Rightarrow> json \<Rightarrow> outcome" where
  "restore_upsert_user env d u =
     (case u of
        JObj kv \<Rightarrow>
          and_then
            (insert_by_id env d ''users'' (dget kv ''id'')
               [(''name'', param (dget kv ''name'')),
                (''email'', param (dget kv ''email'')),
                (''role'', param (dget kv ''role'')),
                (''role_type'', param (dget kv ''role_type'')),
                (''active'', Flag (truthy (dget kv ''active''))),
                (''suspended'', Flag (truthy (dget kv ''suspended''))),
                (''organization_id'', param (dget kv ''organization_id'')),
                (''phone'', param (dget kv ''phone'')),
                (''locale'', param (dget kv ''locale'')),
                (''time_zone'', param (dget kv ''time_zone'')),
                (''created_at'', stamp (restore_parse_dt env (dget kv ''created_at''))),
                (''updated_at'', stamp (restore_parse_dt env (dget kv ''updated_at''))),
                (''last_login_at'', stamp (restore_parse_dt env (dget kv ''last_login_at''))),
                (''tags_json'', Jsonb (por (dget kv ''tags'') (JList []))),
                (''user_fields_json'', Jsonb (por (dget kv ''user_fields'') (JObj []))),
                (''photo_json'', Jsonb (por (dget kv ''photo'') (JObj [])))])
            (\<lambda>d1. restore_raw_by_id env d1 ''users'' kv (dget kv ''updated_at''))
      | _ \<Rightarrow> (d, Some Attribute_error))"

definition restore_upsert_org :: "env \<Rightarrow> db \<Rightarrow> json \<Rightarrow> outcome" where
  "restore_upsert_org env d org =
     (case org of
        JObj kv \<Rightarrow>
          and_then
            (insert_by_id env d ''organizations'' (dget kv ''id'')
               [(''name'', param (dget kv ''name'')),
                (''external_id'', param (dget kv ''external_id'')),
                (''group_id'', param (dget kv ''group_id'')),
                (''details'', param (dget kv ''details'')),
                (''notes'', param (dget kv ''notes'')),
                (''shared_tickets'', Flag (truthy (dget kv ''shared_tickets''))),
                (''shared_comments'', Flag (truthy (dget kv ''shared_comments''))),
                (''domain_names_json'', Jsonb (por (dget kv ''domain_names'') (JList []))),
                (''tags_json'', Jsonb (por (dget kv ''tags'') (JList []))),
                (''organization_fields_json'', Jsonb (por (dget kv ''organization_fields'') (JObj []))),
                (''created_at'', stamp (restore_parse_dt env (dget kv ''created_at''))),
                (''updated_at'', stamp (restore_parse_dt env (dget kv ''updated_at'')))])
            (\<lambda>d1. restore_raw_by_id env d1 ''organizations'' kv (dget kv ''updated_at''))
      | _ \<Rightarrow> (d, Some Attribute_error))"

definition restore_upsert_ticket :: "env \<Rightarrow> db \<Rightarrow> json \<Rightarrow> outcome" where
  "restore_upsert_ticket env d t =
     (case t of
        JObj kv \<Rightarrow>
          and_then
            (insert_by_id env d ''tickets'' (dget kv ''id'')
               [(''subject'', param (dget kv ''subject'')),
                (''description'', param (dget kv ''description'')),
                (''status'', param (dget kv ''status'')),
                (''priority'', param (dget kv ''priority'')),
                (''type'', param (dget kv ''type'')),
                (''requester_id'', param (dget kv ''requester_id'')),
                (''assignee_id'', param (dget kv ''assignee_id'')),
                (''organization_id'', param (dget kv ''organization_id'')),
                (''created_at'', stamp (restore_parse_dt env (dget kv ''created_at''))),
                (''updated_at'', stamp (restore_parse_dt env (dget kv ''updated_at''))),
                (''due_at'', stamp (restore_parse_dt env (dget kv ''due_at'')))])
            (\<lambda>d1. restore_raw_by_id env d1 ''tickets'' kv (dget kv ''updated_at''))
      | _ \<Rightarrow> (d, Some Attribute_error))"

definition restore_upsert_view :: "env \<Rightarrow> db \<Rightarrow> json \<Rightarrow> outcome" where
  "restore_upsert_view env d v =
     (case v of
        JObj kv \<Rightarrow>
          and_then
            (insert_by_id env d ''views'' (dget kv ''id'')
               [(''title'', param (dget kv ''title'')),
                (''description'', param (dget kv ''description'')),
                (''active'', Flag (truthy (dget kv ''active''))),
                (''position'', param (dget kv ''position'')),
                (''default_view'', Flag (truthy (dget kv ''default''))),
                (''restriction_json'', Jsonb (dget kv ''restriction'')),
                (''execution_json'', Jsonb (dget kv ''execution'')),
                (''conditions_json'', Jsonb (dget kv ''conditions'')),
                (''created_at'', stamp (restore_parse_dt env (dget kv ''created_at''))),
                (''updated_at'', stamp (restore_parse_dt env (dget kv ''updated_at'')))])
            (\<lambda>d1. restore_raw_by_id env d1 ''views'' kv (dget kv ''updated_at''))
      | _ \<Rightarrow> (d, Some Attribute_error))"

definition restore_upsert_trigger :: "env \<Rightarrow> db \<Rightarrow> json \<Rightarrow> outcome" where
  "restore_upsert_trigger env d t =
     (case t of
        JObj kv \<Rightarrow>
          and_then
            (insert_by_id env d ''triggers'' (dget kv ''id'')
               [(''title'', param (dget kv ''title'')),
                (''description'', param (dget kv ''description'')),
                (''active'', Flag (truthy (dget kv ''active''))),
                (''position'', param (dget kv ''position'')),
                (''category_id'', param (dget kv ''category_id'')),
                (''raw_title'', param (dget kv ''raw_title'')),
                (''default_trigger'', Flag (truthy (dget kv ''default''))),
                (''conditions_json'', Jsonb (por (dget kv ''conditions'') (JObj []))),
                (''actions_json'', Jsonb (por (dget kv ''actions'') (JList []))),
                (''created_at'', stamp (restore_parse_dt env (dget kv ''created_at''))),
                (''updated_at'', stamp (restore_parse_dt env (dget kv ''updated_at'')))])
            (\<lambda>d1. restore_raw_by_id env d1 ''triggers'' kv (dget kv ''updated_at''))
      | _ \<Rightarrow> (d, Some Attribute_error))"

definition restore_upsert_trigger_category :: "env \<Rightarrow> db \<Rightarrow> json \<Rightarrow> outcome" where
  "restore_upsert_trigger_category env d c =
     (case c of
        JObj kv \<Rightarrow>
          (let d1 = put ''trigger_categories'' (Name (py_str env (dget kv ''id'')))
                      [(''name'', param (dget kv ''name'')),
                       (''position'', param (dget kv ''position'')),
                       (''created_at'', stamp (restore_parse_dt env (dget kv ''created_at''))),
                       (''updated_at'', stamp (restore_parse_dt env (dget kv ''updated_at'')))] d
           in case dindex kv ''id'' of
                Inl e \<Rightarrow> (d1, Some e)
              | Inr i \<Rightarrow>
                  restore_upsert_raw env d1 ''trigger_categories''
                    (case py_int i of
                       Inr n \<Rightarrow> n
                     | Inl e \<Rightarrow> \<bar>hash_str env (py_str env i)\<bar> mod 10 ^ 15)
                    (dget kv ''updated_at'') c)
      | _ \<Rightarrow> (d, Some Attribute_error))"

definition restore_upsert_macro :: "env \<Rightarrow> db \<Rightarrow> json \<Rightarrow> outcome" where
  "restore_upsert_macro env d m =
     (case m of
        JObj kv \<Rightarrow>
          and_then
            (insert_by_id env d ''macros'' (dget kv ''id'')
               [(''title'', param (dget kv ''title'')),
                (''description'', param (dget kv ''description'')),
                (''active'', Flag (truthy (dget kv ''active''))),
                (''position'', param (dget kv ''position'')),
                (''default_macro'', Flag (truthy (dget kv ''default''))),
                (''restriction_json'', Jsonb (dget kv ''restriction'')),
                (''actions_json'', Jsonb (por (dget kv ''actions'') (JList []))),
                (''created_at'', stamp (restore_parse_dt env (dget kv ''created_at''))),
                (''updated_at'', stamp (restore_parse_dt env (dget kv ''updated_at'')))])
            (\<lambda>d1. restore_raw_by_id env d1 ''macros'' kv (dget kv ''updated_at''))
      | _ \<Rightarrow> (d, Some Attribute_error))"

definition RESTORERS :: "(string \<times> (env \<Rightarrow> db \<Rightarrow> json \<Rightarrow> outcome)) list" where
  "RESTORERS =
     [(''users'', restore_upsert_user),
      (''organizations'', restore_upsert_org),
      (''tickets'', restore_upsert_ticket),
      (''views'', restore_upsert_view),
      (''triggers'', restore_upsert_trigger),
      (''trigger_categories'', restore_upsert_trigger_category),
      (''macros'', restore_upsert_macro)]"

definition RESTORE_ORDER :: "string list" where
  "RESTORE_ORDER =
     [''users'', ''organizations'', ''tickets'', ''views'', ''triggers'', ''trigger_categories'', ''macros'']"

subsection \<open>Loading raw rows\<close>

text \<open>A raw row as selected: entity id, \<open>updated_at\<close> (\<open>None\<close> for \<open>NULL\<close>), payload.\<close>

type_synonym raw_row = "int \<times> int option \<times> json"

definition raw_rows :: "db \<Rightarrow> string \<Rightarrow> raw_row list" where
  "raw_rows d resource =
     concat (map (\<lambda>((t, k), r).
        case k of
          Raw res i \<Rightarrow>
            if t = ''raw_snapshots'' \<and> res = resource
            then [(i,
                   (case column r ''updated_at'' of Some (Time u) \<Rightarrow> Some u | _ \<Rightarrow> None),
                   (case column r ''payload_json'' of Some (Jsonb j) \<Rightarrow> j | _ \<Rightarrow> JNull))]
            else []
        | _ \<Rightarrow> []) d)"

text \<open>
  \<open>ORDER BY updated_at DESC NULLS LAST, entity_id DESC\<close>: \<open>raw_before a b\<close> says that
  \<open>a\<close> may come before \<open>b\<close>.
\<close>

definition raw_before :: "raw_row \<Rightarrow> raw_row \<Rightarrow> bool" where
  "raw_before a b =
     (case (fst (snd a), fst (snd b)) of
        (Some x, Some y) \<Rightarrow> x > y \<or> (x = y \<and> fst a \<ge> fst b)
      | (Some x, None) \<Rightarrow> True
      | (None, Some y) \<Rightarrow> False
      | (None, None) \<Rightarrow> fst a \<ge> fst b)"

fun insort_raw :: "raw_row \<Rightarrow> raw_row list \<Rightarrow> raw_row list" where
  "insort_raw a [] = [a]"
| "insort_raw a (b # bs) = (if raw_before a b then a # b # bs else b # insort_raw a bs)"

definition order_raw :: "raw_row list \<Rightarrow> raw_row list" where
  "order_raw rows = foldr insort_raw rows []"

definition load_raw_rows :: "db \<Rightarrow> string \<Rightarrow> int option \<Rightarrow> int \<Rightarrow> exn + (int \<times> json) list" where
  "load_raw_rows d resource limit offset =
     (let rows = order_raw (raw_rows d resource)
      in case limit of
           None \<Rightarrow> Inr (map (\<lambda>(i, u, p). (i, p)) rows)
         | Some l \<Rightarrow>
             if l < 0 \<or> offset < 0 then Inl Db_error
             else Inr (map (\<lambda>(i, u, p). (i, p)) (take (nat l) (drop (nat offset) rows))))"

subsection \<open>Truncation\<close>

definition truncate_table :: "db \<Rightarrow> string \<Rightarrow> db" where
  "truncate_table d t = filter (\<lambda>((t', k), r). t' \<noteq> t) d"

definition table_map :: "(string \<times> string) list" where
  "table_map =
     [(''users'', ''users''),
      (''organizations'', ''organizations''),
      (''tickets'', ''tickets''),
      (''views'', ''views''),
      (''triggers'', ''triggers''),
      (''trigger_categories'', ''trigger_categories''),
      (''macros'', ''macros'')]"

definition maybe_truncate :: "db \<Rightarrow> string list \<Rightarrow> bool \<Rightarrow> db" where
  "maybe_truncate d scope_list truncate_first =
     (if \<not> truncate_first then d
      else foldl (\<lambda>d1 s. case map_of table_map s of None \<Rightarrow> d1 | Some t \<Rightarrow> truncate_table d1 t)
             d scope_list)"

subsection \<open>The restore driver\<close>

fun split_comma :: "string \<Rightarrow> string list" where
  "split_comma [] = [[]]"
| "split_comma (c # cs) =
     (if c = CHR '','' then [] # split_comma cs
      else (case split_comma cs of
              [] \<Rightarrow> [[c]]
            | x # xs \<Rightarrow> (c # x) # xs))"

fun scope_parts :: "string list \<Rightarrow> exn + string list" where
  "scope_parts [] = Inr []"
| "scope_parts (part # parts) =
     (let p = lower (strip part)
      in if p \<noteq> [] \<and> p \<in> set (map fst RESTORERS) then
           (case scope_parts parts of Inl e \<Rightarrow> Inl e | Inr l \<Rightarrow> Inr (p # l))
         else if p \<noteq> [] then Inl (System_exit p)
         else scope_parts parts)"

definition parse_scope :: "string \<Rightarrow> exn + string list" where
  "parse_scope scope = (if scope = ''all'' then Inr RESTORE_ORDER else scope_parts (split_comma scope))"

text \<open>
  A payload that comes back as a string is parsed with \<open>json.loads\<close>; \<open>None\<close> when
  that raises. Any other payload is taken as it is.
\<close>

definition decode_payload :: "env \<Rightarrow> json \<Rightarrow> json option" where
  "decode_payload env payload = (case payload of JStr t \<Rightarrow> json_loads env t | _ \<Rightarrow> Some payload)"

text \<open>
  The loop over the buffered rows of one resource. An exception of the restorer is logged
  and the loop goes on; the store keeps what was written before the exception.
\<close>

fun restore_rows ::
  "env \<Rightarrow> (env \<Rightarrow> db \<Rightarrow> json \<Rightarrow> outcome) \<Rightarrow> bool \<Rightarrow> db \<Rightarrow> int list \<Rightarrow> nat \<Rightarrow> (int \<times> json) list \<Rightarrow> db \<times> nat" where
  "restore_rows env fn dry_run d seen_ids restored [] = (d, restored)"
| "restore_rows env fn dry_run d seen_ids restored ((entity_id, payload) # rows) =
     (if entity_id \<in> set seen_ids then restore_rows env fn dry_run d seen_ids restored rows
      else
        (case decode_payload env payload of
           None \<Rightarrow> restore_rows env fn dry_run d seen_ids restored rows
         | Some p \<Rightarrow>
             if dry_run then restore_rows env fn dry_run d (entity_id # seen_ids) (restored + 1) rows
             else
               (case fn env d p of
                  (d1, None) \<Rightarrow> restore_rows env fn dry_run d1 (entity_id # seen_ids) (restored + 1) rows
                | (d1, Some e) \<Rightarrow> restore_rows env fn dry_run d1 seen_ids restored rows)))"

fun restore_resources ::
  "env \<Rightarrow> db \<Rightarrow> string list \<Rightarrow> int option \<Rightarrow> int \<Rightarrow> bool \<Rightarrow> db \<times> (exn + (string \<times> nat) list)" where
  "restore_resources env d [] limit offset dry_run = (d, Inr [])"
| "restore_resources env d (resource # rest) limit offset dry_run =
     (case map_of RESTORERS resource of
        None \<Rightarrow> (d, Inl Key_error)
      | Some fn \<Rightarrow>
          (case load_raw_rows d resource limit offset of
             Inl e \<Rightarrow> (d, Inl e)
           | Inr rows \<Rightarrow>
               (case restore_rows env fn dry_run d [] 0 rows of
                  (d1, restored) \<Rightarrow>
                    (case restore_resources env d1 rest limit offset dry_run of
                       (d2, Inl e) \<Rightarrow> (d2, Inl e)
                     | (d2, Inr counts) \<Rightarrow> (d2, Inr ((resource, restored) # counts))))))"

text \<open>\<open>restore\<close> returns the store and, per resource, the count it logs.\<close>

definition restore ::
  "env \<Rightarrow> db \<Rightarrow> string \<Rightarrow> int option \<Rightarrow> int \<Rightarrow> bool \<Rightarrow> bool \<Rightarrow> db \<times> (exn + (string \<times> nat) list)" where
  "restore env d scope limit offset truncate_first dry_run =
     (case parse_scope scope of
        Inl e \<Rightarrow> (d, Inl e)
      | Inr scope_list \<Rightarrow>
          restore_resources env (maybe_truncate d scope_list truncate_first) scope_list limit offset dry_run)"

subsection \<open>The replay in the specification's words\<close>



section \<open>Runs of successful pages\<close>

text \<open>
  The advancement token of a page, and the store after a list of pages whose bodies all ran
  without exception, each from the store the previous one left (for tickets every page
  comes with the script its comment fetches read from). \<open>None\<close> when a page fails.
\<close>

definition after_cursor_of :: "json \<Rightarrow> json" where
  "after_cursor_of page = (case page of JObj kv \<Rightarrow> dget kv ''after_cursor'' | _ \<Rightarrow> JNull)"

fun users_chain :: "env \<Rightarrow> db \<Rightarrow> json list \<Rightarrow> db option" where
  "users_chain env d [] = Some d"
| "users_chain env d (page # pages) =
     (case users_page env d page of
        (d1, None) \<Rightarrow> users_chain env d1 pages
      | (d1, Some e) \<Rightarrow> None)"

fun tickets_chain :: "env \<Rightarrow> db \<Rightarrow> (json \<times> script) list \<Rightarrow> db option" where
  "tickets_chain env d [] = Some d"
| "tickets_chain env d ((page, s) # pages) =
     (case tickets_page env d page s of
        ((d1, None), s1) \<Rightarrow> tickets_chain env d1 pages
      | ((d1, Some e), s1) \<Rightarrow> None)"

text \<open>
  What \<open>get_cursor_val\<close> reads after \<open>set_cursor_val\<close> has stored a token: the text the
  store keeps of it.
\<close>

definition stored_as :: "env \<Rightarrow> json \<Rightarrow> json \<Rightarrow> bool" where
  "stored_as env token v = (case pg_text env token of None \<Rightarrow> False | Some t \<Rightarrow> v = JStr t)"

text \<open>The pages a stretch of the feed delivers: the bodies of its 200 responses, in order.\<close>

fun pages_read :: "script \<Rightarrow> json list" where
  "pages_read [] = []"
| "pages_read (Net_error # s) = pages_read s"
| "pages_read (Response st ra body tx # s) =
     (if st = 200 then (case body of None \<Rightarrow> [] | Some p \<Rightarrow> [p]) else []) @ pages_read s"

text \<open>
  The pages of a tickets sync located in the feed: each page is the next 200 response of
  what the previous page's comment fetches left, it is processed without exception with the
  responses that follow it, and the last page leaves \<open>rest\<close>.
\<close>

fun tickets_trace :: "env \<Rightarrow> db \<Rightarrow> script \<Rightarrow> (json \<times> script) list \<Rightarrow> script \<Rightarrow> bool" where
  "tickets_trace env d s [] rest = (s = rest)"
| "tickets_trace env d s ((page, s0) # ps) rest =
     ((\<exists>pre h tx. s = pre @ Response 200 h (Some page) tx # s0 \<and> pages_read pre = [])
      \<and> (case tickets_page env d page s0 of
            ((d1, None), s1) \<Rightarrow> tickets_trace env d1 s1 ps rest
          | ((d1, Some e), s1) \<Rightarrow> False))"

text \<open>
  The events the incremental organizations loop passes over without touching the store or
  its counters: a network error, a 429 whose hint is absent, empty or a number, and any other
  status of \<open>RETRY_STATUS\<close>.
\<close>

definition org_skipped :: "env \<Rightarrow> http_event \<Rightarrow> bool" where
  "org_skipped env ev =
     (case ev of
        Net_error \<Rightarrow> True
      | Response st ra body tx \<Rightarrow>
          st \<noteq> 200
          \<and> (if st = 429 then (case ra of None \<Rightarrow> True | Some h \<Rightarrow> h = [] \<or> float_parses env h)
             else st \<in> RETRY_STATUS))"

text \<open>The store after a listing: every organization of every page upserted, in order.\<close>

fun orgs_chain :: "env \<Rightarrow> db \<Rightarrow> json list \<Rightarrow> db option" where
  "orgs_chain env d [] = Some d"
| "orgs_chain env d (page # pages) =
     (case page of
        JObj kv \<Rightarrow>
          (case iter_items (dget_default kv ''organizations'' (JList [])) of
             Inl e \<Rightarrow> None
           | Inr orgs \<Rightarrow>
               (case run_page (upsert_org env) d orgs of
                  (d1, None) \<Rightarrow> orgs_chain env d1 pages
                | (d1, Some e) \<Rightarrow> None))
      | _ \<Rightarrow> None)"

section \<open>Pruned tickets\<close>

text \<open>
  A store from which ticket \<open>n\<close> is pruned: the tickets table has no row with that id,
  and no comment and no attachment row refers to it.
\<close>

definition pruned :: "db \<Rightarrow> int \<Rightarrow> bool" where
  "pruned d n =
     (map_of d (''tickets'', Row_id n) = None
      \<and> list_all (\<lambda>((t, k), r). (t = ''ticket_comments'' \<or> t = ''attachments'')
                      \<longrightarrow> column r ''ticket_id'' \<noteq> Some (Num n)) d)"

text \<open>
  A ticket of a page that is not a closed ticket with id \<open>n\<close>: its status is not
  \<open>closed\<close>, or neither the key of its row nor \<open>int(t["id"])\<close> is \<open>n\<close>.
\<close>

definition other_ticket :: "env \<Rightarrow> int \<Rightarrow> json \<Rightarrow> bool" where
  "other_ticket env n t =
     (case t of
        JObj kv \<Rightarrow>
          (case por (dget kv ''status'') (JStr []) of
             JStr status \<Rightarrow>
               lower status \<noteq> ''closed''
               \<or> (pg_bigint env (dget kv ''id'') \<noteq> Some n \<and> py_int (dget kv ''id'') \<noteq> Inr n)
           | _ \<Rightarrow> True)
      | _ \<Rightarrow> True)"

section \<open>Comments stamped as by the event path\<close>

text \<open>
  A store whose comments are all stamped as the event path stamps them: every comment row
  has \<open>updated_at\<close> equal to \<open>created_at\<close>, and every raw snapshot of a comment
  records as update time the \<open>created_at\<close> of its payload.
\<close>

definition event_stamped :: "env \<Rightarrow> db \<Rightarrow> bool" where
  "event_stamped env d =
     list_all (\<lambda>((t, k), r).
        (t = ''ticket_comments'' \<longrightarrow> column r ''updated_at'' = column r ''created_at'')
        \<and> (case k of
             Raw res m \<Rightarrow>
               t = ''raw_snapshots'' \<and> res = ''comments'' \<longrightarrow>
                 (case column r ''payload_json'' of
                    Some (Jsonb (JObj kv)) \<Rightarrow>
                      column r ''updated_at'' = Some (stamp (parse_dt env (dget kv ''created_at'')))
                  | _ \<Rightarrow> False)
           | _ \<Rightarrow> True)) d"

text \<open>A child event that is a dict and not a comment.\<close>

definition plain_child :: "json \<Rightarrow> bool" where
  "plain_child ce =
     (case ce of
        JObj kv \<Rightarrow> por (dget kv ''event_type'') (dget kv ''type'') \<noteq> JStr ''Comment''
      | _ \<Rightarrow> False)"

section \<open>Write sequences\<close>

text \<open>
  A sequence of row replacements applied in order, and the value a key holds after it;
  used to reason about pages of upserts.
\<close>

fun puts :: "('k \<times> 'v) list \<Rightarrow> ('k \<times> 'v) list \<Rightarrow> ('k \<times> 'v) list" where
  "puts [] al = al"
| "puts ((k, v) # ws) al = puts ws (AList.update k v al)"

fun final :: "('k \<times> 'v) list \<Rightarrow> 'k \<Rightarrow> 'v \<Rightarrow> 'v" where
  "final [] k x = x"
| "final ((k1, v1) # ws) k x = final ws k (if k1 = k then v1 else x)"

definition writes_only :: "(db \<Rightarrow> outcome) \<Rightarrow> bool" where
  "writes_only g = (\<exists>ws e. \<forall>d. g d = (puts ws d, e))"

section \<open>Reading the store, and an environment for concrete runs\<close>

definition cell_at :: "db \<Rightarrow> string \<Rightarrow> pkey \<Rightarrow> string \<Rightarrow> cell option" where
  "cell_at d t k c = (case map_of d (t, k) of None \<Rightarrow> None | Some r \<Rightarrow> column r c)"

text \<open>
  An environment for concrete runs: two timestamps parse, the store takes Python integers
  as \<open>BIGINT\<close> and no list as text, strings hash to their length, \<open>json.loads\<close> knows two documents, every
  retry hint is a usable number, no attachment is downloaded, and every switch is off.
\<close>

definition sample_env :: env where
  "sample_env =
     \<lparr> fromisoformat =
         (\<lambda>s. if s = ''2024-01-01T00:00:00+00:00'' then Some 1704067200
              else if s = ''2024-01-02T00:00:00+00:00'' then Some 1704153600
              else None),
       pg_bigint = (\<lambda>v. case v of JInt n \<Rightarrow> Some n | _ \<Rightarrow> None),
       array_text = (\<lambda>xs. None),
       hash_str = (\<lambda>s. int (length s)),
       repr_of = (\<lambda>v. ''?''),
       json_loads =
         (\<lambda>s. if s = ''{}'' then Some (JObj [])
              else if s = ''[]'' then Some (JList [])
              else None),
       float_parses = (\<lambda>s. True),
       sleep_accepts = (\<lambda>s. True),
       download_attachment = (\<lambda>tid cid a. Inr None),
       now = 1704240000,
       Z_BASE = ''https://example.zendesk.com'',
       CLOSED_TICKETS_ONLY = False,
       PRUNE_REOPENED_FROM_DB = False,
       USE_TICKET_EVENTS_FOR_COMMENTS = False,
       FORCE_ORG_SNAPSHOT = False \<rparr>"

section \<open>Properties of the write sequences\<close>

lemma final_absent: "k \<notin> fst ` set ws \<Longrightarrow> final ws k x = x"
  by (induction ws arbitrary: x) auto

lemma final_present: "k \<in> fst ` set ws \<Longrightarrow> final ws k x = final ws k y"
proof (induction ws arbitrary: x y)
  case Nil
  then show ?case by simp
next
  case (Cons a ws)
  obtain k1 v1 where a: "a = (k1, v1)" by (cases a)
  show ?case
  proof (cases "k \<in> fst ` set ws")
    case True
    then show ?thesis using Cons.IH a by simp
  next
    case False
    then have "k1 = k" using Cons.prems a by auto
    then show ?thesis using a by simp
  qed
qed

lemma final_final: "final ws k (final ws k x) = final ws k x"
  by (cases "k \<in> fst ` set ws") (auto simp: final_absent intro: final_present)

lemma puts_Cons:
  "puts ws ((k, v) # al) = (k, final ws k v) # puts (filter (\<lambda>(a, b). a \<noteq> k) ws) al"
  by (induction ws arbitrary: v al) auto

lemma puts_Nil_idem: "puts ws (puts ws []) = puts ws []"
proof (induction "length ws" arbitrary: ws rule: less_induct)
  case less
  show ?case
  proof (cases ws)
    case Nil
    then show ?thesis by simp
  next
    case (Cons a ws')
    obtain k v where a: "a = (k, v)" by (cases a)
    let ?f = "filter (\<lambda>(a, b). a \<noteq> k) ws'"
    have len: "length ?f < length ws" using Cons by (simp add: less_Suc_eq_le)
    have 1: "puts ws [] = (k, final ws' k v) # puts ?f []"
      using Cons a by (simp add: puts_Cons)
    have 2: "filter (\<lambda>(a, b). a \<noteq> k) ws = ?f" using Cons a by simp
    have 3: "final ws k (final ws' k v) = final ws' k v"
      using Cons a by (simp add: final_final)
    show ?thesis
      unfolding 1 by (simp add: puts_Cons 2 3 less(1)[OF len])
  qed
qed

lemma puts_idem: "puts ws (puts ws al) = puts ws al"
proof (induction al arbitrary: ws)
  case Nil
  show ?case by (rule puts_Nil_idem)
next
  case (Cons a al)
  obtain k v where a: "a = (k, v)" by (cases a)
  show ?case unfolding a by (simp add: puts_Cons final_final Cons.IH)
qed

lemma puts_append: "puts (ws @ ws') al = puts ws' (puts ws al)"
  by (induction ws arbitrary: al) auto

lemma writes_only_idem: "writes_only g \<Longrightarrow> g (fst (g d)) = g d"
  unfolding writes_only_def by (auto simp: puts_idem)

lemma writes_only_fail: "writes_only (\<lambda>d. (d, e))"
  unfolding writes_only_def by (rule exI [of _ "[]"]) simp

lemma writes_only_put: "writes_only (\<lambda>d. (put t k r d, e))"
  unfolding writes_only_def put_def by (rule exI [of _ "[((t, k), r)]"]) simp

lemma writes_only_after_put: "writes_only g \<Longrightarrow> writes_only (\<lambda>d. g (put t k r d))"
proof -
  assume "writes_only g"
  then obtain ws e where g: "\<And>d. g d = (puts ws d, e)"
    unfolding writes_only_def by blast
  have "\<forall>d. g (put t k r d) = (puts (((t, k), r) # ws) d, e)"
    by (simp add: g put_def)
  then show ?thesis unfolding writes_only_def by blast
qed

lemma writes_only_and_then:
  assumes "writes_only g" and "writes_only h"
  shows "writes_only (\<lambda>d. and_then (g d) h)"
proof -
  obtain ws e where g: "\<And>d. g d = (puts ws d, e)"
    using assms(1) unfolding writes_only_def by blast
  obtain ws' e' where h: "\<And>d. h d = (puts ws' d, e')"
    using assms(2) unfolding writes_only_def by blast
  show ?thesis
  proof (cases e)
    case None
    have "\<forall>d. and_then (g d) h = (puts (ws @ ws') d, e')"
      by (simp add: and_then_def g h None puts_append)
    then show ?thesis unfolding writes_only_def by blast
  next
    case (Some x)
    have "\<forall>d. and_then (g d) h = (puts ws d, e)"
      by (simp add: and_then_def g Some)
    then show ?thesis unfolding writes_only_def by blast
  qed
qed

lemma writes_only_upsert_raw: "writes_only (\<lambda>d. upsert_raw env d res i ts p)"
  unfolding upsert_raw_def
  by (cases "pg_bigint env (JInt i)") (simp_all add: writes_only_fail writes_only_put)

lemma writes_only_insert_by_id: "writes_only (\<lambda>d. insert_by_id env d t i r)"
  unfolding insert_by_id_def
  by (cases "pg_bigint env i") (simp_all add: writes_only_fail writes_only_put)

lemma writes_only_raw_by_id: "writes_only (\<lambda>d. raw_by_id env d res kv ts)"
proof (cases "dindex kv ''id''")
  case (Inl e)
  then show ?thesis by (simp add: raw_by_id_def writes_only_fail)
next
  case (Inr i)
  then show ?thesis
    by (cases "py_int i") (simp_all add: raw_by_id_def writes_only_fail writes_only_upsert_raw)
qed

lemmas writes_only_intros =
  writes_only_and_then writes_only_insert_by_id writes_only_raw_by_id writes_only_fail

lemma writes_only_upsert_user: "writes_only (\<lambda>d. upsert_user env d u)"
  unfolding upsert_user_def by (cases u) (simp_all add: writes_only_intros)

lemma writes_only_upsert_org: "writes_only (\<lambda>d. upsert_org env d u)"
  unfolding upsert_org_def by (cases u) (simp_all add: writes_only_intros)

lemma writes_only_upsert_ticket: "writes_only (\<lambda>d. upsert_ticket env d u)"
  unfolding upsert_ticket_def by (cases u) (simp_all add: writes_only_intros)

lemma writes_only_upsert_comment: "writes_only (\<lambda>d. upsert_comment env d tid u)"
  unfolding upsert_comment_def by (cases u) (simp_all add: writes_only_intros)

lemma writes_only_upsert_attachment: "writes_only (\<lambda>d. upsert_attachment env d tid cid u lp)"
  unfolding upsert_attachment_def by (cases u) (simp_all add: writes_only_intros)

lemma writes_only_upsert_view: "writes_only (\<lambda>d. upsert_view env d u)"
  unfolding upsert_view_def by (cases u) (simp_all add: writes_only_intros)

lemma writes_only_upsert_trigger: "writes_only (\<lambda>d. upsert_trigger env d u)"
  unfolding upsert_trigger_def by (cases u) (simp_all add: writes_only_intros)

lemma writes_only_upsert_macro: "writes_only (\<lambda>d. upsert_macro env d u)"
  unfolding upsert_macro_def by (cases u) (simp_all add: writes_only_intros)

lemma writes_only_upsert_trigger_category: "writes_only (\<lambda>d. upsert_trigger_category env d u)"
proof (cases u)
  case (JObj kv)
  show ?thesis
    unfolding upsert_trigger_category_def JObj
    by (cases "dindex kv ''id''")
       (simp_all add: Let_def writes_only_put writes_only_after_put [OF writes_only_upsert_raw])
qed (simp_all add: upsert_trigger_category_def writes_only_fail)

lemma writes_only_run_page:
  "(\<And>x. writes_only (\<lambda>d. f d x)) \<Longrightarrow> writes_only (\<lambda>d. run_page f d xs)"
proof (induction xs)
  case Nil
  show ?case by (simp add: writes_only_fail)
next
  case (Cons x xs)
  show ?case
    using writes_only_and_then [OF Cons.prems [of x] Cons.IH [OF Cons.prems]] by simp
qed

lemma restore_parse_dt_eq: "restore_parse_dt = parse_dt"
  by (intro ext) (unfold restore_parse_dt_def parse_dt_def, rule refl)

lemma restore_upsert_raw_eq: "restore_upsert_raw = upsert_raw"
  by (intro ext) (unfold restore_upsert_raw_def upsert_raw_def restore_parse_dt_eq, rule refl)

lemma restore_raw_by_id_eq: "restore_raw_by_id = raw_by_id"
  by (intro ext) (unfold restore_raw_by_id_def raw_by_id_def restore_upsert_raw_eq, rule refl)

lemmas restore_base_eqs = restore_parse_dt_eq restore_upsert_raw_eq restore_raw_by_id_eq

lemma restore_upsert_user_eq: "restore_upsert_user = upsert_user"
  by (intro ext) (unfold restore_upsert_user_def upsert_user_def restore_base_eqs, rule refl)

lemma restore_upsert_org_eq: "restore_upsert_org = upsert_org"
  by (intro ext) (unfold restore_upsert_org_def upsert_org_def restore_base_eqs, rule refl)

lemma restore_upsert_ticket_eq: "restore_upsert_ticket = upsert_ticket"
  by (intro ext) (unfold restore_upsert_ticket_def upsert_ticket_def restore_base_eqs, rule refl)

lemma restore_upsert_view_eq: "restore_upsert_view = upsert_view"
  by (intro ext) (unfold restore_upsert_view_def upsert_view_def restore_base_eqs, rule refl)

lemma restore_upsert_trigger_eq: "restore_upsert_trigger = upsert_trigger"
  by (intro ext) (unfold restore_upsert_trigger_def upsert_trigger_def restore_base_eqs, rule refl)

lemma restore_upsert_trigger_category_eq: "restore_upsert_trigger_category = upsert_trigger_category"
  by (intro ext) (unfold restore_upsert_trigger_category_def upsert_trigger_category_def restore_base_eqs, rule refl)

lemma restore_upsert_macro_eq: "restore_upsert_macro = upsert_macro"
  by (intro ext) (unfold restore_upsert_macro_def upsert_macro_def restore_base_eqs, rule refl)

lemmas restore_upsert_eqs =
  restore_upsert_user_eq restore_upsert_org_eq restore_upsert_ticket_eq restore_upsert_view_eq
  restore_upsert_trigger_eq restore_upsert_trigger_category_eq restore_upsert_macro_eq

lemma page_idem:
  assumes "\<And>x. writes_only (\<lambda>d. f d x)"
  shows "run_page f (fst (run_page f d xs)) xs = run_page f d xs"
proof -
  have "writes_only (\<lambda>d. run_page f d xs)"
    by (rule writes_only_run_page) (rule assms)
  from writes_only_idem [OF this] show ?thesis .
qed

text \<open>
  Within one process, where \<open>hash\<close> is one function, every upsert is idempotent. Applying
  any upsert of the Writer (and \<open>upsert_raw\<close> of either script) a second time to the store
  it has produced, with the same arguments, gives the same store and the same result; the
  same holds for a whole page of entities applied twice. The store holds one row per
  (table, primary key), so equal stores mean no duplicate row and equal column values, in
  the structured tables and in \<open>raw_snapshots\<close>.
\<close>

lemma upserts_idempotent_in_one_process:
  "upsert_raw env (fst (upsert_raw env d res i ts p)) res i ts p = upsert_raw env d res i ts p
   \<and> restore_upsert_raw env (fst (restore_upsert_raw env d res i ts p)) res i ts p
       = restore_upsert_raw env d res i ts p
   \<and> upsert_user env (fst (upsert_user env d x)) x = upsert_user env d x
   \<and> upsert_org env (fst (upsert_org env d x)) x = upsert_org env d x
   \<and> upsert_ticket env (fst (upsert_ticket env d x)) x = upsert_ticket env d x
   \<and> upsert_comment env (fst (upsert_comment env d tid x)) tid x = upsert_comment env d tid x
   \<and> upsert_attachment env (fst (upsert_attachment env d tid cid x lp)) tid cid x lp
       = upsert_attachment env d tid cid x lp
   \<and> upsert_view env (fst (upsert_view env d x)) x = upsert_view env d x
   \<and> upsert_trigger env (fst (upsert_trigger env d x)) x = upsert_trigger env d x
   \<and> upsert_trigger_category env (fst (upsert_trigger_category env d x)) x
       = upsert_trigger_category env d x
   \<and> upsert_macro env (fst (upsert_macro env d x)) x = upsert_macro env d x
   \<and> run_page (upsert_user env) (fst (run_page (upsert_user env) d xs)) xs
       = run_page (upsert_user env) d xs
   \<and> run_page (upsert_org env) (fst (run_page (upsert_org env) d xs)) xs
       = run_page (upsert_org env) d xs
   \<and> run_page (upsert_ticket env) (fst (run_page (upsert_ticket env) d xs)) xs
       = run_page (upsert_ticket env) d xs
   \<and> run_page (\<lambda>d1 c. upsert_comment env d1 tid c)
         (fst (run_page (\<lambda>d1 c. upsert_comment env d1 tid c) d xs)) xs
       = run_page (\<lambda>d1 c. upsert_comment env d1 tid c) d xs
   \<and> run_page (\<lambda>d1 a. upsert_attachment env d1 tid cid a lp)
         (fst (run_page (\<lambda>d1 a. upsert_attachment env d1 tid cid a lp) d xs)) xs
       = run_page (\<lambda>d1 a. upsert_attachment env d1 tid cid a lp) d xs
   \<and> run_page (upsert_view env) (fst (run_page (upsert_view env) d xs)) xs
       = run_page (upsert_view env) d xs
   \<and> run_page (upsert_trigger env) (fst (run_page (upsert_trigger env) d xs)) xs
       = run_page (upsert_trigger env) d xs
   \<and> run_page (upsert_trigger_category env) (fst (run_page (upsert_trigger_category env) d xs)) xs
       = run_page (upsert_trigger_category env) d xs
   \<and> run_page (upsert_macro env) (fst (run_page (upsert_macro env) d xs)) xs
       = run_page (upsert_macro env) d xs"
proof -
  note one = writes_only_idem
  have raw: "upsert_raw env (fst (upsert_raw env d res i ts p)) res i ts p = upsert_raw env d res i ts p"
    by (rule one [OF writes_only_upsert_raw])
  have user: "upsert_user env (fst (upsert_user env d x)) x = upsert_user env d x"
    by (rule one [OF writes_only_upsert_user])
  have org: "upsert_org env (fst (upsert_org env d x)) x = upsert_org env d x"
    by (rule one [OF writes_only_upsert_org])
  have ticket: "upsert_ticket env (fst (upsert_ticket env d x)) x = upsert_ticket env d x"
    by (rule one [OF writes_only_upsert_ticket])
  have comment: "upsert_comment env (fst (upsert_comment env d tid x)) tid x = upsert_comment env d tid x"
    by (rule one [OF writes_only_upsert_comment])
  have attachment: "upsert_attachment env (fst (upsert_attachment env d tid cid x lp)) tid cid x lp
       = upsert_attachment env d tid cid x lp"
    by (rule one [OF writes_only_upsert_attachment])
  have view: "upsert_view env (fst (upsert_view env d x)) x = upsert_view env d x"
    by (rule one [OF writes_only_upsert_view])
  have trigger: "upsert_trigger env (fst (upsert_trigger env d x)) x = upsert_trigger env d x"
    by (rule one [OF writes_only_upsert_trigger])
  have category: "upsert_trigger_category env (fst (upsert_trigger_category env d x)) x
       = upsert_trigger_category env d x"
    by (rule one [OF writes_only_upsert_trigger_category])
  have macro: "upsert_macro env (fst (upsert_macro env d x)) x = upsert_macro env d x"
    by (rule one [OF writes_only_upsert_macro])
  have users: "run_page (upsert_user env) (fst (run_page (upsert_user env) d xs)) xs
       = run_page (upsert_user env) d xs"
    by (rule page_idem [OF writes_only_upsert_user])
  have orgs: "run_page (upsert_org env) (fst (run_page (upsert_org env) d xs)) xs
       = run_page (upsert_org env) d xs"
    by (rule page_idem [OF writes_only_upsert_org])
  have tickets: "run_page (upsert_ticket env) (fst (run_page (upsert_ticket env) d xs)) xs
       = run_page (upsert_ticket env) d xs"
    by (rule page_idem [OF writes_only_upsert_ticket])
  have comments: "run_page (\<lambda>d1 c. upsert_comment env d1 tid c)
         (fst (run_page (\<lambda>d1 c. upsert_comment env d1 tid c) d xs)) xs
       = run_page (\<lambda>d1 c. upsert_comment env d1 tid c) d xs"
    by (rule page_idem [OF writes_only_upsert_comment])
  have attachments: "run_page (\<lambda>d1 a. upsert_attachment env d1 tid cid a lp)
         (fst (run_page (\<lambda>d1 a. upsert_attachment env d1 tid cid a lp) d xs)) xs
       = run_page (\<lambda>d1 a. upsert_attachment env d1 tid cid a lp) d xs"
    by (rule page_idem [OF writes_only_upsert_attachment])
  have views: "run_page (upsert_view env) (fst (run_page (upsert_view env) d xs)) xs
       = run_page (upsert_view env) d xs"
    by (rule page_idem [OF writes_only_upsert_view])
  have triggers: "run_page (upsert_trigger env) (fst (run_page (upsert_trigger env) d xs)) xs
       = run_page (upsert_trigger env) d xs"
    by (rule page_idem [OF writes_only_upsert_trigger])
  have categories: "run_page (upsert_trigger_category env) (fst (run_page (upsert_trigger_category env) d xs)) xs
       = run_page (upsert_trigger_category env) d xs"
    by (rule page_idem [OF writes_only_upsert_trigger_category])
  have macros: "run_page (upsert_macro env) (fst (run_page (upsert_macro env) d xs)) xs
       = run_page (upsert_macro env) d xs"
    by (rule page_idem [OF writes_only_upsert_macro])
  show ?thesis
    unfolding restore_upsert_raw_eq
    using raw user org ticket comment attachment view trigger category macro
      users orgs tickets comments attachments views triggers categories macros
    by blast
qed

text \<open>
  The upserts that never reach \<open>hash\<close> write the same rows in every process.
\<close>

lemma base_without_hash:
  "parse_dt (env\<lparr>hash_str := h\<rparr>) = parse_dt env"
  "py_str (env\<lparr>hash_str := h\<rparr>) = py_str env"
  "insert_by_id (env\<lparr>hash_str := h\<rparr>) = insert_by_id env"
  "upsert_raw (env\<lparr>hash_str := h\<rparr>) = upsert_raw env"
  "raw_by_id (env\<lparr>hash_str := h\<rparr>) = raw_by_id env"
proof -
  show p: "parse_dt (env\<lparr>hash_str := h\<rparr>) = parse_dt env"
    by (intro ext) (simp add: parse_dt_def split: json.split)
  show "py_str (env\<lparr>hash_str := h\<rparr>) = py_str env"
    by (intro ext) (simp add: py_str_def split: json.split)
  show "insert_by_id (env\<lparr>hash_str := h\<rparr>) = insert_by_id env"
    by (intro ext) (simp add: insert_by_id_def)
  show u: "upsert_raw (env\<lparr>hash_str := h\<rparr>) = upsert_raw env"
    by (intro ext) (simp add: upsert_raw_def p split: option.split)
  show "raw_by_id (env\<lparr>hash_str := h\<rparr>) = raw_by_id env"
    by (intro ext) (simp add: raw_by_id_def u split: sum.split)
qed

lemma upserts_without_hash:
  "upsert_user (env\<lparr>hash_str := h\<rparr>) = upsert_user env"
  "upsert_org (env\<lparr>hash_str := h\<rparr>) = upsert_org env"
  "upsert_ticket (env\<lparr>hash_str := h\<rparr>) = upsert_ticket env"
  "upsert_comment (env\<lparr>hash_str := h\<rparr>) = upsert_comment env"
  "upsert_attachment (env\<lparr>hash_str := h\<rparr>) = upsert_attachment env"
  "upsert_view (env\<lparr>hash_str := h\<rparr>) = upsert_view env"
  "upsert_trigger (env\<lparr>hash_str := h\<rparr>) = upsert_trigger env"
  "upsert_macro (env\<lparr>hash_str := h\<rparr>) = upsert_macro env"
  by (unfold upsert_user_def upsert_org_def upsert_ticket_def upsert_comment_def
        upsert_attachment_def upsert_view_def upsert_trigger_def upsert_macro_def
        base_without_hash) (rule refl)+

text \<open>
  C1 fails for a trigger category whose id is not a number. Its raw snapshot is keyed by
  \<open>abs(hash(str(id))) % 10**15\<close>, and \<open>hash\<close> of a string differs from one process to the
  next. Applied once by a first run and once more by a second run whose \<open>hash\<close> gives
  another number, the same category has one structured row and two raw snapshots; replayed
  by \<open>restore\<close> in another process, its raw snapshot gets a second copy in the same way.
\<close>

theorem trigger_category_reapplied_duplicates_raw_snapshot:
  "upsert_trigger_category sample_env [] (JObj [(''id'', JStr ''billing''), (''name'', JStr ''Billing'')])
     = ([((''trigger_categories'', Name ''billing''),
        [(''name'', Val (JStr ''Billing'')), (''position'', Null),
         (''created_at'', Null), (''updated_at'', Null)]),
       ((''raw_snapshots'', Raw ''trigger_categories'' 7),
        [(''updated_at'', Null),
         (''payload_json'', Jsonb (JObj [(''id'', JStr ''billing''), (''name'', JStr ''Billing'')]))])], None)
   \<and> upsert_trigger_category (sample_env\<lparr>hash_str := (\<lambda>s. int (length s) + 1)\<rparr>)
       [((''trigger_categories'', Name ''billing''),
        [(''name'', Val (JStr ''Billing'')), (''position'', Null),
         (''created_at'', Null), (''updated_at'', Null)]),
       ((''raw_snapshots'', Raw ''trigger_categories'' 7),
        [(''updated_at'', Null),
         (''payload_json'', Jsonb (JObj [(''id'', JStr ''billing''), (''name'', JStr ''Billing'')]))])]
       (JObj [(''id'', JStr ''billing''), (''name'', JStr ''Billing'')])
     = ([((''trigger_categories'', Name ''billing''),
        [(''name'', Val (JStr ''Billing'')), (''position'', Null),
         (''created_at'', Null), (''updated_at'', Null)]),
       ((''raw_snapshots'', Raw ''trigger_categories'' 7),
        [(''updated_at'', Null),
         (''payload_json'', Jsonb (JObj [(''id'', JStr ''billing''), (''name'', JStr ''Billing'')]))]),
       ((''raw_snapshots'', Raw ''trigger_categories'' 8),
        [(''updated_at'', Null),
         (''payload_json'', Jsonb (JObj [(''id'', JStr ''billing''), (''name'', JStr ''Billing'')]))])], None)
   \<and> restore_upsert_trigger_category (sample_env\<lparr>hash_str := (\<lambda>s. int (length s) + 1)\<rparr>)
       [((''trigger_categories'', Name ''billing''),
        [(''name'', Val (JStr ''Billing'')), (''position'', Null),
         (''created_at'', Null), (''updated_at'', Null)]),
       ((''raw_snapshots'', Raw ''trigger_categories'' 7),
        [(''updated_at'', Null),
         (''payload_json'', Jsonb (JObj [(''id'', JStr ''billing''), (''name'', JStr ''Billing'')]))])]
       (JObj [(''id'', JStr ''billing''), (''name'', JStr ''Billing'')])
     = ([((''trigger_categories'', Name ''billing''),
        [(''name'', Val (JStr ''Billing'')), (''position'', Null),
         (''created_at'', Null), (''updated_at'', Null)]),
       ((''raw_snapshots'', Raw ''trigger_categories'' 7),
        [(''updated_at'', Null),
         (''payload_json'', Jsonb (JObj [(''id'', JStr ''billing''), (''name'', JStr ''Billing'')]))]),
       ((''raw_snapshots'', Raw ''trigger_categories'' 8),
        [(''updated_at'', Null),
         (''payload_json'', Jsonb (JObj [(''id'', JStr ''billing''), (''name'', JStr ''Billing'')]))])], None)
   \<and> restore (sample_env\<lparr>hash_str := (\<lambda>s. int (length s) + 1)\<rparr>)
       [((''trigger_categories'', Name ''billing''),
        [(''name'', Val (JStr ''Billing'')), (''position'', Null),
         (''created_at'', Null), (''updated_at'', Null)]),
       ((''raw_snapshots'', Raw ''trigger_categories'' 7),
        [(''updated_at'', Null),
         (''payload_json'', Jsonb (JObj [(''id'', JStr ''billing''), (''name'', JStr ''Billing'')]))])]
       ''trigger_categories'' None 0 False False
     = ([((''trigger_categories'', Name ''billing''),
        [(''name'', Val (JStr ''Billing'')), (''position'', Null),
         (''created_at'', Null), (''updated_at'', Null)]),
       ((''raw_snapshots'', Raw ''trigger_categories'' 7),
        [(''updated_at'', Null),
         (''payload_json'', Jsonb (JObj [(''id'', JStr ''billing''), (''name'', JStr ''Billing'')]))]),
       ((''raw_snapshots'', Raw ''trigger_categories'' 8),
        [(''updated_at'', Null),
         (''payload_json'', Jsonb (JObj [(''id'', JStr ''billing''), (''name'', JStr ''Billing'')]))])], Inr [(''trigger_categories'', 1)])"
proof -
  have l: "lower (strip ''trigger_categories'') = ''trigger_categories''"
    "lower ''trigger_categories'' = ''trigger_categories''"
    by (simp_all add: lower_def strip_def lower_char_def is_space_def)
  note ev = upsert_trigger_category_def restore_upsert_trigger_category_def restore_upsert_raw_def
    restore_parse_dt_def Let_def dindex_def dget_def upsert_raw_def put_def param_def stamp_def
    parse_dt_def py_str_def int_of_str_def strip_def is_space_def is_digit_def sample_env_def
  have a: "upsert_trigger_category sample_env [] (JObj [(''id'', JStr ''billing''), (''name'', JStr ''Billing'')])
     = ([((''trigger_categories'', Name ''billing''),
        [(''name'', Val (JStr ''Billing'')), (''position'', Null),
         (''created_at'', Null), (''updated_at'', Null)]),
       ((''raw_snapshots'', Raw ''trigger_categories'' 7),
        [(''updated_at'', Null),
         (''payload_json'', Jsonb (JObj [(''id'', JStr ''billing''), (''name'', JStr ''Billing'')]))])], None)"
    by (simp add: ev)
  have b: "upsert_trigger_category (sample_env\<lparr>hash_str := (\<lambda>s. int (length s) + 1)\<rparr>)
       [((''trigger_categories'', Name ''billing''),
        [(''name'', Val (JStr ''Billing'')), (''position'', Null),
         (''created_at'', Null), (''updated_at'', Null)]),
       ((''raw_snapshots'', Raw ''trigger_categories'' 7),
        [(''updated_at'', Null),
         (''payload_json'', Jsonb (JObj [(''id'', JStr ''billing''), (''name'', JStr ''Billing'')]))])]
       (JObj [(''id'', JStr ''billing''), (''name'', JStr ''Billing'')])
     = ([((''trigger_categories'', Name ''billing''),
        [(''name'', Val (JStr ''Billing'')), (''position'', Null),
         (''created_at'', Null), (''updated_at'', Null)]),
       ((''raw_snapshots'', Raw ''trigger_categories'' 7),
        [(''updated_at'', Null),
         (''payload_json'', Jsonb (JObj [(''id'', JStr ''billing''), (''name'', JStr ''Billing'')]))]),
       ((''raw_snapshots'', Raw ''trigger_categories'' 8),
        [(''updated_at'', Null),
         (''payload_json'', Jsonb (JObj [(''id'', JStr ''billing''), (''name'', JStr ''Billing'')]))])], None)"
    by (simp add: ev)
  have c: "restore_upsert_trigger_category (sample_env\<lparr>hash_str := (\<lambda>s. int (length s) + 1)\<rparr>)
       [((''trigger_categories'', Name ''billing''),
        [(''name'', Val (JStr ''Billing'')), (''position'', Null),
         (''created_at'', Null), (''updated_at'', Null)]),
       ((''raw_snapshots'', Raw ''trigger_categories'' 7),
        [(''updated_at'', Null),
         (''payload_json'', Jsonb (JObj [(''id'', JStr ''billing''), (''name'', JStr ''Billing'')]))])]
       (JObj [(''id'', JStr ''billing''), (''name'', JStr ''Billing'')])
     = ([((''trigger_categories'', Name ''billing''),
        [(''name'', Val (JStr ''Billing'')), (''position'', Null),
         (''created_at'', Null), (''updated_at'', Null)]),
       ((''raw_snapshots'', Raw ''trigger_categories'' 7),
        [(''updated_at'', Null),
         (''payload_json'', Jsonb (JObj [(''id'', JStr ''billing''), (''name'', JStr ''Billing'')]))]),
       ((''raw_snapshots'', Raw ''trigger_categories'' 8),
        [(''updated_at'', Null),
         (''payload_json'', Jsonb (JObj [(''id'', JStr ''billing''), (''name'', JStr ''Billing'')]))])], None)"
    by (simp add: ev)
  have r: "restore (sample_env\<lparr>hash_str := (\<lambda>s. int (length s) + 1)\<rparr>)
       [((''trigger_categories'', Name ''billing''),
        [(''name'', Val (JStr ''Billing'')), (''position'', Null),
         (''created_at'', Null), (''updated_at'', Null)]),
       ((''raw_snapshots'', Raw ''trigger_categories'' 7),
        [(''updated_at'', Null),
         (''payload_json'', Jsonb (JObj [(''id'', JStr ''billing''), (''name'', JStr ''Billing'')]))])]
       ''trigger_categories'' None 0 False False
     = ([((''trigger_categories'', Name ''billing''),
        [(''name'', Val (JStr ''Billing'')), (''position'', Null),
         (''created_at'', Null), (''updated_at'', Null)]),
       ((''raw_snapshots'', Raw ''trigger_categories'' 7),
        [(''updated_at'', Null),
         (''payload_json'', Jsonb (JObj [(''id'', JStr ''billing''), (''name'', JStr ''Billing'')]))]),
       ((''raw_snapshots'', Raw ''trigger_categories'' 8),
        [(''updated_at'', Null),
         (''payload_json'', Jsonb (JObj [(''id'', JStr ''billing''), (''name'', JStr ''Billing'')]))])], Inr [(''trigger_categories'', 1)])"
    by (simp add: restore_def parse_scope_def l RESTORERS_def maybe_truncate_def table_map_def
          truncate_table_def load_raw_rows_def raw_rows_def order_raw_def column_def
          decode_payload_def ev)
  show ?thesis using a b c r by blast
qed

section \<open>What the Writer stores\<close>

lemma cell_at_put_same: "cell_at (put t k r d) t k c = map_of r c"
  by (simp add: cell_at_def put_def update_conv' column_def)

lemma cell_at_put_other: "(t', k') \<noteq> (t, k) \<Longrightarrow> cell_at (put t' k' r d) t k c = cell_at d t k c"
  by (auto simp: cell_at_def put_def update_conv')

lemma cell_at_upsert_raw:
  "t \<noteq> ''raw_snapshots'' \<Longrightarrow> cell_at (fst (upsert_raw env d res n ts p)) t k c = cell_at d t k c"
  by (auto simp: upsert_raw_def cell_at_put_other split: option.split)

lemma cell_at_raw_by_id:
  "t \<noteq> ''raw_snapshots'' \<Longrightarrow> cell_at (fst (raw_by_id env d res kv ts)) t k c = cell_at d t k c"
  by (auto simp: raw_by_id_def cell_at_upsert_raw split: sum.split)

lemma cell_at_structured:
  assumes "pg_bigint env i = Some k" and "t \<noteq> ''raw_snapshots''"
  shows "cell_at (fst (and_then (insert_by_id env d t i r) (\<lambda>d1. raw_by_id env d1 res kv ts))) t (Row_id k) c
         = map_of r c"
  using assms by (simp add: and_then_def insert_by_id_def cell_at_raw_by_id cell_at_put_same)

lemma por_not_null: "por v (JList []) \<noteq> JNull \<and> por v (JObj []) \<noteq> JNull"
  by (cases v) (simp_all add: por_def)

text \<open>
  C7, as amended. When the store accepts the row, an absent (or otherwise falsy) nested
  collection is stored as the empty list or empty object, and never as JSON null, in these
  document columns: users (tags, user fields, photo), organizations (domain names, tags,
  organization fields), attachments (thumbnails), triggers (conditions, actions) and
  macros (actions). The restriction of a macro and the restriction, execution and
  conditions of a view are stored as they come: JSON null when absent.
\<close>

theorem absent_collections_defaults:
  assumes "pg_bigint env (dget kv ''id'') = Some k"
  shows
    "cell_at (fst (upsert_user env d (JObj kv))) ''users'' (Row_id k) ''tags_json''
       = Some (Jsonb (por (dget kv ''tags'') (JList [])))
     \<and> cell_at (fst (upsert_user env d (JObj kv))) ''users'' (Row_id k) ''user_fields_json''
       = Some (Jsonb (por (dget kv ''user_fields'') (JObj [])))
     \<and> cell_at (fst (upsert_user env d (JObj kv))) ''users'' (Row_id k) ''photo_json''
       = Some (Jsonb (por (dget kv ''photo'') (JObj [])))
     \<and> cell_at (fst (upsert_org env d (JObj kv))) ''organizations'' (Row_id k) ''domain_names_json''
       = Some (Jsonb (por (dget kv ''domain_names'') (JList [])))
     \<and> cell_at (fst (upsert_org env d (JObj kv))) ''organizations'' (Row_id k) ''tags_json''
       = Some (Jsonb (por (dget kv ''tags'') (JList [])))
     \<and> cell_at (fst (upsert_org env d (JObj kv))) ''organizations'' (Row_id k) ''organization_fields_json''
       = Some (Jsonb (por (dget kv ''organization_fields'') (JObj [])))
     \<and> cell_at (fst (upsert_attachment env d tid cid (JObj kv) lp)) ''attachments'' (Row_id k) ''thumbnails_json''
       = Some (Jsonb (por (dget kv ''thumbnails'') (JList [])))
     \<and> cell_at (fst (upsert_trigger env d (JObj kv))) ''triggers'' (Row_id k) ''conditions_json''
       = Some (Jsonb (por (dget kv ''conditions'') (JObj [])))
     \<and> cell_at (fst (upsert_trigger env d (JObj kv))) ''triggers'' (Row_id k) ''actions_json''
       = Some (Jsonb (por (dget kv ''actions'') (JList [])))
     \<and> cell_at (fst (upsert_macro env d (JObj kv))) ''macros'' (Row_id k) ''actions_json''
       = Some (Jsonb (por (dget kv ''actions'') (JList [])))
     \<and> cell_at (fst (upsert_macro env d (JObj kv))) ''macros'' (Row_id k) ''restriction_json''
       = Some (Jsonb (dget kv ''restriction''))
     \<and> cell_at (fst (upsert_view env d (JObj kv))) ''views'' (Row_id k) ''restriction_json''
       = Some (Jsonb (dget kv ''restriction''))
     \<and> cell_at (fst (upsert_view env d (JObj kv))) ''views'' (Row_id k) ''execution_json''
       = Some (Jsonb (dget kv ''execution''))
     \<and> cell_at (fst (upsert_view env d (JObj kv))) ''views'' (Row_id k) ''conditions_json''
       = Some (Jsonb (dget kv ''conditions''))
     \<and> por v (JList []) \<noteq> JNull \<and> por v (JObj []) \<noteq> JNull"
  using assms por_not_null [of v]
  by (simp add: upsert_user_def upsert_org_def upsert_attachment_def upsert_trigger_def
        upsert_macro_def upsert_view_def cell_at_structured)

theorem absent_collections_defaults_witness:
  "pg_bigint sample_env (dget [(''id'', JInt 1)] ''id'') = Some 1
   \<and> cell_at (fst (upsert_user sample_env [] (JObj [(''id'', JInt 1)]))) ''users'' (Row_id 1) ''tags_json''
       = Some (Jsonb (JList []))
   \<and> cell_at (fst (upsert_trigger sample_env [] (JObj [(''id'', JInt 1)]))) ''triggers'' (Row_id 1) ''conditions_json''
       = Some (Jsonb (JObj []))
   \<and> cell_at (fst (upsert_macro sample_env [] (JObj [(''id'', JInt 1)]))) ''macros'' (Row_id 1) ''restriction_json''
       = Some (Jsonb JNull)"
proof -
  have h: "pg_bigint sample_env (dget [(''id'', JInt 1)] ''id'') = Some 1"
    by (simp add: sample_env_def dget_def)
  show ?thesis
    using h absent_collections_defaults [OF h, of "[]"]
    by (simp add: dget_def por_def)
qed

text \<open>
  C7 as stated fails: a view without restriction, execution and conditions, and a macro
  without restriction, are written with JSON null in those columns.
\<close>

theorem absent_view_collections_counterexample:
  "cell_at (fst (upsert_view sample_env [] (JObj [(''id'', JInt 1), (''title'', JStr ''Unsolved'')])))
      ''views'' (Row_id 1) ''restriction_json'' = Some (Jsonb JNull)
   \<and> cell_at (fst (upsert_view sample_env [] (JObj [(''id'', JInt 1), (''title'', JStr ''Unsolved'')])))
      ''views'' (Row_id 1) ''execution_json'' = Some (Jsonb JNull)
   \<and> cell_at (fst (upsert_view sample_env [] (JObj [(''id'', JInt 1), (''title'', JStr ''Unsolved'')])))
      ''views'' (Row_id 1) ''conditions_json'' = Some (Jsonb JNull)
   \<and> cell_at (fst (upsert_macro sample_env [] (JObj [(''id'', JInt 2), (''title'', JStr ''Close'')])))
      ''macros'' (Row_id 2) ''restriction_json'' = Some (Jsonb JNull)"
  by (simp add: upsert_view_def upsert_macro_def cell_at_structured sample_env_def dget_def)

section \<open>The retry bound\<close>

lemma loop_consumes:
  "get_with_retry_loop env url n s = (r, s') \<Longrightarrow> \<exists>used. s = used @ s' \<and> length used \<le> n"
proof (induction env url n s arbitrary: r s' rule: get_with_retry_loop.induct)
  case (1 env url s)
  then show ?case by simp
next
  case (2 env url n)
  then show ?case by simp
next
  case (3 env url n s)
  then have "Net_error # s = [Net_error] @ s' \<and> length [Net_error] \<le> Suc n" by simp
  then show ?case by blast
next
  case (4 env url n st ra body tx s)
  let ?ev = "Response st ra body tx"
  show ?case
  proof (cases "get_with_retry_loop env url (Suc n) (?ev # s) = get_with_retry_loop env url n s")
    case True
    then have "get_with_retry_loop env url n s = (r, s')" using 4(4) by simp
    then obtain used where u: "s = used @ s'" "length used \<le> n"
      using 4(1-3) True 4(4)
      by (auto split: if_splits option.splits)
    then have "?ev # s = (?ev # used) @ s' \<and> length (?ev # used) \<le> Suc n" by simp
    then show ?thesis by blast
  next
    case False
    then have "s' = s" using 4(4) by (auto split: if_splits option.splits)
    then have "?ev # s = [?ev] @ s' \<and> length [?ev] \<le> Suc n" by simp
    then show ?thesis by blast
  qed
qed

lemma loop_exhausts:
  "length used = n \<Longrightarrow> \<forall>ev \<in> set used. retryable env ev \<Longrightarrow>
   get_with_retry_loop env url n (used @ rest) = (Inl (Fetch_exhausted url), rest)"
proof (induction used arbitrary: n)
  case Nil
  then show ?case by simp
next
  case (Cons ev used)
  then obtain m where n: "n = Suc m" "length used = m" by (cases n) auto
  have r: "retryable env ev" using Cons.prems by simp
  have rest: "get_with_retry_loop env url m (used @ rest) = (Inl (Fetch_exhausted url), rest)"
    using Cons.IH [OF n(2)] Cons.prems by simp
  show ?case
    using r rest unfolding n(1)
    by (cases ev) (auto simp: retryable_def split: option.splits)
qed

text \<open>
  C3, as amended. A fetch makes at most eight attempts: it consumes at most eight events
  of the script. When eight attempts in a row were retried, it raises the terminal error
  \<open>GET url exhausted retries\<close>, which names the URL only.
\<close>

theorem fetch_attempts_bounded:
  "(\<exists>consumed. s = consumed @ snd (get_with_retry env url s) \<and> length consumed \<le> 8)
   \<and> (length attempts = 8 \<and> (\<forall>ev \<in> set attempts. retryable env ev) \<longrightarrow>
        get_with_retry env url (attempts @ rest) = (Inl (Fetch_exhausted url), rest))"
proof -
  obtain r s' where g: "get_with_retry_loop env url 8 s = (r, s')"
    by (cases "get_with_retry_loop env url 8 s")
  have a: "\<exists>consumed. s = consumed @ snd (get_with_retry env url s) \<and> length consumed \<le> 8"
    using loop_consumes [OF g] g by (simp add: get_with_retry_def)
  have b: "length attempts = 8 \<and> (\<forall>ev \<in> set attempts. retryable env ev) \<longrightarrow>
        get_with_retry env url (attempts @ rest) = (Inl (Fetch_exhausted url), rest)"
    using loop_exhausts [of attempts 8 env url rest] by (simp add: get_with_retry_def)
  show ?thesis using a b by blast
qed

theorem fetch_attempts_bounded_witness:
  "length (replicate 8 (Response 500 None None ''boom'')) = 8
   \<and> retryable sample_env (Response 500 None None ''boom'')
   \<and> get_with_retry sample_env ''u'' (replicate 8 (Response 500 None None ''boom'') @ [Response 200 None (Some JNull) []])
       = (Inl (Fetch_exhausted ''u''), [Response 200 None (Some JNull) []])"
proof -
  have h: "length (replicate 8 (Response 500 None None ''boom'')) = 8
     \<and> (\<forall>ev \<in> set (replicate 8 (Response 500 None None ''boom'')). retryable sample_env ev)"
    by (simp add: retryable_def RETRY_STATUS_def)
  have r: "retryable sample_env (Response 500 None None ''boom'')"
    by (simp add: retryable_def RETRY_STATUS_def)
  show ?thesis
    using h r fetch_attempts_bounded [of _ sample_env "''u''" "replicate 8 (Response 500 None None ''boom'')"
        "[Response 200 None (Some JNull) []]"]
    by blast
qed

text \<open>
  C3 as stated fails: eight answers 500 with body \<open>boom\<close> and eight answers 503 with
  another body end in the same error value, which holds neither status nor body. Only the
  error of a status that is not retried carries them.
\<close>

theorem fetch_exhausted_error_counterexample:
  "get_with_retry sample_env ''https://example.zendesk.com/api/v2/views.json''
       (replicate 8 (Response 500 None None ''boom''))
     = (Inl (Fetch_exhausted ''https://example.zendesk.com/api/v2/views.json''), [])
   \<and> get_with_retry sample_env ''https://example.zendesk.com/api/v2/views.json''
       (replicate 8 (Response 503 (Some ''1'') (Some (JObj [(''error'', JStr ''down'')])) ''down''))
     = (Inl (Fetch_exhausted ''https://example.zendesk.com/api/v2/views.json''), [])
   \<and> get_with_retry sample_env ''https://example.zendesk.com/api/v2/views.json''
       [Response 404 None None ''missing'']
     = (Inl (Fetch_failed ''https://example.zendesk.com/api/v2/views.json'' 404
               (JObj [(''text'', JStr ''missing'')])), [])"
  by (simp add: get_with_retry_def eval_nat_numeral RETRY_STATUS_def sample_env_def failure_detail_def)

section \<open>Retention pruning\<close>

lemma map_of_filter_out:
  "(\<And>r. \<not> P (key, r)) \<Longrightarrow> map_of (filter P d) key = None"
  by (induction d) auto

lemma table_filter_keep:
  "(\<And>k r. P ((T, k), r)) \<Longrightarrow> table (filter P d) T = table d T"
  unfolding table_def by (induction d) auto

lemma table_delete_where_ticket:
  "t \<noteq> T \<Longrightarrow> table (delete_where_ticket t n d) T = table d T"
  unfolding delete_where_ticket_def by (rule table_filter_keep) simp

lemma delete_where_ticket_subset: "set (delete_where_ticket t n d) \<subseteq> set d"
  unfolding delete_where_ticket_def by auto

lemma delete_ticket_cascades:
  "map_of (delete_ticket d n) (''tickets'', Row_id n) = None
   \<and> (\<forall>((t, k), r) \<in> set (delete_ticket d n).
         (t = ''ticket_comments'' \<or> t = ''attachments'') \<longrightarrow> column r ''ticket_id'' \<noteq> Some (Num n))
   \<and> set (delete_ticket d n) \<subseteq> set d
   \<and> table (delete_ticket d n) ''raw_snapshots'' = table d ''raw_snapshots''"
proof -
  have a: "map_of (delete_ticket d n) (''tickets'', Row_id n) = None"
    unfolding delete_ticket_def Let_def by (rule map_of_filter_out) simp
  have b: "\<forall>((t, k), r) \<in> set (delete_ticket d n).
         (t = ''ticket_comments'' \<or> t = ''attachments'') \<longrightarrow> column r ''ticket_id'' \<noteq> Some (Num n)"
    unfolding delete_ticket_def Let_def delete_where_ticket_def by auto
  have c: "set (delete_ticket d n) \<subseteq> set d"
    unfolding delete_ticket_def Let_def delete_where_ticket_def by auto
  have d: "table (delete_ticket d n) ''raw_snapshots'' = table d ''raw_snapshots''"
    unfolding delete_ticket_def Let_def
    by (simp add: table_filter_keep table_delete_where_ticket)
  show ?thesis using a b c d by blast
qed

lemma set_update_subset: "set (AList.update k v al) \<subseteq> insert (k, v) (set al)"
  by (induction al) auto

lemma pruned_put:
  assumes "pruned d n" and "(t, k) \<noteq> (''tickets'', Row_id n)"
    and "t = ''ticket_comments'' \<or> t = ''attachments'' \<Longrightarrow> column r ''ticket_id'' \<noteq> Some (Num n)"
  shows "pruned (put t k r d) n"
proof -
  have a: "map_of (put t k r d) (''tickets'', Row_id n) = None"
    using assms(1,2) by (auto simp: pruned_def put_def update_conv')
  have b: "x \<in> set (put t k r d) \<Longrightarrow> x = ((t, k), r) \<or> x \<in> set d" for x
    using set_update_subset [of "(t, k)" r d] by (auto simp: put_def)
  show ?thesis
    unfolding pruned_def list_all_iff
    using a assms(1,3) b by (fastforce simp: pruned_def list_all_iff)
qed

lemma pruned_subset:
  assumes "pruned d n" and "set d' \<subseteq> set d" and "map_of d' (''tickets'', Row_id n) = None"
  shows "pruned d' n"
  using assms by (auto simp: pruned_def list_all_iff)

lemma map_of_filter_None: "map_of d k = None \<Longrightarrow> map_of (filter P d) k = None"
  by (induction d) auto

lemma pruned_delete_same: "pruned (delete_ticket d n) n"
  using delete_ticket_cascades [of d n] by (auto simp: pruned_def list_all_iff)

lemma pruned_delete_ticket: "pruned d n \<Longrightarrow> pruned (delete_ticket d m) n"
proof -
  assume p: "pruned d n"
  have s: "set (delete_ticket d m) \<subseteq> set d"
    using delete_ticket_cascades [of d m] by blast
  have "map_of (delete_ticket d m) (''tickets'', Row_id n) = None"
    using p by (simp add: delete_ticket_def delete_where_ticket_def pruned_def map_of_filter_None)
  then show ?thesis using pruned_subset [OF p s] by simp
qed

lemma pruned_upsert_raw: "pruned d n \<Longrightarrow> pruned (fst (upsert_raw env d res i ts p)) n"
  by (auto simp: upsert_raw_def split: option.splits intro: pruned_put)

lemma pruned_raw_by_id: "pruned d n \<Longrightarrow> pruned (fst (raw_by_id env d res kv ts)) n"
  by (auto simp: raw_by_id_def pruned_upsert_raw split: sum.splits)

lemma pruned_set_cursor_val: "pruned d n \<Longrightarrow> pruned (fst (set_cursor_val env d res tok)) n"
  by (auto simp: set_cursor_val_def split: option.splits intro: pruned_put)

lemma pruned_and_then:
  assumes "pruned (fst m) n" and "\<And>d1. pruned d1 n \<Longrightarrow> pruned (fst (f d1)) n"
  shows "pruned (fst (and_then m f)) n"
  using assms by (cases m) (auto simp: and_then_def split: option.splits)

lemma pruned_run_page:
  assumes "\<And>d1 x. pruned d1 n \<Longrightarrow> pruned (fst (f d1 x)) n" and "pruned d n"
  shows "pruned (fst (run_page f d xs)) n"
  using assms(2)
proof (induction xs arbitrary: d)
  case Nil
  then show ?case by simp
next
  case (Cons x xs)
  obtain d1 e where s: "f d x = (d1, e)" by (cases "f d x")
  have "pruned d1 n" using assms(1) [OF Cons.prems, of x] s by simp
  then show ?case using s Cons.IH [of d1] by (cases e) (auto simp: and_then_def)
qed

lemma pruned_upsert_ticket:
  assumes "pruned d n" and "pg_bigint env (dget kv ''id'') \<noteq> Some n"
  shows "pruned (fst (upsert_ticket env d (JObj kv))) n"
proof -
  have "pruned (put ''tickets'' (Row_id k) r d) n" if "k \<noteq> n" for k r
    using pruned_put [OF assms(1), of "''tickets''" "Row_id k" r] that by simp
  then have "pruned (fst (insert_by_id env d ''tickets'' (dget kv ''id'') r)) n" for r
    using assms by (auto simp: insert_by_id_def split: option.splits)
  then show ?thesis
    unfolding upsert_ticket_def
    by (simp add: pruned_and_then pruned_raw_by_id)
qed

lemma pruned_upsert_comment:
  assumes "pruned d n" and "tid \<noteq> n"
  shows "pruned (fst (upsert_comment env d tid c)) n"
proof (cases c)
  case (JObj kv)
  have "pruned (fst (insert_by_id env d ''ticket_comments'' (dget kv ''id'') ((''ticket_id'', Num tid) # r))) n" for r
    using assms by (auto simp: insert_by_id_def column_def split: option.splits intro: pruned_put)
  then show ?thesis
    unfolding JObj upsert_comment_def
    by (simp add: pruned_and_then pruned_raw_by_id)
qed (use assms in \<open>simp_all add: upsert_comment_def\<close>)

lemma pruned_upsert_attachment:
  assumes "pruned d n" and "tid \<noteq> n"
  shows "pruned (fst (upsert_attachment env d tid cid a lp)) n"
proof (cases a)
  case (JObj kv)
  have "pruned (fst (insert_by_id env d ''attachments'' (dget kv ''id'') ((''ticket_id'', Num tid) # r))) n" for r
    using assms by (auto simp: insert_by_id_def column_def split: option.splits intro: pruned_put)
  then show ?thesis
    unfolding JObj upsert_attachment_def
    by (simp add: pruned_and_then pruned_raw_by_id)
qed (use assms in \<open>simp_all add: upsert_attachment_def\<close>)

lemma pruned_attach:
  "pruned d n \<Longrightarrow> tid \<noteq> n \<Longrightarrow> pruned (fst (attach env tid cid d a)) n"
  by (auto simp: attach_def pruned_upsert_attachment split: sum.splits)

lemma pruned_comment_step:
  assumes "pruned d n" and "tid \<noteq> n"
  shows "pruned (fst (comment_step env tid d c)) n"
  unfolding comment_step_def
proof (rule pruned_and_then)
  show "pruned (fst (upsert_comment env d tid c)) n"
    using assms by (rule pruned_upsert_comment)
next
  fix d1 assume p: "pruned d1 n"
  show "pruned (fst (case c of
                JObj kv \<Rightarrow>
                  (case iter_items (por (dget kv ''attachments'') (JList [])) of
                     Inl e \<Rightarrow> (d1, Some e)
                   | Inr atts \<Rightarrow> run_page (attach env tid (por (dget kv ''id'') (JInt 0))) d1 atts)
              | _ \<Rightarrow> (d1, Some Attribute_error))) n"
    using p assms(2)
    by (auto split: json.splits sum.splits intro!: pruned_run_page pruned_attach)
qed

lemma pruned_comments_page:
  "pruned d n \<Longrightarrow> tid \<noteq> n \<Longrightarrow> pruned (fst (comments_page env tid d cpage)) n"
  unfolding comments_page_def
  by (auto split: json.splits sum.splits intro!: pruned_run_page pruned_comment_step)

lemma pruned_comment_pages:
  "pruned d n \<Longrightarrow> tid \<noteq> n \<Longrightarrow> pruned (fst (fst (comment_pages env tid d cpage s))) n"
proof (induction env tid d cpage s rule: comment_pages.induct)
  case (1 env tid d cpage s)
  obtain d1 e where p: "comments_page env tid d cpage = (d1, e)"
    by (cases "comments_page env tid d cpage")
  have d1: "pruned d1 n"
    using pruned_comments_page [OF "1.prems", of env cpage] p by simp
  show ?case
  proof (cases e)
    case (Some x)
    then show ?thesis using p d1 by (subst comment_pages.simps) simp
  next
    case None
    show ?thesis
    proof (cases "next_link ''next_page'' cpage")
      case (Inl x)
      then show ?thesis using p None d1 by (subst comment_pages.simps) simp
    next
      case (Inr nxt)
      show ?thesis
      proof (cases "truthy nxt")
        case False
        then show ?thesis using p None Inr d1 by (subst comment_pages.simps) simp
      next
        case True
        obtain r s' where g: "get_with_retry env (py_str env nxt) s = (r, s')"
          by (cases "get_with_retry env (py_str env nxt) s")
        show ?thesis
        proof (cases r)
          case (Inl x)
          then show ?thesis using p None Inr True g d1 by (subst comment_pages.simps) simp
        next
          case gp: (Inr pg)
          have "pruned (fst (fst (comment_pages env tid d1 pg s'))) n"
            using "1.IH" [OF p [symmetric] None Inr _ g [symmetric, unfolded gp] refl d1 "1.prems"(2)] True
            by simp
          then show ?thesis using p None Inr True g gp by (subst comment_pages.simps) simp
        qed
      qed
    qed
  qed
qed


lemma dindex_dget: "dindex kv k = Inr i \<Longrightarrow> dget kv k = i"
  by (auto simp: dindex_def dget_def split: option.splits)

lemma pruned_ticket_step:
  assumes "CLOSED_TICKETS_ONLY env" and "PRUNE_REOPENED_FROM_DB env"
    and o: "other_ticket env n t" and p: "pruned d n"
  shows "pruned (fst (fst (ticket_step env d t s))) n"
proof (cases t)
  case (JObj kv)
  show ?thesis
  proof (cases "por (dget kv ''status'') (JStr [])")
    case (JStr status)
    show ?thesis
    proof (cases "lower status = ''closed''")
      case False
      then show ?thesis
        using assms(1,2) JObj JStr p
        by (auto simp: ticket_step_def pruned_delete_ticket split: sum.splits)
    next
      case True
      have id: "pg_bigint env (dget kv ''id'') \<noteq> Some n" "py_int (dget kv ''id'') \<noteq> Inr n"
        using o JObj JStr True by (simp_all add: other_ticket_def)
      obtain d1 e where u: "upsert_ticket env d (JObj kv) = (d1, e)"
        by (cases "upsert_ticket env d (JObj kv)")
      have d1: "pruned d1 n"
        using pruned_upsert_ticket [OF p id(1)] u by simp
      have c: "pruned (fst (fst (case get_with_retry env url s of
                 (Inl e, s') \<Rightarrow> ((d1, Some e), s')
               | (Inr cpage, s') \<Rightarrow> comment_pages env tid d1 cpage s'))) n"
        if "tid \<noteq> n" for url tid
      proof (cases "get_with_retry env url s")
        case (Pair r s')
        then show ?thesis
          using d1 pruned_comment_pages [OF d1 that, of env _ s'] by (cases r) auto
      qed
      show ?thesis
        using JObj JStr True u d1 id(2) c
        by (auto simp: ticket_step_def dest!: dindex_dget split: sum.splits option.splits)
    qed
  qed (use JObj p in \<open>simp_all add: ticket_step_def\<close>)
qed (use p in \<open>simp_all add: ticket_step_def\<close>)

lemma pruned_tickets_items:
  assumes "CLOSED_TICKETS_ONLY env" and "PRUNE_REOPENED_FROM_DB env"
  shows "\<forall>t \<in> set ts. other_ticket env n t \<Longrightarrow> pruned d n \<Longrightarrow>
         pruned (fst (fst (tickets_items env d ts s))) n"
proof (induction ts arbitrary: d s)
  case Nil
  then show ?case by simp
next
  case (Cons t ts)
  obtain d1 e s1 where st: "ticket_step env d t s = ((d1, e), s1)"
    by (cases "ticket_step env d t s") auto
  have "pruned d1 n"
    using pruned_ticket_step [OF assms, of n t d s] Cons.prems st by simp
  then show ?case using st Cons.IH [of d1 s1] Cons.prems(1) by (cases e) auto
qed

lemma tickets_items_append:
  "tickets_items env d (pre @ ts) s =
     (case tickets_items env d pre s of
        ((d1, Some e), s1) \<Rightarrow> ((d1, Some e), s1)
      | ((d1, None), s1) \<Rightarrow> tickets_items env d1 ts s1)"
proof (induction pre arbitrary: d s)
  case Nil
  then show ?case by simp
next
  case (Cons t pre)
  obtain d1 e s1 where st: "ticket_step env d t s = ((d1, e), s1)"
    by (cases "ticket_step env d t s") auto
  show ?case using st Cons.IH [of d1 s1] by (cases e) auto
qed

lemma tickets_items_reach:
  assumes "tickets_items env d pre s = ((d1, None), s1)"
    and "ticket_step env d1 t s1 = ((d2, None), s2)"
  shows "tickets_items env d (pre @ t # post) s = tickets_items env d2 post s2"
  using assms by (simp add: tickets_items_append)

lemma tickets_items_through:
  assumes "tickets_items env d (pre @ t # post) s = ((d', None), s')"
  shows "\<exists>d1 s1 d2 s2. tickets_items env d pre s = ((d1, None), s1)
           \<and> ticket_step env d1 t s1 = ((d2, None), s2)
           \<and> tickets_items env d2 post s2 = ((d', None), s')"
proof -
  obtain d1 e1 s1 where a: "tickets_items env d pre s = ((d1, e1), s1)"
    by (cases "tickets_items env d pre s") auto
  have e1: "e1 = None" using assms a by (cases e1) (simp_all add: tickets_items_append)
  obtain d2 e2 s2 where b: "ticket_step env d1 t s1 = ((d2, e2), s2)"
    by (cases "ticket_step env d1 t s1") auto
  have e2: "e2 = None" using assms a e1 b by (cases e2) (simp_all add: tickets_items_append)
  have "tickets_items env d2 post s2 = ((d', None), s')"
    using assms a e1 b e2 by (simp add: tickets_items_append)
  then show ?thesis using a e1 b e2 by blast
qed

lemma tickets_page_prunes:
  assumes flags: "CLOSED_TICKETS_ONLY env" "PRUNE_REOPENED_FROM_DB env"
    and t: "por (dget kv ''status'') (JStr []) = JStr status" "lower status \<noteq> ''closed''"
      "dindex kv ''id'' = Inr i" "py_int i = Inr n"
    and page: "iter_items (dget_default pkv ''tickets'' (JList [])) = Inr (pre @ JObj kv # post)"
    and post: "\<forall>t' \<in> set post. other_ticket env n t'"
    and run: "tickets_page env d (JObj pkv) s = ((d', None), s')"
  shows "pruned d' n"
proof -
  obtain d0 e0 s0 where it: "tickets_items env d (pre @ JObj kv # post) s = ((d0, e0), s0)"
    by (cases "tickets_items env d (pre @ JObj kv # post) s") auto
  have e0: "e0 = None" using run page it by (cases e0) (simp_all add: tickets_page_def)
  obtain d1 s1 d2 s2 where th: "tickets_items env d pre s = ((d1, None), s1)"
      "ticket_step env d1 (JObj kv) s1 = ((d2, None), s2)"
      "tickets_items env d2 post s2 = ((d0, None), s0)"
    using tickets_items_through [OF it [unfolded e0]] by blast
  have "ticket_step env d1 (JObj kv) s1 = ((delete_ticket d1 n, None), s1)"
    using flags t by (simp add: ticket_step_def)
  then have "d2 = delete_ticket d1 n" using th(2) by simp
  then have "pruned d2 n" by (simp add: pruned_delete_same)
  then have d0: "pruned d0 n"
    using pruned_tickets_items [OF flags post, of d2 s2] th(3) by simp
  have "d' = d0 \<or> d' = fst (set_cursor_val env d0 ''tickets'' (dget pkv ''after_cursor''))"
    using run page it e0 by (auto simp: tickets_page_def split: if_splits)
  then show ?thesis using d0 pruned_set_cursor_val [OF d0] by auto
qed

lemma single_page_sync:
  assumes "pget page ''end_of_stream'' = Inr eos" and "truthy eos"
  shows "sync_tickets_comments_attachments env d (Response 200 h (Some page) tx # s)
           = tickets_page env d page s"
proof -
  obtain d1 e s1 where p: "tickets_page env d page s = ((d1, e), s1)"
    by (cases "tickets_page env d page s") auto
  show ?thesis
    using assms p by (cases e) (simp_all add: sync_tickets_comments_attachments_def)
qed

text \<open>
  C8. With closed-only filtering and pruning both enabled, a ticket of a sync page whose
  status (lower-cased, empty when missing) is not \<open>closed\<close> is handled by
  \<open>delete_ticket\<close> alone: afterwards the tickets table has no row with its id, no comment
  and no attachment row refers to it, nothing else was added to the store, and since
  \<open>upsert_ticket\<close> is not reached the raw snapshots are as before. The loop over a page
  reaches every such ticket: when the tickets before it have been processed, the page goes on
  from the store \<open>delete_ticket\<close> leaves. When the page then completes, and no later ticket
  of it is a closed ticket with the same id, the store has no row of the ticket, of its
  comments or of its attachments, and so has the store a sync leaves whose last page this is.
\<close>

theorem reopened_ticket_is_pruned:
  assumes "CLOSED_TICKETS_ONLY env" and "PRUNE_REOPENED_FROM_DB env"
    and "por (dget kv ''status'') (JStr []) = JStr status" and "lower status \<noteq> ''closed''"
    and "dindex kv ''id'' = Inr i" and "py_int i = Inr n"
  shows "ticket_step env d (JObj kv) s = ((delete_ticket d n, None), s)
     \<and> map_of (delete_ticket d n) (''tickets'', Row_id n) = None
     \<and> (\<forall>((t, k), r) \<in> set (delete_ticket d n).
           (t = ''ticket_comments'' \<or> t = ''attachments'') \<longrightarrow> column r ''ticket_id'' \<noteq> Some (Num n))
     \<and> set (delete_ticket d n) \<subseteq> set d
     \<and> table (delete_ticket d n) ''raw_snapshots'' = table d ''raw_snapshots''
     \<and> (tickets_items env pd pre ps = ((qd, None), qs) \<longrightarrow>
          tickets_items env pd (pre @ JObj kv # post) ps
            = tickets_items env (delete_ticket qd n) post qs)
     \<and> (iter_items (dget_default pkv ''tickets'' (JList [])) = Inr (pre @ JObj kv # post)
          \<and> (\<forall>t' \<in> set post. other_ticket env n t')
          \<and> tickets_page env pd (JObj pkv) ps = ((pd', None), ps') \<longrightarrow>
          pruned pd' n)
     \<and> (iter_items (dget_default pkv ''tickets'' (JList [])) = Inr (pre @ JObj kv # post)
          \<and> (\<forall>t' \<in> set post. other_ticket env n t')
          \<and> pget (JObj pkv) ''end_of_stream'' = Inr eos \<and> truthy eos
          \<and> sync_tickets_comments_attachments env xd (Response 200 h (Some (JObj pkv)) tx # xs)
              = ((xd', None), xs') \<longrightarrow>
          pruned xd' n)"
proof -
  have step: "ticket_step env d (JObj kv) s = ((delete_ticket d n, None), s)" for d s
    using assms by (simp add: ticket_step_def)
  have items: "tickets_items env pd (pre @ JObj kv # post) ps
            = tickets_items env (delete_ticket qd n) post qs"
    if "tickets_items env pd pre ps = ((qd, None), qs)"
    using tickets_items_reach [OF that step] .
  have page: "pruned pd' n"
    if "iter_items (dget_default pkv ''tickets'' (JList [])) = Inr (pre @ JObj kv # post)"
      and "\<forall>t' \<in> set post. other_ticket env n t'"
      and "tickets_page env pd (JObj pkv) ps = ((pd', None), ps')"
    using tickets_page_prunes [OF assms that] .
  have sync: "pruned xd' n"
    if a: "iter_items (dget_default pkv ''tickets'' (JList [])) = Inr (pre @ JObj kv # post)"
      and b: "\<forall>t' \<in> set post. other_ticket env n t'"
      and c: "pget (JObj pkv) ''end_of_stream'' = Inr eos" and e: "truthy eos"
      and r: "sync_tickets_comments_attachments env xd (Response 200 h (Some (JObj pkv)) tx # xs)
              = ((xd', None), xs')"
  proof -
    have "tickets_page env xd (JObj pkv) xs = ((xd', None), xs')"
      using single_page_sync [OF c e, of env xd h tx xs] r by simp
    then show ?thesis using tickets_page_prunes [OF assms a b] by blast
  qed
  show ?thesis
    using step [of d s] delete_ticket_cascades [of d n] items page sync by blast
qed

theorem reopened_ticket_is_pruned_witness:
  "CLOSED_TICKETS_ONLY (sample_env\<lparr>CLOSED_TICKETS_ONLY := True, PRUNE_REOPENED_FROM_DB := True\<rparr>)
   \<and> PRUNE_REOPENED_FROM_DB (sample_env\<lparr>CLOSED_TICKETS_ONLY := True, PRUNE_REOPENED_FROM_DB := True\<rparr>)
   \<and> por (dget [(''id'', JInt 5), (''status'', JStr ''Open'')] ''status'') (JStr []) = JStr ''Open''
   \<and> lower ''Open'' \<noteq> ''closed''
   \<and> dindex [(''id'', JInt 5), (''status'', JStr ''Open'')] ''id'' = Inr (JInt 5)
   \<and> py_int (JInt 5) = Inr 5
   \<and> ticket_step (sample_env\<lparr>CLOSED_TICKETS_ONLY := True, PRUNE_REOPENED_FROM_DB := True\<rparr>)
        [((''tickets'', Row_id 5), [(''status'', Val (JStr ''closed''))]),
         ((''tickets'', Row_id 6), [(''status'', Val (JStr ''closed''))]),
         ((''ticket_comments'', Row_id 50), [(''ticket_id'', Num 5)]),
         ((''ticket_comments'', Row_id 60), [(''ticket_id'', Num 6)]),
         ((''attachments'', Row_id 500), [(''ticket_id'', Num 5), (''comment_id'', Num 50)]),
         ((''raw_snapshots'', Raw ''tickets'' 5),
          [(''updated_at'', Null), (''payload_json'', Jsonb (JObj [(''id'', JInt 5)]))])]
        (JObj [(''id'', JInt 5), (''status'', JStr ''Open'')]) []
      = (([((''tickets'', Row_id 6), [(''status'', Val (JStr ''closed''))]),
         ((''ticket_comments'', Row_id 60), [(''ticket_id'', Num 6)]),
         ((''raw_snapshots'', Raw ''tickets'' 5),
          [(''updated_at'', Null), (''payload_json'', Jsonb (JObj [(''id'', JInt 5)]))])],
          None), [])
   \<and> iter_items (dget_default
         [(''tickets'', JList [JObj [(''id'', JInt 6), (''status'', JStr ''closed'')], JObj [(''id'', JInt 5), (''status'', JStr ''Open'')], JObj [(''id'', JInt 7), (''status'', JStr ''closed'')]]),
          (''after_cursor'', JStr ''t9''), (''end_of_stream'', JBool True)]
         ''tickets'' (JList []))
      = Inr ([JObj [(''id'', JInt 6), (''status'', JStr ''closed'')]] @ JObj [(''id'', JInt 5), (''status'', JStr ''Open'')] # [JObj [(''id'', JInt 7), (''status'', JStr ''closed'')]])
   \<and> sync_tickets_comments_attachments (sample_env\<lparr>CLOSED_TICKETS_ONLY := True, PRUNE_REOPENED_FROM_DB := True\<rparr>)
        [((''tickets'', Row_id 5), [(''status'', Val (JStr ''closed''))]),
         ((''tickets'', Row_id 6), [(''status'', Val (JStr ''closed''))]),
         ((''ticket_comments'', Row_id 50), [(''ticket_id'', Num 5)]),
         ((''ticket_comments'', Row_id 60), [(''ticket_id'', Num 6)]),
         ((''attachments'', Row_id 500), [(''ticket_id'', Num 5), (''comment_id'', Num 50)]),
         ((''raw_snapshots'', Raw ''tickets'' 5),
          [(''updated_at'', Null), (''payload_json'', Jsonb (JObj [(''id'', JInt 5)]))])]
        (Response 200 None (Some (JObj
         [(''tickets'', JList [JObj [(''id'', JInt 6), (''status'', JStr ''closed'')], JObj [(''id'', JInt 5), (''status'', JStr ''Open'')], JObj [(''id'', JInt 7), (''status'', JStr ''closed'')]]),
          (''after_cursor'', JStr ''t9''), (''end_of_stream'', JBool True)])) [] #
         [Response 200 None (Some (JObj [(''comments'', JList [JObj [(''id'', JInt 61), (''body'', JStr ''re'')]])])) [],
         Response 200 None (Some (JObj [(''comments'', JList [])])) []])
      = (([((''tickets'', Row_id 6),
          [(''subject'', Null), (''description'', Null),
           (''status'', Val (JStr ''closed'')), (''priority'', Null),
           (''type'', Null), (''requester_id'', Null),
           (''assignee_id'', Null), (''organization_id'', Null),
           (''created_at'', Null), (''updated_at'', Null),
           (''due_at'', Null)]),
         ((''ticket_comments'', Row_id 60), [(''ticket_id'', Num 6)]),
         ((''raw_snapshots'', Raw ''tickets'' 5),
          [(''updated_at'', Null), (''payload_json'', Jsonb (JObj [(''id'', JInt 5)]))]),
         ((''raw_snapshots'', Raw ''tickets'' 6),
          [(''updated_at'', Null),
           (''payload_json'', Jsonb (JObj [(''id'', JInt 6), (''status'', JStr ''closed'')]))]),
         ((''ticket_comments'', Row_id 61),
          [(''ticket_id'', Num 6), (''author_id'', Null),
           (''public'', Flag False), (''body'', Val (JStr ''re'')),
           (''created_at'', Null), (''updated_at'', Null)]),
         ((''raw_snapshots'', Raw ''comments'' 61),
          [(''updated_at'', Null),
           (''payload_json'', Jsonb (JObj [(''id'', JInt 61), (''body'', JStr ''re'')]))]),
         ((''tickets'', Row_id 7),
          [(''subject'', Null), (''description'', Null),
           (''status'', Val (JStr ''closed'')), (''priority'', Null),
           (''type'', Null), (''requester_id'', Null),
           (''assignee_id'', Null), (''organization_id'', Null),
           (''created_at'', Null), (''updated_at'', Null),
           (''due_at'', Null)]),
         ((''raw_snapshots'', Raw ''tickets'' 7),
          [(''updated_at'', Null),
           (''payload_json'', Jsonb (JObj [(''id'', JInt 7), (''status'', JStr ''closed'')]))]),
         ((''sync_state'', Name ''tickets''),
          [(''cursor_token'', Text ''t9''), (''updated_at'', Time 1704240000)])],
          None), [])
   \<and> map_of [((''tickets'', Row_id 6),
          [(''subject'', Null), (''description'', Null),
           (''status'', Val (JStr ''closed'')), (''priority'', Null),
           (''type'', Null), (''requester_id'', Null),
           (''assignee_id'', Null), (''organization_id'', Null),
           (''created_at'', Null), (''updated_at'', Null),
           (''due_at'', Null)]),
         ((''ticket_comments'', Row_id 60), [(''ticket_id'', Num 6)]),
         ((''raw_snapshots'', Raw ''tickets'' 5),
          [(''updated_at'', Null), (''payload_json'', Jsonb (JObj [(''id'', JInt 5)]))]),
         ((''raw_snapshots'', Raw ''tickets'' 6),
          [(''updated_at'', Null),
           (''payload_json'', Jsonb (JObj [(''id'', JInt 6), (''status'', JStr ''closed'')]))]),
         ((''ticket_comments'', Row_id 61),
          [(''ticket_id'', Num 6), (''author_id'', Null),
           (''public'', Flag False), (''body'', Val (JStr ''re'')),
           (''created_at'', Null), (''updated_at'', Null)]),
         ((''raw_snapshots'', Raw ''comments'' 61),
          [(''updated_at'', Null),
           (''payload_json'', Jsonb (JObj [(''id'', JInt 61), (''body'', JStr ''re'')]))]),
         ((''tickets'', Row_id 7),
          [(''subject'', Null), (''description'', Null),
           (''status'', Val (JStr ''closed'')), (''priority'', Null),
           (''type'', Null), (''requester_id'', Null),
           (''assignee_id'', Null), (''organization_id'', Null),
           (''created_at'', Null), (''updated_at'', Null),
           (''due_at'', Null)]),
         ((''raw_snapshots'', Raw ''tickets'' 7),
          [(''updated_at'', Null),
           (''payload_json'', Jsonb (JObj [(''id'', JInt 7), (''status'', JStr ''closed'')]))]),
         ((''sync_state'', Name ''tickets''),
          [(''cursor_token'', Text ''t9''), (''updated_at'', Time 1704240000)])] (''tickets'', Row_id 5) = None
   \<and> table [((''tickets'', Row_id 6),
          [(''subject'', Null), (''description'', Null),
           (''status'', Val (JStr ''closed'')), (''priority'', Null),
           (''type'', Null), (''requester_id'', Null),
           (''assignee_id'', Null), (''organization_id'', Null),
           (''created_at'', Null), (''updated_at'', Null),
           (''due_at'', Null)]),
         ((''ticket_comments'', Row_id 60), [(''ticket_id'', Num 6)]),
         ((''raw_snapshots'', Raw ''tickets'' 5),
          [(''updated_at'', Null), (''payload_json'', Jsonb (JObj [(''id'', JInt 5)]))]),
         ((''raw_snapshots'', Raw ''tickets'' 6),
          [(''updated_at'', Null),
           (''payload_json'', Jsonb (JObj [(''id'', JInt 6), (''status'', JStr ''closed'')]))]),
         ((''ticket_comments'', Row_id 61),
          [(''ticket_id'', Num 6), (''author_id'', Null),
           (''public'', Flag False), (''body'', Val (JStr ''re'')),
           (''created_at'', Null), (''updated_at'', Null)]),
         ((''raw_snapshots'', Raw ''comments'' 61),
          [(''updated_at'', Null),
           (''payload_json'', Jsonb (JObj [(''id'', JInt 61), (''body'', JStr ''re'')]))]),
         ((''tickets'', Row_id 7),
          [(''subject'', Null), (''description'', Null),
           (''status'', Val (JStr ''closed'')), (''priority'', Null),
           (''type'', Null), (''requester_id'', Null),
           (''assignee_id'', Null), (''organization_id'', Null),
           (''created_at'', Null), (''updated_at'', Null),
           (''due_at'', Null)]),
         ((''raw_snapshots'', Raw ''tickets'' 7),
          [(''updated_at'', Null),
           (''payload_json'', Jsonb (JObj [(''id'', JInt 7), (''status'', JStr ''closed'')]))]),
         ((''sync_state'', Name ''tickets''),
          [(''cursor_token'', Text ''t9''), (''updated_at'', Time 1704240000)])] ''ticket_comments''
      = [(Row_id 60, [(''ticket_id'', Num 6)]),
         (Row_id 61,
          [(''ticket_id'', Num 6), (''author_id'', Null),
           (''public'', Flag False), (''body'', Val (JStr ''re'')),
           (''created_at'', Null), (''updated_at'', Null)])]
   \<and> table [((''tickets'', Row_id 6),
          [(''subject'', Null), (''description'', Null),
           (''status'', Val (JStr ''closed'')), (''priority'', Null),
           (''type'', Null), (''requester_id'', Null),
           (''assignee_id'', Null), (''organization_id'', Null),
           (''created_at'', Null), (''updated_at'', Null),
           (''due_at'', Null)]),
         ((''ticket_comments'', Row_id 60), [(''ticket_id'', Num 6)]),
         ((''raw_snapshots'', Raw ''tickets'' 5),
          [(''updated_at'', Null), (''payload_json'', Jsonb (JObj [(''id'', JInt 5)]))]),
         ((''raw_snapshots'', Raw ''tickets'' 6),
          [(''updated_at'', Null),
           (''payload_json'', Jsonb (JObj [(''id'', JInt 6), (''status'', JStr ''closed'')]))]),
         ((''ticket_comments'', Row_id 61),
          [(''ticket_id'', Num 6), (''author_id'', Null),
           (''public'', Flag False), (''body'', Val (JStr ''re'')),
           (''created_at'', Null), (''updated_at'', Null)]),
         ((''raw_snapshots'', Raw ''comments'' 61),
          [(''updated_at'', Null),
           (''payload_json'', Jsonb (JObj [(''id'', JInt 61), (''body'', JStr ''re'')]))]),
         ((''tickets'', Row_id 7),
          [(''subject'', Null), (''description'', Null),
           (''status'', Val (JStr ''closed'')), (''priority'', Null),
           (''type'', Null), (''requester_id'', Null),
           (''assignee_id'', Null), (''organization_id'', Null),
           (''created_at'', Null), (''updated_at'', Null),
           (''due_at'', Null)]),
         ((''raw_snapshots'', Raw ''tickets'' 7),
          [(''updated_at'', Null),
           (''payload_json'', Jsonb (JObj [(''id'', JInt 7), (''status'', JStr ''closed'')]))]),
         ((''sync_state'', Name ''tickets''),
          [(''cursor_token'', Text ''t9''), (''updated_at'', Time 1704240000)])] ''attachments'' = []"
proof -
  let ?env = "(sample_env\<lparr>CLOSED_TICKETS_ONLY := True, PRUNE_REOPENED_FROM_DB := True\<rparr>)"
  let ?kv = "[(''id'', JInt 5), (''status'', JStr ''Open'')]"
  let ?pkv = "[(''tickets'', JList [JObj [(''id'', JInt 6), (''status'', JStr ''closed'')], JObj [(''id'', JInt 5), (''status'', JStr ''Open'')], JObj [(''id'', JInt 7), (''status'', JStr ''closed'')]]),
          (''after_cursor'', JStr ''t9''), (''end_of_stream'', JBool True)]"
  let ?d = "[((''tickets'', Row_id 5), [(''status'', Val (JStr ''closed''))]),
         ((''tickets'', Row_id 6), [(''status'', Val (JStr ''closed''))]),
         ((''ticket_comments'', Row_id 50), [(''ticket_id'', Num 5)]),
         ((''ticket_comments'', Row_id 60), [(''ticket_id'', Num 6)]),
         ((''attachments'', Row_id 500), [(''ticket_id'', Num 5), (''comment_id'', Num 50)]),
         ((''raw_snapshots'', Raw ''tickets'' 5),
          [(''updated_at'', Null), (''payload_json'', Jsonb (JObj [(''id'', JInt 5)]))])]"
  let ?f = "[((''tickets'', Row_id 6),
          [(''subject'', Null), (''description'', Null),
           (''status'', Val (JStr ''closed'')), (''priority'', Null),
           (''type'', Null), (''requester_id'', Null),
           (''assignee_id'', Null), (''organization_id'', Null),
           (''created_at'', Null), (''updated_at'', Null),
           (''due_at'', Null)]),
         ((''ticket_comments'', Row_id 60), [(''ticket_id'', Num 6)]),
         ((''raw_snapshots'', Raw ''tickets'' 5),
          [(''updated_at'', Null), (''payload_json'', Jsonb (JObj [(''id'', JInt 5)]))]),
         ((''raw_snapshots'', Raw ''tickets'' 6),
          [(''updated_at'', Null),
           (''payload_json'', Jsonb (JObj [(''id'', JInt 6), (''status'', JStr ''closed'')]))]),
         ((''ticket_comments'', Row_id 61),
          [(''ticket_id'', Num 6), (''author_id'', Null),
           (''public'', Flag False), (''body'', Val (JStr ''re'')),
           (''created_at'', Null), (''updated_at'', Null)]),
         ((''raw_snapshots'', Raw ''comments'' 61),
          [(''updated_at'', Null),
           (''payload_json'', Jsonb (JObj [(''id'', JInt 61), (''body'', JStr ''re'')]))]),
         ((''tickets'', Row_id 7),
          [(''subject'', Null), (''description'', Null),
           (''status'', Val (JStr ''closed'')), (''priority'', Null),
           (''type'', Null), (''requester_id'', Null),
           (''assignee_id'', Null), (''organization_id'', Null),
           (''created_at'', Null), (''updated_at'', Null),
           (''due_at'', Null)]),
         ((''raw_snapshots'', Raw ''tickets'' 7),
          [(''updated_at'', Null),
           (''payload_json'', Jsonb (JObj [(''id'', JInt 7), (''status'', JStr ''closed'')]))]),
         ((''sync_state'', Name ''tickets''),
          [(''cursor_token'', Text ''t9''), (''updated_at'', Time 1704240000)])]"
  let ?s = "[Response 200 None (Some (JObj [(''comments'', JList [JObj [(''id'', JInt 61), (''body'', JStr ''re'')]])])) [],
         Response 200 None (Some (JObj [(''comments'', JList [])])) []]"
  have low: "lower ''Open'' \<noteq> ''closed''" "lower ''closed'' = ''closed''"
    by (simp_all add: lower_def lower_char_def)
  have h1: "CLOSED_TICKETS_ONLY ?env" by simp
  have h2: "PRUNE_REOPENED_FROM_DB ?env" by simp
  have h3: "por (dget ?kv ''status'') (JStr []) = JStr ''Open''" by (simp add: por_def dget_def)
  have h4: "lower ''Open'' \<noteq> ''closed''" by (rule low)
  have h5: "dindex ?kv ''id'' = Inr (JInt 5)" by (simp add: dindex_def)
  have h6: "py_int (JInt 5) = Inr 5" by simp
  have pg: "iter_items (dget_default ?pkv ''tickets'' (JList []))
      = Inr ([JObj [(''id'', JInt 6), (''status'', JStr ''closed'')]] @ JObj ?kv # [JObj [(''id'', JInt 7), (''status'', JStr ''closed'')]])"
    by (simp add: iter_items_def dget_default_def)
  have ot: "\<forall>t' \<in> set [JObj [(''id'', JInt 7), (''status'', JStr ''closed'')]]. other_ticket ?env 5 t'"
    by (simp add: other_ticket_def por_def dget_def sample_env_def)
  have eos: "pget (JObj ?pkv) ''end_of_stream'' = Inr (JBool True)" by (simp add: pget_def dget_def)
  have run: "sync_tickets_comments_attachments ?env ?d (Response 200 None (Some (JObj ?pkv)) [] # ?s)
      = ((?f, None), [])"
    by (simp add: sync_tickets_comments_attachments_def tickets_page_def iter_items_def
          dget_default_def dget_def ticket_step_def por_def low upsert_ticket_def upsert_comment_def
          and_then_def insert_by_id_def raw_by_id_def upsert_raw_def put_def dindex_def parse_dt_def
          stamp_def param_def sample_env_def get_with_retry_def eval_nat_numeral comments_page_def
          comment_step_def next_link_def pget_def pget_default_def set_cursor_val_def pg_text_def
          py_str_def delete_ticket_def delete_where_ticket_def column_def)
  note th = reopened_ticket_is_pruned [OF h1 h2 h3 h4 h5 h6, where d = ?d and s = "[]"
      and pkv = ?pkv and pre = "[JObj [(''id'', JInt 6), (''status'', JStr ''closed'')]]"
      and post = "[JObj [(''id'', JInt 7), (''status'', JStr ''closed'')]]"
      and eos = "JBool True" and xd = ?d and h = None and tx = "[]" and xs = ?s and xd' = ?f
      and xs' = "[]"]
  have step: "ticket_step ?env ?d (JObj ?kv) []
      = (([((''tickets'', Row_id 6), [(''status'', Val (JStr ''closed''))]),
         ((''ticket_comments'', Row_id 60), [(''ticket_id'', Num 6)]),
         ((''raw_snapshots'', Raw ''tickets'' 5),
          [(''updated_at'', Null), (''payload_json'', Jsonb (JObj [(''id'', JInt 5)]))])], None), [])"
    using th by (simp add: delete_ticket_def delete_where_ticket_def column_def)
  have "pruned ?f 5" using th pg ot eos run by simp
  then have gone: "map_of ?f (''tickets'', Row_id 5) = None" by (simp add: pruned_def)
  have tc: "table ?f ''ticket_comments''
      = [(Row_id 60, [(''ticket_id'', Num 6)]),
         (Row_id 61,
          [(''ticket_id'', Num 6), (''author_id'', Null),
           (''public'', Flag False), (''body'', Val (JStr ''re'')),
           (''created_at'', Null), (''updated_at'', Null)])]"
    by (simp add: table_def)
  have ta: "table ?f ''attachments'' = []" by (simp add: table_def)
  show ?thesis using h1 h2 h3 h4 h5 h6 step pg run gone tc ta by blast
qed

section \<open>The update time of comments\<close>

lemma cell_at_comment_raw:
  assumes "dindex kv ''id'' = Inr i" and "py_int i = Inr n" and "pg_bigint env (JInt n) = Some m"
  shows "cell_at (fst (raw_by_id env d ''comments'' kv ts)) ''raw_snapshots'' (Raw ''comments'' m) ''updated_at''
         = Some (stamp (parse_dt env ts))"
  using assms by (simp add: raw_by_id_def upsert_raw_def cell_at_put_same)

lemma upsert_comment_updated_at:
  assumes "dindex kv ''id'' = Inr i" and "pg_bigint env i = Some k"
    and "py_int i = Inr n" and "pg_bigint env (JInt n) = Some m"
  shows "cell_at (fst (upsert_comment env d tid (JObj kv))) ''ticket_comments'' (Row_id k) ''updated_at''
           = Some (stamp (parse_dt env (por (dget kv ''updated_at'') (dget kv ''created_at''))))
         \<and> cell_at (fst (upsert_comment env d tid (JObj kv))) ''raw_snapshots'' (Raw ''comments'' m) ''updated_at''
           = Some (stamp (parse_dt env (por (dget kv ''updated_at'') (dget kv ''created_at''))))
         \<and> snd (upsert_comment env d tid (JObj kv)) = None"
proof -
  have i: "dget kv ''id'' = i"
    using assms(1) by (auto simp: dindex_def dget_def split: option.splits)
  have a: "cell_at (fst (upsert_comment env d tid (JObj kv))) ''ticket_comments'' (Row_id k) ''updated_at''
           = Some (stamp (parse_dt env (por (dget kv ''updated_at'') (dget kv ''created_at''))))"
    using assms(2) i by (simp add: upsert_comment_def cell_at_structured)
  have b: "cell_at (fst (upsert_comment env d tid (JObj kv))) ''raw_snapshots'' (Raw ''comments'' m) ''updated_at''
           = Some (stamp (parse_dt env (por (dget kv ''updated_at'') (dget kv ''created_at''))))"
    using assms(2) i cell_at_comment_raw [OF assms(1,3,4)]
    by (simp add: upsert_comment_def and_then_def insert_by_id_def)
  have c: "snd (upsert_comment env d tid (JObj kv)) = None"
    using assms i
    by (simp add: upsert_comment_def and_then_def insert_by_id_def raw_by_id_def upsert_raw_def)
  show ?thesis using a b c by blast
qed

lemma cell_at_upsert_attachment:
  assumes "t = ''ticket_comments'' \<or> (t = ''raw_snapshots'' \<and> key = Raw ''comments'' m)"
  shows "cell_at (fst (upsert_attachment env d tid cid a lp)) t key c = cell_at d t key c"
proof (cases a)
  case (JObj kv)
  show ?thesis
    using assms unfolding JObj upsert_attachment_def
    by (auto simp: and_then_def insert_by_id_def raw_by_id_def upsert_raw_def cell_at_put_other
             split: option.splits sum.splits)
qed (simp_all add: upsert_attachment_def)

lemma cell_at_attach:
  assumes "t = ''ticket_comments'' \<or> (t = ''raw_snapshots'' \<and> key = Raw ''comments'' m)"
  shows "cell_at (fst (attach env tid cid d a)) t key c = cell_at d t key c"
  using cell_at_upsert_attachment [OF assms] by (auto simp: attach_def split: sum.splits)

lemma cell_at_run_page:
  assumes "\<And>d1 x. cell_at (fst (f d1 x)) t key c = cell_at d1 t key c"
  shows "cell_at (fst (run_page f d xs)) t key c = cell_at d t key c"
proof (induction xs arbitrary: d)
  case Nil
  then show ?case by simp
next
  case (Cons x xs)
  obtain d1 e where s: "f d x = (d1, e)" by (cases "f d x")
  have "cell_at d1 t key c = cell_at d t key c" using assms [of d x] s by simp
  then show ?case using s Cons.IH [of d1] by (cases e) (auto simp: and_then_def)
qed

lemma child_step_comment:
  assumes "por (dget ce ''event_type'') (dget ce ''type'') = JStr ''Comment''"
    and "dindex ce ''id'' = Inr i"
  shows "child_step env tid d (JObj ce) =
           and_then (upsert_comment env d tid (comment_of_child_event ce i))
             (\<lambda>d1. case iter_items (por (dget ce ''attachments'') (JList [])) of
                      Inl e \<Rightarrow> (d1, Some e)
                    | Inr atts \<Rightarrow> run_page (attach env tid i) d1 atts)"
  using assms by (simp add: child_step_def)

lemma child_step_plain: "plain_child ce \<Longrightarrow> child_step env tid d ce = (d, None)"
  by (cases ce) (simp_all add: plain_child_def child_step_def)

lemma run_page_plain: "list_all plain_child ces \<Longrightarrow> run_page (child_step env tid) d ces = (d, None)"
  by (induction ces) (simp_all add: child_step_plain and_then_def)

lemma run_page_append:
  "run_page f d (pre @ xs) = and_then (run_page f d pre) (\<lambda>d1. run_page f d1 xs)"
proof (induction pre arbitrary: d)
  case Nil
  then show ?case by (simp add: and_then_def)
next
  case (Cons x pre)
  obtain d1 e where s: "f d x = (d1, e)" by (cases "f d x")
  show ?case using s Cons.IH [of d1] by (cases e) (simp_all add: and_then_def)
qed

lemma child_step_updated_at:
  assumes c: "por (dget ce ''event_type'') (dget ce ''type'') = JStr ''Comment''"
    and i: "dindex ce ''id'' = Inr i" and k: "pg_bigint env i = Some k"
    and n: "py_int i = Inr n" and m: "pg_bigint env (JInt n) = Some m"
  shows "cell_at (fst (child_step env tid d (JObj ce))) ''ticket_comments'' (Row_id k) ''updated_at''
           = Some (stamp (parse_dt env (dget ce ''created_at'')))
         \<and> cell_at (fst (child_step env tid d (JObj ce))) ''raw_snapshots'' (Raw ''comments'' m) ''updated_at''
           = Some (stamp (parse_dt env (dget ce ''created_at'')))"
proof -
  let ?c = "[(''id'', i), (''author_id'', dget ce ''author_id''),
             (''public'', dget_default ce ''public'' (JBool False)), (''body'', dget ce ''body''),
             (''created_at'', dget ce ''created_at''), (''updated_at'', dget ce ''created_at''),
             (''attachments'', por (dget ce ''attachments'') (JList []))]"
  have ev: "comment_of_child_event ce i = JObj ?c"
    by (simp add: comment_of_child_event_def)
  have idx: "dindex ?c ''id'' = Inr i"
    by (simp add: dindex_def)
  have same: "por (dget ?c ''updated_at'') (dget ?c ''created_at'') = dget ce ''created_at''"
    by (simp add: dget_def por_def)
  note u = upsert_comment_updated_at [OF idx k n m, of d tid, unfolded same, folded ev]
  obtain d1 where d1: "upsert_comment env d tid (comment_of_child_event ce i) = (d1, None)"
    using u by (cases "upsert_comment env d tid (comment_of_child_event ce i)") auto
  have frame: "cell_at (fst (case iter_items (por (dget ce ''attachments'') (JList [])) of
                      Inl e \<Rightarrow> (d1, Some e)
                    | Inr atts \<Rightarrow> run_page (attach env tid i) d1 atts)) t key x = cell_at d1 t key x"
    if "t = ''ticket_comments'' \<or> (t = ''raw_snapshots'' \<and> key = Raw ''comments'' m)" for t key x
    using cell_at_run_page [of "attach env tid i" t key x d1, OF cell_at_attach [OF that]]
    by (auto split: sum.splits)
  have "fst (child_step env tid d (JObj ce))
        = fst (case iter_items (por (dget ce ''attachments'') (JList [])) of
                      Inl e \<Rightarrow> (d1, Some e)
                    | Inr atts \<Rightarrow> run_page (attach env tid i) d1 atts)"
    by (simp add: child_step_comment [OF c i] d1 and_then_def)
  then show ?thesis using u d1 frame by simp
qed


lemma and_then_unit: "and_then m (\<lambda>d. (d, None)) = m"
  by (cases m) (auto simp: and_then_def split: option.splits)

lemma event_step_reaches:
  assumes "closed_gate env tid s = (Inr True, s1)"
    and "py_int (dget ev ''ticket_id'') = Inr tid"
    and "iter_items (por (dget ev ''child_events'') (JList [])) = Inr (pre @ JObj ce # post)"
    and "run_page (child_step env tid) d pre = (d1, None)"
  shows "event_step env d (JObj ev) s
           = (and_then (child_step env tid d1 (JObj ce)) (\<lambda>d2. run_page (child_step env tid) d2 post), s1)"
  using assms by (simp add: event_step_def run_page_append and_then_def)

lemma event_step_last_comment:
  assumes "closed_gate env tid s = (Inr True, s1)"
    and "py_int (dget ev ''ticket_id'') = Inr tid"
    and "iter_items (por (dget ev ''child_events'') (JList [])) = Inr (pre @ JObj ce # post)"
    and "run_page (child_step env tid) d pre = (d1, None)"
    and "list_all plain_child post"
  shows "event_step env d (JObj ev) s = (child_step env tid d1 (JObj ce), s1)"
  using event_step_reaches [OF assms(1-4)] assms(5)
  by (simp add: run_page_plain and_then_unit)

lemma event_stamped_put:
  assumes "event_stamped env d"
    and "t = ''ticket_comments'' \<Longrightarrow> column r ''updated_at'' = column r ''created_at''"
    and "\<And>m. t = ''raw_snapshots'' \<Longrightarrow> k = Raw ''comments'' m \<Longrightarrow>
           (case column r ''payload_json'' of
              Some (Jsonb (JObj kv)) \<Rightarrow>
                column r ''updated_at'' = Some (stamp (parse_dt env (dget kv ''created_at'')))
            | _ \<Rightarrow> False)"
  shows "event_stamped env (put t k r d)"
proof -
  let ?P = "\<lambda>((t, k), r).
        (t = ''ticket_comments'' \<longrightarrow> column r ''updated_at'' = column r ''created_at'')
        \<and> (case k of
             Raw res m \<Rightarrow>
               t = ''raw_snapshots'' \<and> res = ''comments'' \<longrightarrow>
                 (case column r ''payload_json'' of
                    Some (Jsonb (JObj kv)) \<Rightarrow>
                      column r ''updated_at'' = Some (stamp (parse_dt env (dget kv ''created_at'')))
                  | _ \<Rightarrow> False)
           | _ \<Rightarrow> True)"
  have b: "x \<in> set (put t k r d) \<Longrightarrow> x = ((t, k), r) \<or> x \<in> set d" for x
    using set_update_subset [of "(t, k)" r d] by (auto simp: put_def)
  have old: "\<forall>x \<in> set d. ?P x"
    using assms(1) unfolding event_stamped_def list_all_iff .
  have new: "?P ((t, k), r)"
    using assms(2,3) by (cases k) auto
  have "\<forall>x \<in> set (put t k r d). ?P x"
    using b old new by blast
  then show ?thesis unfolding event_stamped_def list_all_iff .
qed

lemma event_stamped_and_then:
  assumes "event_stamped env (fst m)" and "\<And>d1. event_stamped env d1 \<Longrightarrow> event_stamped env (fst (f d1))"
  shows "event_stamped env (fst (and_then m f))"
  using assms by (cases m) (auto simp: and_then_def split: option.splits)

lemma event_stamped_run_page:
  assumes "\<And>d1 x. event_stamped env d1 \<Longrightarrow> event_stamped env (fst (f d1 x))" and "event_stamped env d"
  shows "event_stamped env (fst (run_page f d xs))"
  using assms(2)
proof (induction xs arbitrary: d)
  case Nil
  then show ?case by simp
next
  case (Cons x xs)
  obtain d1 e where s: "f d x = (d1, e)" by (cases "f d x")
  have "event_stamped env d1" using assms(1) [OF Cons.prems, of x] s by simp
  then show ?case using s Cons.IH [of d1] by (cases e) (auto simp: and_then_def)
qed

lemma event_stamped_upsert_attachment:
  assumes "event_stamped env d"
  shows "event_stamped env (fst (upsert_attachment env d tid cid a lp))"
proof (cases a)
  case (JObj kv)
  have raw: "event_stamped env (fst (raw_by_id env d1 ''attachments'' kv ts))"
    if "event_stamped env d1" for d1 ts
    using that
    by (auto simp: raw_by_id_def upsert_raw_def split: sum.splits option.splits
             intro!: event_stamped_put)
  have "event_stamped env (fst (insert_by_id env d ''attachments'' (dget kv ''id'') r))" for r
    using assms by (auto simp: insert_by_id_def split: option.splits intro!: event_stamped_put)
  then show ?thesis
    unfolding JObj upsert_attachment_def
    by (simp add: event_stamped_and_then raw)
qed (use assms in \<open>simp_all add: upsert_attachment_def\<close>)

lemma event_stamped_attach:
  "event_stamped env d \<Longrightarrow> event_stamped env (fst (attach env tid cid d a))"
  by (auto simp: attach_def event_stamped_upsert_attachment split: sum.splits)

lemma event_stamped_event_comment:
  assumes "event_stamped env d"
  shows "event_stamped env (fst (upsert_comment env d tid (comment_of_child_event ce i)))"
proof -
  let ?c = "[(''id'', i), (''author_id'', dget ce ''author_id''),
             (''public'', dget_default ce ''public'' (JBool False)), (''body'', dget ce ''body''),
             (''created_at'', dget ce ''created_at''), (''updated_at'', dget ce ''created_at''),
             (''attachments'', por (dget ce ''attachments'') (JList []))]"
  have same: "por (dget ?c ''updated_at'') (dget ?c ''created_at'') = dget ce ''created_at''"
    "dget ?c ''created_at'' = dget ce ''created_at''"
    by (simp_all add: dget_def por_def)
  have raw: "event_stamped env (fst (raw_by_id env d1 ''comments'' ?c (dget ce ''created_at'')))"
    if "event_stamped env d1" for d1
    using that same(2)
    by (auto simp: raw_by_id_def upsert_raw_def column_def split: sum.splits option.splits
             intro!: event_stamped_put)
  have row: "event_stamped env (fst (insert_by_id env d ''ticket_comments'' j
               [(''ticket_id'', Num tid), (''author_id'', a), (''public'', b), (''body'', c),
                (''created_at'', x), (''updated_at'', x)]))" for a b c x j
    using assms
    by (auto simp: insert_by_id_def column_def split: option.splits intro!: event_stamped_put)
  have eq: "upsert_comment env d tid (comment_of_child_event ce i)
      = and_then
          (insert_by_id env d ''ticket_comments'' (dget ?c ''id'')
             [(''ticket_id'', Num tid),
              (''author_id'', param (dget ?c ''author_id'')),
              (''public'', Flag (truthy (dget ?c ''public''))),
              (''body'', param (dget ?c ''body'')),
              (''created_at'', stamp (parse_dt env (dget ce ''created_at''))),
              (''updated_at'', stamp (parse_dt env (dget ce ''created_at'')))])
          (\<lambda>d1. raw_by_id env d1 ''comments'' ?c (dget ce ''created_at''))"
    unfolding comment_of_child_event_def upsert_comment_def json.case same(1)
    unfolding same(2) ..
  show ?thesis
    unfolding eq by (rule event_stamped_and_then [OF row raw])
qed

lemma event_stamped_child_step:
  assumes "event_stamped env d"
  shows "event_stamped env (fst (child_step env tid d ce))"
proof (cases ce)
  case (JObj kv)
  show ?thesis
  proof (cases "por (dget kv ''event_type'') (dget kv ''type'') = JStr ''Comment''")
    case False
    then show ?thesis using assms JObj by (simp add: child_step_def)
  next
    case True
    show ?thesis
    proof (cases "dindex kv ''id''")
      case (Inl e)
      then show ?thesis using assms JObj True by (simp add: child_step_def)
    next
      case (Inr i)
      have "event_stamped env (fst (case iter_items (por (dget kv ''attachments'') (JList [])) of
                      Inl e \<Rightarrow> (d1, Some e)
                    | Inr atts \<Rightarrow> run_page (attach env tid i) d1 atts))"
        if "event_stamped env d1" for d1
        using that by (auto split: sum.splits intro!: event_stamped_run_page event_stamped_attach)
      then show ?thesis
        unfolding JObj child_step_comment [OF True Inr]
        by (intro event_stamped_and_then event_stamped_event_comment assms)
    qed
  qed
qed (use assms in \<open>simp_all add: child_step_def\<close>)

lemma event_stamped_event_step:
  assumes "event_stamped env d"
  shows "event_stamped env (fst (fst (event_step env d ev s)))"
proof (cases ev)
  case (JObj kv)
  show ?thesis
    using assms unfolding JObj event_step_def
    by (auto split: sum.splits prod.splits
             intro!: event_stamped_run_page event_stamped_child_step)
qed (use assms in \<open>simp_all add: event_step_def\<close>)

lemma event_stamped_events_items:
  "event_stamped env d \<Longrightarrow> event_stamped env (fst (fst (events_items env d evs s)))"
proof (induction evs arbitrary: d s)
  case Nil
  then show ?case by simp
next
  case (Cons ev evs)
  obtain d1 e s1 where st: "event_step env d ev s = ((d1, e), s1)"
    by (cases "event_step env d ev s") auto
  have "event_stamped env d1"
    using event_stamped_event_step [OF Cons.prems, of ev s] st by simp
  then show ?case using st Cons.IH [of d1 s1] by (cases e) auto
qed

lemma event_stamped_set_cursor_val:
  "event_stamped env d \<Longrightarrow> event_stamped env (fst (set_cursor_val env d res tok))"
  by (auto simp: set_cursor_val_def split: option.splits intro!: event_stamped_put)

lemma event_stamped_events_loop:
  "event_stamped env d \<Longrightarrow> event_stamped env (fst (fst (events_loop env d url s)))"
proof (induction env d url s rule: events_loop.induct)
  case (1 env d url s)
  obtain r s1 where g: "get_with_retry env url s = (r, s1)"
    by (cases "get_with_retry env url s")
  show ?case
  proof (cases r)
    case (Inl e)
    then show ?thesis using g "1.prems" by (subst events_loop.simps) simp
  next
    case (Inr page)
    show ?thesis
    proof (cases page)
      case (JObj kv)
      show ?thesis
      proof (cases "iter_items (dget_default kv ''ticket_events'' (JList []))")
        case (Inl e)
        then show ?thesis using g Inr JObj "1.prems" by (subst events_loop.simps) simp
      next
        case evs: (Inr evs)
        obtain d1 e s2 where it: "events_items env d evs s1 = ((d1, e), s2)"
          by (cases "events_items env d evs s1") auto
        have d1: "event_stamped env d1"
          using event_stamped_events_items [OF "1.prems", of evs s1] it by simp
        show ?thesis
        proof (cases e)
          case (Some x)
          then show ?thesis using g Inr JObj evs it d1 by (subst events_loop.simps) simp
        next
          case None
          show ?thesis
          proof (cases "truthy (dget kv ''next_page'')")
            case True
            have "event_stamped env (fst (fst (events_loop env d1 (py_str env (dget kv ''next_page'')) s2)))"
              using "1.IH" [OF g [symmetric, unfolded Inr] refl JObj evs it [symmetric] refl None True d1] .
            then show ?thesis using g Inr JObj evs it None True by (subst events_loop.simps) simp
          next
            case False
            then show ?thesis
              using g Inr JObj evs it None d1 event_stamped_set_cursor_val [OF d1]
              by (subst events_loop.simps) simp
          qed
        qed
      qed
    qed (use g Inr "1.prems" in \<open>subst events_loop.simps, simp\<close>)+
  qed
qed

lemma event_stamped_sync:
  "event_stamped env d \<Longrightarrow>
   event_stamped env (fst (fst (sync_ticket_events_for_comments env d s)))"
  by (simp add: sync_ticket_events_for_comments_def Let_def event_stamped_events_loop
        del: events_loop.simps split: sum.split)

text \<open>
  C10. A comment without update timestamp is stored with its creation timestamp as
  \<open>updated_at\<close>, in the structured row and in the raw snapshot alike; with one, that
  one is stored. The comment built from a ticket-event child event has the child event's
  \<open>created_at\<close> as its \<open>updated_at\<close>, and that is what both rows record: after the step
  for a comment child event, whatever becomes of its attachments; after the step for a ticket
  event whose child events before the comment went through and whose later ones are no
  comments; and a sync of ticket events leaves every comment row with \<open>updated_at\<close> equal
  to \<open>created_at\<close>, and every raw comment snapshot stamped with its payload's
  \<open>created_at\<close>, when the store it started from was so.
\<close>

theorem comment_updated_at_falls_back:
  assumes "pg_bigint env i = Some k" and "py_int i = Inr n" and "pg_bigint env (JInt n) = Some m"
  shows
    "(dindex kv ''id'' = Inr i \<and> \<not> truthy (dget kv ''updated_at'') \<longrightarrow>
        cell_at (fst (upsert_comment env d tid (JObj kv))) ''ticket_comments'' (Row_id k) ''updated_at''
          = Some (stamp (parse_dt env (dget kv ''created_at'')))
        \<and> cell_at (fst (upsert_comment env d tid (JObj kv))) ''raw_snapshots'' (Raw ''comments'' m) ''updated_at''
          = Some (stamp (parse_dt env (dget kv ''created_at''))))
     \<and> (dindex kv ''id'' = Inr i \<and> truthy (dget kv ''updated_at'') \<longrightarrow>
        cell_at (fst (upsert_comment env d tid (JObj kv))) ''ticket_comments'' (Row_id k) ''updated_at''
          = Some (stamp (parse_dt env (dget kv ''updated_at'')))
        \<and> cell_at (fst (upsert_comment env d tid (JObj kv))) ''raw_snapshots'' (Raw ''comments'' m) ''updated_at''
          = Some (stamp (parse_dt env (dget kv ''updated_at''))))
     \<and> pget (comment_of_child_event ce i) ''updated_at'' = Inr (dget ce ''created_at'')
     \<and> cell_at (fst (upsert_comment env d tid (comment_of_child_event ce i)))
          ''ticket_comments'' (Row_id k) ''updated_at''
          = Some (stamp (parse_dt env (dget ce ''created_at'')))
     \<and> cell_at (fst (upsert_comment env d tid (comment_of_child_event ce i)))
          ''raw_snapshots'' (Raw ''comments'' m) ''updated_at''
          = Some (stamp (parse_dt env (dget ce ''created_at'')))
     \<and> (por (dget ce ''event_type'') (dget ce ''type'') = JStr ''Comment'' \<and> dindex ce ''id'' = Inr i \<longrightarrow>
        cell_at (fst (child_step env tid d (JObj ce))) ''ticket_comments'' (Row_id k) ''updated_at''
          = Some (stamp (parse_dt env (dget ce ''created_at'')))
        \<and> cell_at (fst (child_step env tid d (JObj ce))) ''raw_snapshots'' (Raw ''comments'' m) ''updated_at''
          = Some (stamp (parse_dt env (dget ce ''created_at''))))
     \<and> (por (dget ce ''event_type'') (dget ce ''type'') = JStr ''Comment'' \<and> dindex ce ''id'' = Inr i
        \<and> py_int (dget ev ''ticket_id'') = Inr tid \<and> closed_gate env tid es = (Inr True, es')
        \<and> iter_items (por (dget ev ''child_events'') (JList [])) = Inr (pre @ JObj ce # post)
        \<and> run_page (child_step env tid) ed pre = (qd, None) \<and> list_all plain_child post \<longrightarrow>
        event_step env ed (JObj ev) es = (child_step env tid qd (JObj ce), es')
        \<and> cell_at (fst (fst (event_step env ed (JObj ev) es))) ''ticket_comments'' (Row_id k) ''updated_at''
          = Some (stamp (parse_dt env (dget ce ''created_at'')))
        \<and> cell_at (fst (fst (event_step env ed (JObj ev) es))) ''raw_snapshots'' (Raw ''comments'' m) ''updated_at''
          = Some (stamp (parse_dt env (dget ce ''created_at''))))
     \<and> (event_stamped env xd \<longrightarrow>
        event_stamped env (fst (fst (sync_ticket_events_for_comments env xd xs))))"
proof -
  let ?c = "[(''id'', i), (''author_id'', dget ce ''author_id''),
             (''public'', dget_default ce ''public'' (JBool False)), (''body'', dget ce ''body''),
             (''created_at'', dget ce ''created_at''), (''updated_at'', dget ce ''created_at''),
             (''attachments'', por (dget ce ''attachments'') (JList []))]"
  have ev: "comment_of_child_event ce i = JObj ?c"
    by (simp add: comment_of_child_event_def)
  have idx: "dindex ?c ''id'' = Inr i"
    by (simp add: dindex_def)
  have same: "por (dget ?c ''updated_at'') (dget ?c ''created_at'') = dget ce ''created_at''"
    by (simp add: dget_def por_def)
  note e = upsert_comment_updated_at [OF idx assms, of d tid, unfolded same, folded ev]
  have g: "pget (comment_of_child_event ce i) ''updated_at'' = Inr (dget ce ''created_at'')"
    by (simp add: ev pget_def dget_def)
  have writer: "(dindex kv ''id'' = Inr i \<and> \<not> truthy (dget kv ''updated_at'') \<longrightarrow>
        cell_at (fst (upsert_comment env d tid (JObj kv))) ''ticket_comments'' (Row_id k) ''updated_at''
          = Some (stamp (parse_dt env (dget kv ''created_at'')))
        \<and> cell_at (fst (upsert_comment env d tid (JObj kv))) ''raw_snapshots'' (Raw ''comments'' m) ''updated_at''
          = Some (stamp (parse_dt env (dget kv ''created_at''))))
     \<and> (dindex kv ''id'' = Inr i \<and> truthy (dget kv ''updated_at'') \<longrightarrow>
        cell_at (fst (upsert_comment env d tid (JObj kv))) ''ticket_comments'' (Row_id k) ''updated_at''
          = Some (stamp (parse_dt env (dget kv ''updated_at'')))
        \<and> cell_at (fst (upsert_comment env d tid (JObj kv))) ''raw_snapshots'' (Raw ''comments'' m) ''updated_at''
          = Some (stamp (parse_dt env (dget kv ''updated_at''))))"
    using upsert_comment_updated_at [OF _ assms, of kv d tid]
    by (auto simp: por_def)
  have child: "cell_at (fst (child_step env tid dd (JObj ce))) ''ticket_comments'' (Row_id k) ''updated_at''
          = Some (stamp (parse_dt env (dget ce ''created_at'')))
        \<and> cell_at (fst (child_step env tid dd (JObj ce))) ''raw_snapshots'' (Raw ''comments'' m) ''updated_at''
          = Some (stamp (parse_dt env (dget ce ''created_at'')))"
    if "por (dget ce ''event_type'') (dget ce ''type'') = JStr ''Comment''" and "dindex ce ''id'' = Inr i"
    for dd
    using child_step_updated_at [OF that assms] .
  have event: "event_step env ed (JObj ev) es = (child_step env tid qd (JObj ce), es')"
    if "py_int (dget ev ''ticket_id'') = Inr tid" and "closed_gate env tid es = (Inr True, es')"
      and "iter_items (por (dget ev ''child_events'') (JList [])) = Inr (pre @ JObj ce # post)"
      and "run_page (child_step env tid) ed pre = (qd, None)" and "list_all plain_child post"
    using event_step_last_comment [OF that(2,1,3,4,5)] .
  have sync: "event_stamped env (fst (fst (sync_ticket_events_for_comments env xd xs)))"
    if "event_stamped env xd"
    using event_stamped_sync [OF that] .
  show ?thesis
    using writer g e child [of d] child [of qd] event sync by simp
qed

theorem comment_updated_at_falls_back_witness:
  "pg_bigint sample_env (JInt 7) = Some 7 \<and> py_int (JInt 7) = Inr 7
   \<and> dindex [(''id'', JInt 7), (''created_at'', JStr ''2024-01-01T00:00:00Z'')] ''id'' = Inr (JInt 7)
   \<and> \<not> truthy (dget [(''id'', JInt 7), (''created_at'', JStr ''2024-01-01T00:00:00Z'')] ''updated_at'')
   \<and> cell_at (fst (upsert_comment sample_env [] 3
         (JObj [(''id'', JInt 7), (''created_at'', JStr ''2024-01-01T00:00:00Z'')])))
       ''ticket_comments'' (Row_id 7) ''updated_at'' = Some (Time 1704067200)
   \<and> cell_at (fst (upsert_comment sample_env [] 3
         (JObj [(''id'', JInt 7), (''created_at'', JStr ''2024-01-01T00:00:00Z'')])))
       ''raw_snapshots'' (Raw ''comments'' 7) ''updated_at'' = Some (Time 1704067200)
   \<and> truthy (dget [(''id'', JInt 7), (''created_at'', JStr ''2024-01-01T00:00:00Z''),
                (''updated_at'', JStr ''2024-01-02T00:00:00Z'')] ''updated_at'')
   \<and> cell_at (fst (upsert_comment sample_env [] 3
         (JObj [(''id'', JInt 7), (''created_at'', JStr ''2024-01-01T00:00:00Z''),
                (''updated_at'', JStr ''2024-01-02T00:00:00Z'')])))
       ''ticket_comments'' (Row_id 7) ''updated_at'' = Some (Time 1704153600)
   \<and> cell_at (fst (upsert_comment sample_env [] 3
         (comment_of_child_event [(''id'', JInt 7), (''created_at'', JStr ''2024-01-01T00:00:00Z'')] (JInt 7))))
       ''raw_snapshots'' (Raw ''comments'' 7) ''updated_at'' = Some (Time 1704067200)
   \<and> por (dget [(''id'', JInt 7), (''event_type'', JStr ''Comment''), (''body'', JStr ''hi''),
            (''created_at'', JStr ''2024-01-01T00:00:00Z'')] ''event_type'')
         (dget [(''id'', JInt 7), (''event_type'', JStr ''Comment''), (''body'', JStr ''hi''),
            (''created_at'', JStr ''2024-01-01T00:00:00Z'')] ''type'') = JStr ''Comment''
   \<and> dindex [(''id'', JInt 7), (''event_type'', JStr ''Comment''), (''body'', JStr ''hi''),
            (''created_at'', JStr ''2024-01-01T00:00:00Z'')] ''id'' = Inr (JInt 7)
   \<and> py_int (dget [(''ticket_id'', JInt 3), (''child_events'', JList [JObj [(''id'', JInt 7), (''event_type'', JStr ''Comment''), (''body'', JStr ''hi''),
            (''created_at'', JStr ''2024-01-01T00:00:00Z'')], JObj [(''id'', JInt 8), (''event_type'', JStr ''Change'')]])] ''ticket_id'') = Inr 3
   \<and> closed_gate sample_env 3 [] = (Inr True, [])
   \<and> iter_items (por (dget [(''ticket_id'', JInt 3), (''child_events'', JList [JObj [(''id'', JInt 7), (''event_type'', JStr ''Comment''), (''body'', JStr ''hi''),
            (''created_at'', JStr ''2024-01-01T00:00:00Z'')], JObj [(''id'', JInt 8), (''event_type'', JStr ''Change'')]])] ''child_events'') (JList []))
       = Inr ([] @ JObj [(''id'', JInt 7), (''event_type'', JStr ''Comment''), (''body'', JStr ''hi''),
            (''created_at'', JStr ''2024-01-01T00:00:00Z'')] # [JObj [(''id'', JInt 8), (''event_type'', JStr ''Change'')]])
   \<and> plain_child (JObj [(''id'', JInt 8), (''event_type'', JStr ''Change'')])
   \<and> child_step sample_env 3 [] (JObj [(''id'', JInt 7), (''event_type'', JStr ''Comment''), (''body'', JStr ''hi''),
            (''created_at'', JStr ''2024-01-01T00:00:00Z'')])
       = ([((''ticket_comments'', Row_id 7),
         [(''ticket_id'', Num 3), (''author_id'', Null),
          (''public'', Flag False), (''body'', Val (JStr ''hi'')),
          (''created_at'', Time 1704067200),
          (''updated_at'', Time 1704067200)]),
        ((''raw_snapshots'', Raw ''comments'' 7),
         [(''updated_at'', Time 1704067200),
          (''payload_json'',
           Jsonb
            (JObj
              [(''id'', JInt 7), (''author_id'', JNull),
               (''public'', JBool False), (''body'', JStr ''hi''),
               (''created_at'', JStr ''2024-01-01T00:00:00Z''),
               (''updated_at'', JStr ''2024-01-01T00:00:00Z''),
               (''attachments'', JList [])]))])], None)
   \<and> event_step sample_env [] (JObj [(''ticket_id'', JInt 3), (''child_events'', JList [JObj [(''id'', JInt 7), (''event_type'', JStr ''Comment''), (''body'', JStr ''hi''),
            (''created_at'', JStr ''2024-01-01T00:00:00Z'')], JObj [(''id'', JInt 8), (''event_type'', JStr ''Change'')]])]) []
       = (([((''ticket_comments'', Row_id 7),
         [(''ticket_id'', Num 3), (''author_id'', Null),
          (''public'', Flag False), (''body'', Val (JStr ''hi'')),
          (''created_at'', Time 1704067200),
          (''updated_at'', Time 1704067200)]),
        ((''raw_snapshots'', Raw ''comments'' 7),
         [(''updated_at'', Time 1704067200),
          (''payload_json'',
           Jsonb
            (JObj
              [(''id'', JInt 7), (''author_id'', JNull),
               (''public'', JBool False), (''body'', JStr ''hi''),
               (''created_at'', JStr ''2024-01-01T00:00:00Z''),
               (''updated_at'', JStr ''2024-01-01T00:00:00Z''),
               (''attachments'', JList [])]))])], None), [])
   \<and> sync_ticket_events_for_comments sample_env []
         [Response 200 None (Some (JObj [(''ticket_events'', JList [JObj [(''ticket_id'', JInt 3), (''child_events'', JList [JObj [(''id'', JInt 7), (''event_type'', JStr ''Comment''), (''body'', JStr ''hi''),
            (''created_at'', JStr ''2024-01-01T00:00:00Z'')], JObj [(''id'', JInt 8), (''event_type'', JStr ''Change'')]])]]),
           (''end_time'', JInt 1704067200)])) []]
       = (([((''ticket_comments'', Row_id 7),
         [(''ticket_id'', Num 3), (''author_id'', Null),
          (''public'', Flag False), (''body'', Val (JStr ''hi'')),
          (''created_at'', Time 1704067200),
          (''updated_at'', Time 1704067200)]),
        ((''raw_snapshots'', Raw ''comments'' 7),
         [(''updated_at'', Time 1704067200),
          (''payload_json'',
           Jsonb
            (JObj
              [(''id'', JInt 7), (''author_id'', JNull),
               (''public'', JBool False), (''body'', JStr ''hi''),
               (''created_at'', JStr ''2024-01-01T00:00:00Z''),
               (''updated_at'', JStr ''2024-01-01T00:00:00Z''),
               (''attachments'', JList [])]))]),
        ((''sync_state'', Name ''ticket_events''),
         [(''cursor_token'', Text ''1704067200''),
          (''updated_at'', Time 1704240000)])], None), [])
   \<and> cell_at [((''ticket_comments'', Row_id 7),
         [(''ticket_id'', Num 3), (''author_id'', Null),
          (''public'', Flag False), (''body'', Val (JStr ''hi'')),
          (''created_at'', Time 1704067200),
          (''updated_at'', Time 1704067200)]),
        ((''raw_snapshots'', Raw ''comments'' 7),
         [(''updated_at'', Time 1704067200),
          (''payload_json'',
           Jsonb
            (JObj
              [(''id'', JInt 7), (''author_id'', JNull),
               (''public'', JBool False), (''body'', JStr ''hi''),
               (''created_at'', JStr ''2024-01-01T00:00:00Z''),
               (''updated_at'', JStr ''2024-01-01T00:00:00Z''),
               (''attachments'', JList [])]))]),
        ((''sync_state'', Name ''ticket_events''),
         [(''cursor_token'', Text ''1704067200''),
          (''updated_at'', Time 1704240000)])]
       ''ticket_comments'' (Row_id 7) ''updated_at'' = Some (Time 1704067200)
   \<and> cell_at [((''ticket_comments'', Row_id 7),
         [(''ticket_id'', Num 3), (''author_id'', Null),
          (''public'', Flag False), (''body'', Val (JStr ''hi'')),
          (''created_at'', Time 1704067200),
          (''updated_at'', Time 1704067200)]),
        ((''raw_snapshots'', Raw ''comments'' 7),
         [(''updated_at'', Time 1704067200),
          (''payload_json'',
           Jsonb
            (JObj
              [(''id'', JInt 7), (''author_id'', JNull),
               (''public'', JBool False), (''body'', JStr ''hi''),
               (''created_at'', JStr ''2024-01-01T00:00:00Z''),
               (''updated_at'', JStr ''2024-01-01T00:00:00Z''),
               (''attachments'', JList [])]))]),
        ((''sync_state'', Name ''ticket_events''),
         [(''cursor_token'', Text ''1704067200''),
          (''updated_at'', Time 1704240000)])]
       ''raw_snapshots'' (Raw ''comments'' 7) ''updated_at'' = Some (Time 1704067200)"
proof -
  let ?ce = "[(''id'', JInt 7), (''event_type'', JStr ''Comment''), (''body'', JStr ''hi''),
            (''created_at'', JStr ''2024-01-01T00:00:00Z'')]"
  let ?ev = "[(''ticket_id'', JInt 3), (''child_events'', JList [JObj [(''id'', JInt 7), (''event_type'', JStr ''Comment''), (''body'', JStr ''hi''),
            (''created_at'', JStr ''2024-01-01T00:00:00Z'')], JObj [(''id'', JInt 8), (''event_type'', JStr ''Change'')]])]"
  let ?de = "[((''ticket_comments'', Row_id 7),
         [(''ticket_id'', Num 3), (''author_id'', Null),
          (''public'', Flag False), (''body'', Val (JStr ''hi'')),
          (''created_at'', Time 1704067200),
          (''updated_at'', Time 1704067200)]),
        ((''raw_snapshots'', Raw ''comments'' 7),
         [(''updated_at'', Time 1704067200),
          (''payload_json'',
           Jsonb
            (JObj
              [(''id'', JInt 7), (''author_id'', JNull),
               (''public'', JBool False), (''body'', JStr ''hi''),
               (''created_at'', JStr ''2024-01-01T00:00:00Z''),
               (''updated_at'', JStr ''2024-01-01T00:00:00Z''),
               (''attachments'', JList [])]))])]"
  let ?df = "[((''ticket_comments'', Row_id 7),
         [(''ticket_id'', Num 3), (''author_id'', Null),
          (''public'', Flag False), (''body'', Val (JStr ''hi'')),
          (''created_at'', Time 1704067200),
          (''updated_at'', Time 1704067200)]),
        ((''raw_snapshots'', Raw ''comments'' 7),
         [(''updated_at'', Time 1704067200),
          (''payload_json'',
           Jsonb
            (JObj
              [(''id'', JInt 7), (''author_id'', JNull),
               (''public'', JBool False), (''body'', JStr ''hi''),
               (''created_at'', JStr ''2024-01-01T00:00:00Z''),
               (''updated_at'', JStr ''2024-01-01T00:00:00Z''),
               (''attachments'', JList [])]))]),
        ((''sync_state'', Name ''ticket_events''),
         [(''cursor_token'', Text ''1704067200''),
          (''updated_at'', Time 1704240000)])]"
  let ?page = "(JObj [(''ticket_events'', JList [JObj [(''ticket_id'', JInt 3), (''child_events'', JList [JObj [(''id'', JInt 7), (''event_type'', JStr ''Comment''), (''body'', JStr ''hi''),
            (''created_at'', JStr ''2024-01-01T00:00:00Z'')], JObj [(''id'', JInt 8), (''event_type'', JStr ''Change'')]])]]),
           (''end_time'', JInt 1704067200)])"
  have h1: "pg_bigint sample_env (JInt 7) = Some 7" by (simp add: sample_env_def)
  have h2: "py_int (JInt 7) = Inr 7" by simp
  have p: "parse_dt sample_env (JStr ''2024-01-01T00:00:00Z'') = Some 1704067200"
    by (simp add: parse_dt_def replace_Z_def sample_env_def)
  have q: "parse_dt sample_env (JStr ''2024-01-02T00:00:00Z'') = Some 1704153600"
    by (simp add: parse_dt_def replace_Z_def sample_env_def)
  have writer: "dindex [(''id'', JInt 7), (''created_at'', JStr ''2024-01-01T00:00:00Z'')] ''id'' = Inr (JInt 7)
   \<and> \<not> truthy (dget [(''id'', JInt 7), (''created_at'', JStr ''2024-01-01T00:00:00Z'')] ''updated_at'')
   \<and> cell_at (fst (upsert_comment sample_env [] 3
         (JObj [(''id'', JInt 7), (''created_at'', JStr ''2024-01-01T00:00:00Z'')])))
       ''ticket_comments'' (Row_id 7) ''updated_at'' = Some (Time 1704067200)
   \<and> cell_at (fst (upsert_comment sample_env [] 3
         (JObj [(''id'', JInt 7), (''created_at'', JStr ''2024-01-01T00:00:00Z'')])))
       ''raw_snapshots'' (Raw ''comments'' 7) ''updated_at'' = Some (Time 1704067200)
   \<and> truthy (dget [(''id'', JInt 7), (''created_at'', JStr ''2024-01-01T00:00:00Z''),
                (''updated_at'', JStr ''2024-01-02T00:00:00Z'')] ''updated_at'')
   \<and> cell_at (fst (upsert_comment sample_env [] 3
         (JObj [(''id'', JInt 7), (''created_at'', JStr ''2024-01-01T00:00:00Z''),
                (''updated_at'', JStr ''2024-01-02T00:00:00Z'')])))
       ''ticket_comments'' (Row_id 7) ''updated_at'' = Some (Time 1704153600)
   \<and> cell_at (fst (upsert_comment sample_env [] 3
         (comment_of_child_event [(''id'', JInt 7), (''created_at'', JStr ''2024-01-01T00:00:00Z'')] (JInt 7))))
       ''raw_snapshots'' (Raw ''comments'' 7) ''updated_at'' = Some (Time 1704067200)"
    using comment_updated_at_falls_back [OF h1 h2 h1,
        where kv = "[(''id'', JInt 7), (''created_at'', JStr ''2024-01-01T00:00:00Z'')]" and d = "[]" and tid = 3
          and ce = "[(''id'', JInt 7), (''created_at'', JStr ''2024-01-01T00:00:00Z'')]"]
      comment_updated_at_falls_back [OF h1 h2 h1,
        where kv = "[(''id'', JInt 7), (''created_at'', JStr ''2024-01-01T00:00:00Z''),
                (''updated_at'', JStr ''2024-01-02T00:00:00Z'')]" and d = "[]" and tid = 3 and ce = "[]"]
    by (simp add: dindex_def dget_def p q stamp_def)
  have c1: "por (dget ?ce ''event_type'') (dget ?ce ''type'') = JStr ''Comment''"
    by (simp add: por_def dget_def)
  have c2: "dindex ?ce ''id'' = Inr (JInt 7)" by (simp add: dindex_def)
  have c3: "py_int (dget ?ev ''ticket_id'') = Inr 3" by (simp add: dget_def)
  have c4: "closed_gate sample_env 3 [] = (Inr True, [])"
    by (simp add: closed_gate_def sample_env_def)
  have c5: "iter_items (por (dget ?ev ''child_events'') (JList []))
       = Inr ([] @ JObj ?ce # [JObj [(''id'', JInt 8), (''event_type'', JStr ''Change'')]])"
    by (simp add: iter_items_def por_def dget_def)
  have c6: "run_page (child_step sample_env 3) [] [] = ([], None)" by simp
  have c7: "plain_child (JObj [(''id'', JInt 8), (''event_type'', JStr ''Change'')])" by (simp add: plain_child_def por_def dget_def)
  have c8: "list_all plain_child [JObj [(''id'', JInt 8), (''event_type'', JStr ''Change'')]]" using c7 by simp
  have cs: "child_step sample_env 3 [] (JObj ?ce) = (?de, None)"
    by (simp add: iter_items_def dget_def por_def child_step_def dindex_def
          comment_of_child_event_def dget_default_def upsert_comment_def and_then_def insert_by_id_def
          raw_by_id_def upsert_raw_def put_def parse_dt_def replace_Z_def stamp_def param_def
          sample_env_def)
  note th = comment_updated_at_falls_back [OF h1 h2 h1, where ce = ?ce and tid = 3 and d = "[]"
      and ev = ?ev and es = "[]" and es' = "[]" and pre = "[]" and ed = "[]" and qd = "[]"
      and post = "[JObj [(''id'', JInt 8), (''event_type'', JStr ''Change'')]]" and xd = "[]"
      and xs = "[Response 200 None (Some ?page) []]"]
  have es: "event_step sample_env [] (JObj ?ev) [] = ((?de, None), [])"
    using th c1 c2 c3 c4 c5 c6 c8 cs by simp
  have ep: "str_of_int 1704067200 = ''1704067200''" by (simp add: str_of_int_def)
  have run: "sync_ticket_events_for_comments sample_env [] [Response 200 None (Some ?page) []]
       = ((?df, None), [])"
    by (simp add: sync_ticket_events_for_comments_def get_cursor_val_def get_with_retry_def
          eval_nat_numeral iter_items_def dget_default_def dget_def event_step_def closed_gate_def
          por_def child_step_def dindex_def comment_of_child_event_def upsert_comment_def
          and_then_def insert_by_id_def raw_by_id_def upsert_raw_def put_def parse_dt_def
          replace_Z_def stamp_def param_def sample_env_def set_cursor_val_def pg_text_def
          py_str_def ep)
  have "event_stamped sample_env []" by (simp add: event_stamped_def)
  then have "event_stamped sample_env ?df" using th run by simp
  then have eq: "cell_at ?df ''ticket_comments'' (Row_id 7) ''updated_at''
        = cell_at ?df ''ticket_comments'' (Row_id 7) ''created_at''"
    by (simp add: event_stamped_def cell_at_def column_def)
  have f1: "cell_at ?df ''ticket_comments'' (Row_id 7) ''updated_at'' = Some (Time 1704067200)"
    unfolding eq by (simp add: cell_at_def column_def)
  have f2: "cell_at ?df ''raw_snapshots'' (Raw ''comments'' 7) ''updated_at'' = Some (Time 1704067200)"
    by (simp add: cell_at_def column_def)
  show ?thesis using h1 h2 writer c1 c2 c3 c4 c5 c7 cs es run f1 f2 by blast
qed

section \<open>What restore writes\<close>

lemma table_put_other: "t \<noteq> T \<Longrightarrow> table (put t k r d) T = table d T"
  unfolding table_def put_def by (induction d) auto

lemma table_upsert_raw:
  "T \<noteq> ''raw_snapshots'' \<Longrightarrow> table (fst (upsert_raw env d res n ts p)) T = table d T"
  by (auto simp: upsert_raw_def table_put_other split: option.split)

lemma table_raw_by_id:
  "T \<noteq> ''raw_snapshots'' \<Longrightarrow> table (fst (raw_by_id env d res kv ts)) T = table d T"
  by (auto simp: raw_by_id_def table_upsert_raw split: sum.split)

lemma table_structured:
  "T \<noteq> ''raw_snapshots'' \<Longrightarrow> t \<noteq> T \<Longrightarrow>
   table (fst (and_then (insert_by_id env d t i r) (\<lambda>d1. raw_by_id env d1 res kv ts))) T = table d T"
  by (auto simp: and_then_def insert_by_id_def table_raw_by_id table_put_other split: option.split)

lemma restorers_leave:
  assumes "T = ''ticket_comments'' \<or> T = ''attachments''"
    and "map_of RESTORERS resource = Some fn"
  shows "table (fst (fn env d p)) T = table d T"
proof -
  have T: "T \<noteq> ''raw_snapshots''" "T \<noteq> ''users''" "T \<noteq> ''organizations''" "T \<noteq> ''tickets''"
    "T \<noteq> ''views''" "T \<noteq> ''triggers''" "T \<noteq> ''trigger_categories''" "T \<noteq> ''macros''"
    using assms(1) by auto
  have u: "table (fst (upsert_user env d p)) T = table d T"
    unfolding upsert_user_def using T by (cases p) (simp_all add: table_structured)
  have o: "table (fst (upsert_org env d p)) T = table d T"
    unfolding upsert_org_def using T by (cases p) (simp_all add: table_structured)
  have t: "table (fst (upsert_ticket env d p)) T = table d T"
    unfolding upsert_ticket_def using T by (cases p) (simp_all add: table_structured)
  have v: "table (fst (upsert_view env d p)) T = table d T"
    unfolding upsert_view_def using T by (cases p) (simp_all add: table_structured)
  have g: "table (fst (upsert_trigger env d p)) T = table d T"
    unfolding upsert_trigger_def using T by (cases p) (simp_all add: table_structured)
  have m: "table (fst (upsert_macro env d p)) T = table d T"
    unfolding upsert_macro_def using T by (cases p) (simp_all add: table_structured)
  have c: "table (fst (upsert_trigger_category env d p)) T = table d T"
    unfolding upsert_trigger_category_def using T
    by (cases p) (auto simp: Let_def table_upsert_raw table_put_other split: sum.split)
  show ?thesis
    using assms(2) u o t v g m c
    by (auto simp: RESTORERS_def restore_upsert_eqs split: if_splits)
qed

lemma restore_rows_leaves:
  assumes "\<And>d p. table (fst (fn env d p)) T = table d T"
  shows "table (fst (restore_rows env fn dry d seen n rows)) T = table d T"
proof (induction rows arbitrary: d seen n)
  case Nil
  show ?case by simp
next
  case (Cons row rows)
  obtain i payload where row: "row = (i, payload)" by (cases row)
  show ?case
  proof (cases "i \<in> set seen")
    case True
    then show ?thesis using Cons.IH row by simp
  next
    case False
    show ?thesis
    proof (cases "decode_payload env payload")
      case None
      then show ?thesis using False Cons.IH row by simp
    next
      case (Some p)
      obtain d1 e where f: "fn env d p = (d1, e)" by (cases "fn env d p")
      have "table d1 T = table d T" using assms [of d p] f by simp
      then show ?thesis
        using False Some f row Cons.IH [of d1 "i # seen" "n + 1"] Cons.IH [of d "i # seen" "n + 1"]
          Cons.IH [of d1 seen n]
        by (cases e; cases dry) simp_all
    qed
  qed
qed

lemma table_truncate_other: "t \<noteq> T \<Longrightarrow> table (truncate_table d t) T = table d T"
  unfolding truncate_table_def by (rule table_filter_keep) auto

lemma maybe_truncate_leaves:
  assumes "T = ''ticket_comments'' \<or> T = ''attachments''"
  shows "table (maybe_truncate d scope_list truncate_first) T = table d T"
proof -
  have step: "table (case map_of table_map s of None \<Rightarrow> d1 | Some t \<Rightarrow> truncate_table d1 t) T = table d1 T"
    for s d1
  proof (cases "map_of table_map s")
    case None
    then show ?thesis by simp
  next
    case (Some t)
    have "(s, t) \<in> set table_map" using Some by (rule map_of_SomeD)
    then have "t \<noteq> T" using assms by (auto simp: table_map_def)
    then show ?thesis using Some by (simp add: table_truncate_other)
  qed
  have "table (foldl (\<lambda>d1 s. case map_of table_map s of None \<Rightarrow> d1 | Some t \<Rightarrow> truncate_table d1 t) d scope_list) T
        = table d T"
    by (induction scope_list arbitrary: d) (simp_all add: step)
  then show ?thesis by (simp add: maybe_truncate_def)
qed

lemma restore_resources_leaves:
  assumes "T = ''ticket_comments'' \<or> T = ''attachments''"
  shows "table (fst (restore_resources env d scope_list limit offset dry)) T = table d T"
proof (induction scope_list arbitrary: d)
  case Nil
  show ?case by simp
next
  case (Cons resource rest)
  show ?case
  proof (cases "map_of RESTORERS resource")
    case None
    then show ?thesis by simp
  next
    case (Some fn)
    show ?thesis
    proof (cases "load_raw_rows d resource limit offset")
      case (Inl e)
      then show ?thesis using Some by simp
    next
      case (Inr rows)
      obtain d1 n where r: "restore_rows env fn dry d [] 0 rows = (d1, n)"
        by (cases "restore_rows env fn dry d [] 0 rows")
      obtain d2 res where rr: "restore_resources env d1 rest limit offset dry = (d2, res)"
        by (cases "restore_resources env d1 rest limit offset dry")
      have 1: "table d1 T = table d T"
        using restore_rows_leaves [of fn env T dry d "[]" 0 rows] restorers_leave [OF assms Some] r
        by simp
      have 2: "table d2 T = table d1 T"
        using Cons.IH [of d1] rr by simp
      show ?thesis
        using Some Inr r rr 1 2 by (cases res) simp_all
    qed
  qed
qed

text \<open>
  C9. Restore never writes the comments or the attachments table: whatever the scope, the
  limit, the offset and the two flags, both tables are after the run what they were before,
  so they stay empty when they were wiped. Neither resource has a restorer or a place in
  the restore order, and truncation only touches the seven restorable tables.
\<close>

theorem restore_leaves_comments_and_attachments:
  "table (fst (restore env d scope limit offset truncate_first dry_run)) ''ticket_comments''
     = table d ''ticket_comments''
   \<and> table (fst (restore env d scope limit offset truncate_first dry_run)) ''attachments''
     = table d ''attachments''
   \<and> ''comments'' \<notin> set (map fst RESTORERS) \<and> ''ticket_comments'' \<notin> set (map fst RESTORERS)
   \<and> ''attachments'' \<notin> set (map fst RESTORERS)
   \<and> ''comments'' \<notin> set RESTORE_ORDER \<and> ''ticket_comments'' \<notin> set RESTORE_ORDER
   \<and> ''attachments'' \<notin> set RESTORE_ORDER"
proof -
  have a: "table (fst (restore env d scope limit offset truncate_first dry_run)) T = table d T"
    if "T = ''ticket_comments'' \<or> T = ''attachments''" for T
  proof (cases "parse_scope scope")
    case (Inl e)
    then show ?thesis by (simp add: restore_def)
  next
    case (Inr scope_list)
    then show ?thesis
      using restore_resources_leaves [OF that] maybe_truncate_leaves [OF that]
      by (simp add: restore_def)
  qed
  have b: "''comments'' \<notin> set (map fst RESTORERS) \<and> ''ticket_comments'' \<notin> set (map fst RESTORERS)
   \<and> ''attachments'' \<notin> set (map fst RESTORERS)
   \<and> ''comments'' \<notin> set RESTORE_ORDER \<and> ''ticket_comments'' \<notin> set RESTORE_ORDER
   \<and> ''attachments'' \<notin> set RESTORE_ORDER"
    by (simp add: RESTORERS_def RESTORE_ORDER_def)
  show ?thesis
    using a [of "''ticket_comments''"] a [of "''attachments''"] b by blast
qed

lemma restore_rows_dry_run: "fst (restore_rows env fn True d seen n rows) = d"
proof (induction rows arbitrary: seen n)
  case Nil
  show ?case by simp
next
  case (Cons row rows)
  obtain i payload where row: "row = (i, payload)" by (cases row)
  show ?case
    using Cons.IH unfolding row by (cases "decode_payload env payload") simp_all
qed

lemma restore_resources_dry_run: "fst (restore_resources env d scope_list limit offset True) = d"
proof (induction scope_list)
  case Nil
  show ?case by simp
next
  case (Cons resource rest)
  show ?case
  proof (cases "map_of RESTORERS resource")
    case None
    then show ?thesis by simp
  next
    case (Some fn)
    show ?thesis
    proof (cases "load_raw_rows d resource limit offset")
      case (Inl e)
      then show ?thesis using Some by simp
    next
      case (Inr rows)
      obtain d1 n where r: "restore_rows env fn True d [] 0 rows = (d1, n)"
        by (cases "restore_rows env fn True d [] 0 rows")
      have 1: "d1 = d" using restore_rows_dry_run [of env fn d "[]" 0 rows] r by simp
      obtain d2 res where rr: "restore_resources env d rest limit offset True = (d2, res)"
        by (cases "restore_resources env d rest limit offset True")
      have 2: "d2 = d" using Cons.IH rr by simp
      show ?thesis using Some Inr r rr 1 2 by (cases res) simp_all
    qed
  qed
qed

text \<open>Without truncate-first a dry run leaves the whole store as it was.\<close>

lemma dry_run_without_truncate_writes_nothing:
  "fst (restore env d scope limit offset False True) = d"
  by (cases "parse_scope scope") (simp_all add: restore_def maybe_truncate_def restore_resources_dry_run)

lemma lower_users: "lower (strip ''users'') = ''users''"
  by (simp add: lower_def lower_char_def strip_def is_space_def)

text \<open>
  C2 fails on the code. With dry-run and truncate-first both set, \<open>maybe_truncate\<close> runs
  before the dry-run check is ever reached: restoring the scope \<open>users\<close> over a store
  with one user and its raw snapshot empties the users table and counts one row.
\<close>

theorem dry_run_truncates_the_scope:
  "restore sample_env
     [((''users'', Row_id 1), [(''name'', Val (JStr ''Ann''))]),
      ((''raw_snapshots'', Raw ''users'' 1),
         [(''updated_at'', Null), (''payload_json'', Jsonb (JObj [(''id'', JInt 1), (''name'', JStr ''Ann'')]))])]
     ''users'' None 0 True True
   = ([((''raw_snapshots'', Raw ''users'' 1),
          [(''updated_at'', Null), (''payload_json'', Jsonb (JObj [(''id'', JInt 1), (''name'', JStr ''Ann'')]))])],
      Inr [(''users'', 1)])"
  by (simp add: restore_def parse_scope_def lower_users RESTORERS_def maybe_truncate_def table_map_def
        truncate_table_def load_raw_rows_def raw_rows_def order_raw_def column_def decode_payload_def)

section \<open>The order and the replay of restore\<close>















lemma fst_strip: "fst \<circ> (\<lambda>(i, u, p). (i, p)) = fst"
  by (auto simp: fun_eq_iff)

lemma map_fst_strip: "map fst (map (\<lambda>(i, u, p). (i, p)) rows) = map fst rows"
  by (simp add: fst_strip)








section \<open>Cursor checkpoints\<close>

lemma get_after_set:
  "set_cursor_val env d r tok = (d', None) \<Longrightarrow> stored_as env tok (get_cursor_val d' r)"
  by (auto simp: get_cursor_val_def set_cursor_val_def stored_as_def put_def update_conv' column_def
           split: option.splits)

lemma set_cursor_accepts:
  "set_cursor_val env d r tok = (d', None) \<Longrightarrow> pg_text env tok \<noteq> None"
  by (auto simp: set_cursor_val_def split: option.splits)

lemma stored_as_string: "stored_as env (JStr c) v \<Longrightarrow> v = JStr c"
  by (auto simp: stored_as_def pg_text_def split: if_splits option.splits)

lemma users_page_checkpoint:
  assumes "users_page env d page = (d', None)" and "truthy (after_cursor_of page)"
  shows "stored_as env (after_cursor_of page) (get_cursor_val d' ''users'')"
proof (cases page)
  case (JObj kv)
  have t: "truthy (dget kv ''after_cursor'')" using assms(2) JObj by (simp add: after_cursor_of_def)
  show ?thesis
    using assms(1) t unfolding JObj users_page_def after_cursor_of_def
    by (auto simp: and_then_def get_after_set split: sum.splits prod.splits option.splits)
qed (use assms in \<open>simp_all add: after_cursor_of_def\<close>)

lemma tickets_page_checkpoint:
  assumes "tickets_page env d page s = ((d', None), s')" and "truthy (after_cursor_of page)"
  shows "stored_as env (after_cursor_of page) (get_cursor_val d' ''tickets'')"
proof (cases page)
  case (JObj kv)
  have t: "truthy (dget kv ''after_cursor'')" using assms(2) JObj by (simp add: after_cursor_of_def)
  show ?thesis
    using assms(1) t unfolding JObj tickets_page_def after_cursor_of_def
    by (auto simp: get_after_set split: sum.splits prod.splits option.splits)
qed (use assms in \<open>simp_all add: after_cursor_of_def\<close>)

lemma users_chain_last:
  "users_chain env d pages = Some d' \<Longrightarrow> pages \<noteq> [] \<Longrightarrow> truthy (after_cursor_of (last pages)) \<Longrightarrow>
   stored_as env (after_cursor_of (last pages)) (get_cursor_val d' ''users'')"
proof (induction pages arbitrary: d)
  case Nil
  then show ?case by simp
next
  case (Cons page pages)
  obtain d1 e where p: "users_page env d page = (d1, e)" by (cases "users_page env d page")
  have e: "e = None" using Cons.prems(1) p by (cases e) simp_all
  have c: "users_chain env d1 pages = Some d'" using Cons.prems(1) p e by simp
  show ?case
  proof (cases "pages = []")
    case True
    then have "d' = d1" using c by simp
    then show ?thesis using users_page_checkpoint [of env d page d'] p e Cons.prems(3) True by simp
  next
    case False
    then show ?thesis using Cons.IH [OF c False] Cons.prems(3) by simp
  qed
qed

lemma tickets_chain_last:
  "tickets_chain env d pages = Some d' \<Longrightarrow> pages \<noteq> [] \<Longrightarrow>
   truthy (after_cursor_of (fst (last pages))) \<Longrightarrow>
   stored_as env (after_cursor_of (fst (last pages))) (get_cursor_val d' ''tickets'')"
proof (induction pages arbitrary: d)
  case Nil
  then show ?case by simp
next
  case (Cons ps pages)
  obtain page s where ps: "ps = (page, s)" by (cases ps)
  obtain d1 e s1 where p: "tickets_page env d page s = ((d1, e), s1)"
    by (cases "tickets_page env d page s") auto
  have e: "e = None" using Cons.prems(1) p ps by (cases e) simp_all
  have c: "tickets_chain env d1 pages = Some d'" using Cons.prems(1) p e ps by simp
  show ?case
  proof (cases "pages = []")
    case True
    then have "d' = d1" using c by simp
    then show ?thesis
      using tickets_page_checkpoint [of env d page s d' s1] p e Cons.prems(3) True ps by simp
  next
    case False
    then show ?thesis using Cons.IH [OF c False] Cons.prems(3) by simp
  qed
qed

lemma get_with_retry_loop_reads:
  "get_with_retry_loop env url n s = (Inr p, s') \<Longrightarrow> \<exists>pre. s = pre @ s' \<and> pages_read pre = [p]"
proof (induction env url n s rule: get_with_retry_loop.induct)
  case (4 env url n st ra body tx s)
  let ?ev = "Response st ra body tx"
  show ?case
  proof (cases "st = 200")
    case True
    then have "body = Some p" "s' = s" using 4(4) by (auto split: option.splits)
    then have "?ev # s = [?ev] @ s' \<and> pages_read [?ev] = [p]" using True by simp
    then show ?thesis by blast
  next
    case False
    then have rec: "get_with_retry_loop env url n s = (Inr p, s')"
      using 4(4) by (auto split: if_splits option.splits)
    then obtain pre where "s = pre @ s'" "pages_read pre = [p]"
      using 4(1-3) False rec 4(4) by (auto split: if_splits option.splits)
    then have "?ev # s = (?ev # pre) @ s' \<and> pages_read (?ev # pre) = [p]" using False by simp
    then show ?thesis by blast
  qed
qed auto

lemma get_with_retry_reads:
  "get_with_retry env url s = (Inr p, s') \<Longrightarrow> \<exists>pre. s = pre @ s' \<and> pages_read pre = [p]"
  unfolding get_with_retry_def by (rule get_with_retry_loop_reads)

lemma pages_read_append: "pages_read (a @ b) = pages_read a @ pages_read b"
  by (induction a rule: pages_read.induct) auto


lemma users_pages_reads:
  "users_pages env d page s = ((d', None), rest) \<Longrightarrow>
   \<exists>consumed. s = consumed @ rest \<and> users_chain env d (page # pages_read consumed) = Some d'"
proof (induction env d page s arbitrary: d' rest rule: users_pages.induct)
  case (1 env d page s)
  obtain d1 e where p: "users_page env d page = (d1, e)" by (cases "users_page env d page")
  note run = "1.prems" [unfolded users_pages.simps [of env d page s] p]
  have stop: "\<exists>consumed. s = consumed @ rest \<and> users_chain env d (page # pages_read consumed) = Some d'"
    if "d' = d1" and "rest = s" and "e = None"
  proof -
    have "s = [] @ rest \<and> users_chain env d (page # pages_read []) = Some d'"
      using that p by simp
    then show ?thesis by blast
  qed
  show ?case
  proof (cases e)
    case (Some x)
    then show ?thesis using run by simp
  next
    case None
    show ?thesis
    proof (cases "pget page ''end_of_stream''")
      case (Inl x)
      then show ?thesis using run None by simp
    next
      case (Inr eos)
      show ?thesis
      proof (cases "truthy eos")
        case True
        then show ?thesis using run None Inr stop by simp
      next
        case False
        show ?thesis
        proof (cases "next_link ''after_url'' page")
          case (Inl x)
          then show ?thesis using run None Inr False by simp
        next
          case nl: (Inr nxt)
          show ?thesis
          proof (cases "truthy nxt")
            case nf: False
            then show ?thesis using run None Inr False nl stop by simp
          next
            case nt: True
            obtain r s1 where g: "get_with_retry env (py_str env nxt) s = (r, s1)"
              by (cases "get_with_retry env (py_str env nxt) s")
            show ?thesis
            proof (cases r)
              case (Inl x)
              then show ?thesis using run None Inr False nl nt g by simp
            next
              case gp: (Inr pg)
              have rec: "users_pages env d1 pg s1 = ((d', None), rest)"
                using run None Inr False nl nt g gp by simp
              obtain pre where pre: "s = pre @ s1" "pages_read pre = [pg]"
                using get_with_retry_reads g gp by blast
              have "\<exists>c. s1 = c @ rest \<and> users_chain env d1 (pg # pages_read c) = Some d'"
                using "1.IH" [OF p [symmetric] None Inr False nl _ g [symmetric, unfolded gp] refl rec] nt
                by simp
              then obtain c where c: "s1 = c @ rest" "users_chain env d1 (pg # pages_read c) = Some d'"
                by blast
              have "s = (pre @ c) @ rest \<and> users_chain env d (page # pages_read (pre @ c)) = Some d'"
                using pre c p None by (simp add: pages_read_append)
              then show ?thesis by blast
            qed
          qed
        qed
      qed
    qed
  qed
qed

lemma sync_users_reads:
  assumes run: "sync_users env d s = ((d', None), rest)"
  shows "\<exists>consumed. s = consumed @ rest \<and> pages_read consumed \<noteq> []
           \<and> users_chain env d (pages_read consumed) = Some d'"
proof -
  obtain r s1 where g: "get_with_retry env (Z_BASE env @ ''/api/v2/incremental/users/cursor.json'') s = (r, s1)"
    by (cases "get_with_retry env (Z_BASE env @ ''/api/v2/incremental/users/cursor.json'') s")
  show ?thesis
  proof (cases r)
    case (Inl x)
    then show ?thesis using run g by (simp add: sync_users_def)
  next
    case (Inr first)
    then have "users_pages env d first s1 = ((d', None), rest)"
      using run g by (simp add: sync_users_def)
    then obtain c where c: "s1 = c @ rest" "users_chain env d (first # pages_read c) = Some d'"
      using users_pages_reads by blast
    obtain pre where pre: "s = pre @ s1" "pages_read pre = [first]"
      using get_with_retry_reads g Inr by blast
    have "s = (pre @ c) @ rest \<and> pages_read (pre @ c) \<noteq> []
          \<and> users_chain env d (pages_read (pre @ c)) = Some d'"
      using pre c by (simp add: pages_read_append)
    then show ?thesis by blast
  qed
qed

lemma tickets_trace_skip:
  "tickets_trace env d s ps rest \<Longrightarrow> ps \<noteq> [] \<Longrightarrow> pages_read [ev] = [] \<Longrightarrow>
   tickets_trace env d (ev # s) ps rest"
proof (cases ps)
  case Nil
  assume "ps \<noteq> []"
  then show ?thesis using Nil by simp
next
  case (Cons a ps')
  assume tr: "tickets_trace env d s ps rest" and ev: "pages_read [ev] = []"
  obtain page s0 where a: "a = (page, s0)" by (cases a)
  obtain pre h tx where pre: "s = pre @ Response 200 h (Some page) tx # s0" "pages_read pre = []"
    using tr Cons a by auto
  have "ev # s = (ev # pre) @ Response 200 h (Some page) tx # s0 \<and> pages_read (ev # pre) = []"
    using pre ev pages_read_append [of "[ev]" pre] by simp
  then have "\<exists>pre h tx. ev # s = pre @ Response 200 h (Some page) tx # s0 \<and> pages_read pre = []"
    by blast
  then show ?thesis using tr Cons a by simp
qed

lemma tickets_loop_trace:
  "tickets_loop env d s = ((d', None), rest) \<Longrightarrow>
   \<exists>ps. ps \<noteq> [] \<and> tickets_chain env d ps = Some d' \<and> tickets_trace env d s ps rest"
proof (induction env d s arbitrary: d' rest rule: tickets_loop.induct)
  case (1 env d)
  then show ?case by simp
next
  case (2 env d s)
  then have "\<exists>ps. ps \<noteq> [] \<and> tickets_chain env d ps = Some d' \<and> tickets_trace env d s ps rest"
    by simp
  then obtain ps where "ps \<noteq> []" "tickets_chain env d ps = Some d'" "tickets_trace env d s ps rest"
    by blast
  then have "ps \<noteq> [] \<and> tickets_chain env d ps = Some d' \<and> tickets_trace env d (Net_error # s) ps rest"
    using tickets_trace_skip [of env d s ps rest Net_error] by simp
  then show ?case by blast
next
  case (3 env d st ra body tx s)
  note run = "3.prems"
  let ?ev = "Response st ra body tx"
  have skip: "\<exists>ps. ps \<noteq> [] \<and> tickets_chain env d ps = Some d' \<and> tickets_trace env d (?ev # s) ps rest"
    if ne: "st \<noteq> 200" and ex: "\<exists>ps. ps \<noteq> [] \<and> tickets_chain env d ps = Some d' \<and> tickets_trace env d s ps rest"
  proof -
    obtain ps where "ps \<noteq> []" "tickets_chain env d ps = Some d'" "tickets_trace env d s ps rest"
      using ex by blast
    then have "ps \<noteq> [] \<and> tickets_chain env d ps = Some d' \<and> tickets_trace env d (?ev # s) ps rest"
      using tickets_trace_skip [of env d s ps rest ?ev] ne by simp
    then show ?thesis by blast
  qed
  show ?case
  proof (cases "st = 200")
    case True
    show ?thesis
    proof (cases body)
      case None
      then show ?thesis using run True by simp
    next
      case (Some page)
      obtain d1 e s1 where p: "tickets_page env d page s = ((d1, e), s1)"
        by (cases "tickets_page env d page s") auto
      have here: "\<exists>pre h t. ?ev # s = pre @ Response 200 h (Some page) t # s \<and> pages_read pre = []"
      proof -
        have "?ev # s = [] @ Response 200 ra (Some page) tx # s \<and> pages_read [] = []"
          using True Some by simp
        then show ?thesis by blast
      qed
      show ?thesis
      proof (cases e)
        case (Some x)
        then show ?thesis using run True \<open>body = Some page\<close> p by simp
      next
        case None
        show ?thesis
        proof (cases "pget page ''end_of_stream''")
          case (Inl x)
          then show ?thesis using run True \<open>body = Some page\<close> p None by simp
        next
          case (Inr eos)
          show ?thesis
          proof (cases "truthy eos")
            case et: True
            then have "d' = d1" "rest = s1" using run True \<open>body = Some page\<close> p None Inr by simp_all
            then have "[(page, s)] \<noteq> [] \<and> tickets_chain env d [(page, s)] = Some d'
                       \<and> tickets_trace env d (?ev # s) [(page, s)] rest"
              using p None here by simp
            then show ?thesis by blast
          next
            case ef: False
            show ?thesis
            proof (cases "next_link ''after_url'' page")
              case (Inl x)
              then show ?thesis using run True \<open>body = Some page\<close> p None Inr ef by simp
            next
              case nl: (Inr nxt)
              have rec: "tickets_loop env d1 s1 = ((d', None), rest)"
                using run True \<open>body = Some page\<close> p None Inr ef nl by simp
              have "\<exists>ps. ps \<noteq> [] \<and> tickets_chain env d1 ps = Some d' \<and> tickets_trace env d1 s1 ps rest"
                using "3.IH"(1) [OF True \<open>body = Some page\<close> p [symmetric] refl None Inr ef nl rec] .
              then obtain ps where "tickets_chain env d1 ps = Some d'" "tickets_trace env d1 s1 ps rest"
                by blast
              then have "(page, s) # ps \<noteq> [] \<and> tickets_chain env d ((page, s) # ps) = Some d'
                         \<and> tickets_trace env d (?ev # s) ((page, s) # ps) rest"
                using p None here by simp
              then show ?thesis by blast
            qed
          qed
        qed
      qed
    qed
  next
    case False
    show ?thesis
    proof (cases "st = 429")
      case True
      show ?thesis
      proof (cases ra)
        case None
        then show ?thesis using run False True "3.IH"(2) skip by simp
      next
        case (Some h)
        show ?thesis
        proof (cases "h \<noteq> [] \<and> \<not> float_parses env h")
          case True
          then show ?thesis using run False \<open>st = 429\<close> Some by simp
        next
          case nf: False
          have "tickets_loop env d s = ((d', None), rest)"
            using run False \<open>st = 429\<close> Some nf by auto
          then show ?thesis
            using "3.IH"(3) [OF False \<open>st = 429\<close> Some nf] skip False by simp
        qed
      qed
    next
      case n429: False
      show ?thesis
      proof (cases "st \<in> RETRY_STATUS")
        case True
        then show ?thesis using run False n429 "3.IH"(4) skip by simp
      next
        case nr: False
        then show ?thesis using run False n429 by simp
      qed
    qed
  qed
qed

text \<open>
  C6. After a page of users or of tickets has been processed without exception and carries
  an advancement token, the stored cursor of the resource is that token, as the text column
  keeps it: the token itself when it is a string. Hence after any run of successful pages
  the stored cursor is the token of the last page, when it carries one. A sync of users that
  returns normally has made such a run over exactly the pages it read from the feed, and a
  sync of tickets over the pages it read, each processed with the responses that followed
  it, from the store it started with to the store it leaves.
\<close>

theorem cursor_checkpoint_per_page:
  "(users_page env d page = (d', None) \<and> truthy (after_cursor_of page) \<longrightarrow>
      stored_as env (after_cursor_of page) (get_cursor_val d' ''users''))
   \<and> (tickets_page env td tpage ts = ((td', None), ts') \<and> truthy (after_cursor_of tpage) \<longrightarrow>
      stored_as env (after_cursor_of tpage) (get_cursor_val td' ''tickets''))
   \<and> (users_chain env ud pages = Some ud' \<and> pages \<noteq> [] \<and> truthy (after_cursor_of (last pages)) \<longrightarrow>
      stored_as env (after_cursor_of (last pages)) (get_cursor_val ud' ''users''))
   \<and> (tickets_chain env cd tpages = Some cd' \<and> tpages \<noteq> []
        \<and> truthy (after_cursor_of (fst (last tpages))) \<longrightarrow>
      stored_as env (after_cursor_of (fst (last tpages))) (get_cursor_val cd' ''tickets''))
   \<and> stored_as env (JStr c) v = (CHR 0x00 \<notin> set c \<and> v = JStr c)
   \<and> (sync_users env sd s = ((sd', None), rest) \<longrightarrow>
      (\<exists>consumed. s = consumed @ rest \<and> pages_read consumed \<noteq> []
         \<and> users_chain env sd (pages_read consumed) = Some sd'))
   \<and> (sync_tickets_comments_attachments env xd xs = ((xd', None), xrest) \<longrightarrow>
      (\<exists>ps. ps \<noteq> [] \<and> tickets_chain env xd ps = Some xd' \<and> tickets_trace env xd xs ps xrest))"
proof -
  have e: "stored_as env (JStr c) v = (CHR 0x00 \<notin> set c \<and> v = JStr c)"
    by (simp add: stored_as_def pg_text_def)
  show ?thesis
    using users_page_checkpoint [of env d page d'] tickets_page_checkpoint [of env td tpage ts td' ts']
      users_chain_last [of env ud pages ud'] tickets_chain_last [of env cd tpages cd']
      sync_users_reads [of env sd s sd' rest] tickets_loop_trace [of env xd xs xd' xrest] e
    unfolding sync_tickets_comments_attachments_def by blast
qed

theorem cursor_checkpoint_per_page_witness:
  "users_page sample_env [((''users'', Row_id 1),
         [(''name'', Val (JStr ''Ann'')), (''email'', Null), (''role'', Null),
          (''role_type'', Null), (''active'', Flag False),
          (''suspended'', Flag False), (''organization_id'', Null),
          (''phone'', Null), (''locale'', Null), (''time_zone'', Null),
          (''created_at'', Null), (''updated_at'', Null),
          (''last_login_at'', Null), (''tags_json'', Jsonb (JList [])),
          (''user_fields_json'', Jsonb (JObj [])),
          (''photo_json'', Jsonb (JObj []))]),
        ((''raw_snapshots'', Raw ''users'' 1),
         [(''updated_at'', Null),
          (''payload_json'', Jsonb (JObj [(''id'', JInt 1), (''name'', JStr ''Ann'')]))]),
        ((''sync_state'', Name ''users''),
         [(''cursor_token'', Text ''c1''), (''updated_at'', Time 1704240000)])] (JObj [(''users'', JList []), (''after_cursor'', JStr ''c2''), (''end_of_stream'', JBool True)]) = ([((''users'', Row_id 1),
         [(''name'', Val (JStr ''Ann'')), (''email'', Null), (''role'', Null),
          (''role_type'', Null), (''active'', Flag False),
          (''suspended'', Flag False), (''organization_id'', Null),
          (''phone'', Null), (''locale'', Null), (''time_zone'', Null),
          (''created_at'', Null), (''updated_at'', Null),
          (''last_login_at'', Null), (''tags_json'', Jsonb (JList [])),
          (''user_fields_json'', Jsonb (JObj [])),
          (''photo_json'', Jsonb (JObj []))]),
        ((''raw_snapshots'', Raw ''users'' 1),
         [(''updated_at'', Null),
          (''payload_json'', Jsonb (JObj [(''id'', JInt 1), (''name'', JStr ''Ann'')]))]),
        ((''sync_state'', Name ''users''),
         [(''cursor_token'', Text ''c2''), (''updated_at'', Time 1704240000)])], None)
   \<and> truthy (after_cursor_of (JObj [(''users'', JList []), (''after_cursor'', JStr ''c2''), (''end_of_stream'', JBool True)]))
   \<and> tickets_page sample_env [((''tickets'', Row_id 5),
          [(''subject'', Null), (''description'', Null),
           (''status'', Val (JStr ''closed'')), (''priority'', Null),
           (''type'', Null), (''requester_id'', Null),
           (''assignee_id'', Null), (''organization_id'', Null),
           (''created_at'', Null), (''updated_at'', Null),
           (''due_at'', Null)]),
         ((''raw_snapshots'', Raw ''tickets'' 5),
          [(''updated_at'', Null),
           (''payload_json'', Jsonb (JObj [(''id'', JInt 5), (''status'', JStr ''closed'')]))]),
         ((''ticket_comments'', Row_id 50),
          [(''ticket_id'', Num 5), (''author_id'', Null),
           (''public'', Flag False), (''body'', Val (JStr ''hi'')),
           (''created_at'', Null), (''updated_at'', Null)]),
         ((''raw_snapshots'', Raw ''comments'' 50),
          [(''updated_at'', Null),
           (''payload_json'', Jsonb (JObj [(''id'', JInt 50), (''body'', JStr ''hi'')]))]),
         ((''sync_state'', Name ''tickets''),
          [(''cursor_token'', Text ''t1''), (''updated_at'', Time 1704240000)])] (JObj [(''tickets'', JList []), (''after_cursor'', JStr ''t2''), (''end_of_stream'', JBool True)]) [] = (([((''tickets'', Row_id 5),
          [(''subject'', Null), (''description'', Null),
           (''status'', Val (JStr ''closed'')), (''priority'', Null),
           (''type'', Null), (''requester_id'', Null),
           (''assignee_id'', Null), (''organization_id'', Null),
           (''created_at'', Null), (''updated_at'', Null),
           (''due_at'', Null)]),
         ((''raw_snapshots'', Raw ''tickets'' 5),
          [(''updated_at'', Null),
           (''payload_json'', Jsonb (JObj [(''id'', JInt 5), (''status'', JStr ''closed'')]))]),
         ((''ticket_comments'', Row_id 50),
          [(''ticket_id'', Num 5), (''author_id'', Null),
           (''public'', Flag False), (''body'', Val (JStr ''hi'')),
           (''created_at'', Null), (''updated_at'', Null)]),
         ((''raw_snapshots'', Raw ''comments'' 50),
          [(''updated_at'', Null),
           (''payload_json'', Jsonb (JObj [(''id'', JInt 50), (''body'', JStr ''hi'')]))]),
         ((''sync_state'', Name ''tickets''),
          [(''cursor_token'', Text ''t2''), (''updated_at'', Time 1704240000)])], None), [])
   \<and> truthy (after_cursor_of (JObj [(''tickets'', JList []), (''after_cursor'', JStr ''t2''), (''end_of_stream'', JBool True)]))
   \<and> sync_users sample_env [] [Response 503 None None [], Response 200 None (Some (JObj [(''users'', JList [JObj [(''id'', JInt 1), (''name'', JStr ''Ann'')]]),
             (''after_cursor'', JStr ''c1''), (''after_url'', JStr ''https://example.zendesk.com/next''),
             (''end_of_stream'', JBool False)])) [], Response 200 None (Some (JObj [(''users'', JList []), (''after_cursor'', JStr ''c2''), (''end_of_stream'', JBool True)])) []] = (([((''users'', Row_id 1),
         [(''name'', Val (JStr ''Ann'')), (''email'', Null), (''role'', Null),
          (''role_type'', Null), (''active'', Flag False),
          (''suspended'', Flag False), (''organization_id'', Null),
          (''phone'', Null), (''locale'', Null), (''time_zone'', Null),
          (''created_at'', Null), (''updated_at'', Null),
          (''last_login_at'', Null), (''tags_json'', Jsonb (JList [])),
          (''user_fields_json'', Jsonb (JObj [])),
          (''photo_json'', Jsonb (JObj []))]),
        ((''raw_snapshots'', Raw ''users'' 1),
         [(''updated_at'', Null),
          (''payload_json'', Jsonb (JObj [(''id'', JInt 1), (''name'', JStr ''Ann'')]))]),
        ((''sync_state'', Name ''users''),
         [(''cursor_token'', Text ''c2''), (''updated_at'', Time 1704240000)])], None), [])
   \<and> pages_read [Response 503 None None [], Response 200 None (Some (JObj [(''users'', JList [JObj [(''id'', JInt 1), (''name'', JStr ''Ann'')]]),
             (''after_cursor'', JStr ''c1''), (''after_url'', JStr ''https://example.zendesk.com/next''),
             (''end_of_stream'', JBool False)])) [], Response 200 None (Some (JObj [(''users'', JList []), (''after_cursor'', JStr ''c2''), (''end_of_stream'', JBool True)])) []] = [(JObj [(''users'', JList [JObj [(''id'', JInt 1), (''name'', JStr ''Ann'')]]),
             (''after_cursor'', JStr ''c1''), (''after_url'', JStr ''https://example.zendesk.com/next''),
             (''end_of_stream'', JBool False)]), (JObj [(''users'', JList []), (''after_cursor'', JStr ''c2''), (''end_of_stream'', JBool True)])]
   \<and> users_chain sample_env [] [(JObj [(''users'', JList [JObj [(''id'', JInt 1), (''name'', JStr ''Ann'')]]),
             (''after_cursor'', JStr ''c1''), (''after_url'', JStr ''https://example.zendesk.com/next''),
             (''end_of_stream'', JBool False)]), (JObj [(''users'', JList []), (''after_cursor'', JStr ''c2''), (''end_of_stream'', JBool True)])] = Some [((''users'', Row_id 1),
         [(''name'', Val (JStr ''Ann'')), (''email'', Null), (''role'', Null),
          (''role_type'', Null), (''active'', Flag False),
          (''suspended'', Flag False), (''organization_id'', Null),
          (''phone'', Null), (''locale'', Null), (''time_zone'', Null),
          (''created_at'', Null), (''updated_at'', Null),
          (''last_login_at'', Null), (''tags_json'', Jsonb (JList [])),
          (''user_fields_json'', Jsonb (JObj [])),
          (''photo_json'', Jsonb (JObj []))]),
        ((''raw_snapshots'', Raw ''users'' 1),
         [(''updated_at'', Null),
          (''payload_json'', Jsonb (JObj [(''id'', JInt 1), (''name'', JStr ''Ann'')]))]),
        ((''sync_state'', Name ''users''),
         [(''cursor_token'', Text ''c2''), (''updated_at'', Time 1704240000)])]
   \<and> get_cursor_val [((''users'', Row_id 1),
         [(''name'', Val (JStr ''Ann'')), (''email'', Null), (''role'', Null),
          (''role_type'', Null), (''active'', Flag False),
          (''suspended'', Flag False), (''organization_id'', Null),
          (''phone'', Null), (''locale'', Null), (''time_zone'', Null),
          (''created_at'', Null), (''updated_at'', Null),
          (''last_login_at'', Null), (''tags_json'', Jsonb (JList [])),
          (''user_fields_json'', Jsonb (JObj [])),
          (''photo_json'', Jsonb (JObj []))]),
        ((''raw_snapshots'', Raw ''users'' 1),
         [(''updated_at'', Null),
          (''payload_json'', Jsonb (JObj [(''id'', JInt 1), (''name'', JStr ''Ann'')]))]),
        ((''sync_state'', Name ''users''),
         [(''cursor_token'', Text ''c2''), (''updated_at'', Time 1704240000)])] ''users'' = JStr ''c2''
   \<and> sync_tickets_comments_attachments sample_env [] [Response 200 None (Some (JObj [(''tickets'', JList [JObj [(''id'', JInt 5), (''status'', JStr ''closed'')]]),
             (''after_cursor'', JStr ''t1''), (''end_of_stream'', JBool False)])) [], Response 200 None (Some (JObj [(''comments'', JList [JObj [(''id'', JInt 50), (''body'', JStr ''hi'')]])])) [], Response 429 None None [], Response 200 None (Some (JObj [(''tickets'', JList []), (''after_cursor'', JStr ''t2''), (''end_of_stream'', JBool True)])) []] = (([((''tickets'', Row_id 5),
          [(''subject'', Null), (''description'', Null),
           (''status'', Val (JStr ''closed'')), (''priority'', Null),
           (''type'', Null), (''requester_id'', Null),
           (''assignee_id'', Null), (''organization_id'', Null),
           (''created_at'', Null), (''updated_at'', Null),
           (''due_at'', Null)]),
         ((''raw_snapshots'', Raw ''tickets'' 5),
          [(''updated_at'', Null),
           (''payload_json'', Jsonb (JObj [(''id'', JInt 5), (''status'', JStr ''closed'')]))]),
         ((''ticket_comments'', Row_id 50),
          [(''ticket_id'', Num 5), (''author_id'', Null),
           (''public'', Flag False), (''body'', Val (JStr ''hi'')),
           (''created_at'', Null), (''updated_at'', Null)]),
         ((''raw_snapshots'', Raw ''comments'' 50),
          [(''updated_at'', Null),
           (''payload_json'', Jsonb (JObj [(''id'', JInt 50), (''body'', JStr ''hi'')]))]),
         ((''sync_state'', Name ''tickets''),
          [(''cursor_token'', Text ''t2''), (''updated_at'', Time 1704240000)])], None), [])
   \<and> tickets_chain sample_env [] [((JObj [(''tickets'', JList [JObj [(''id'', JInt 5), (''status'', JStr ''closed'')]]),
             (''after_cursor'', JStr ''t1''), (''end_of_stream'', JBool False)]), [Response 200 None (Some (JObj [(''comments'', JList [JObj [(''id'', JInt 50), (''body'', JStr ''hi'')]])])) [], Response 429 None None [], Response 200 None (Some (JObj [(''tickets'', JList []), (''after_cursor'', JStr ''t2''), (''end_of_stream'', JBool True)])) []]), ((JObj [(''tickets'', JList []), (''after_cursor'', JStr ''t2''), (''end_of_stream'', JBool True)]), [])] = Some [((''tickets'', Row_id 5),
          [(''subject'', Null), (''description'', Null),
           (''status'', Val (JStr ''closed'')), (''priority'', Null),
           (''type'', Null), (''requester_id'', Null),
           (''assignee_id'', Null), (''organization_id'', Null),
           (''created_at'', Null), (''updated_at'', Null),
           (''due_at'', Null)]),
         ((''raw_snapshots'', Raw ''tickets'' 5),
          [(''updated_at'', Null),
           (''payload_json'', Jsonb (JObj [(''id'', JInt 5), (''status'', JStr ''closed'')]))]),
         ((''ticket_comments'', Row_id 50),
          [(''ticket_id'', Num 5), (''author_id'', Null),
           (''public'', Flag False), (''body'', Val (JStr ''hi'')),
           (''created_at'', Null), (''updated_at'', Null)]),
         ((''raw_snapshots'', Raw ''comments'' 50),
          [(''updated_at'', Null),
           (''payload_json'', Jsonb (JObj [(''id'', JInt 50), (''body'', JStr ''hi'')]))]),
         ((''sync_state'', Name ''tickets''),
          [(''cursor_token'', Text ''t2''), (''updated_at'', Time 1704240000)])]
   \<and> tickets_trace sample_env [] [Response 200 None (Some (JObj [(''tickets'', JList [JObj [(''id'', JInt 5), (''status'', JStr ''closed'')]]),
             (''after_cursor'', JStr ''t1''), (''end_of_stream'', JBool False)])) [], Response 200 None (Some (JObj [(''comments'', JList [JObj [(''id'', JInt 50), (''body'', JStr ''hi'')]])])) [], Response 429 None None [], Response 200 None (Some (JObj [(''tickets'', JList []), (''after_cursor'', JStr ''t2''), (''end_of_stream'', JBool True)])) []] [((JObj [(''tickets'', JList [JObj [(''id'', JInt 5), (''status'', JStr ''closed'')]]),
             (''after_cursor'', JStr ''t1''), (''end_of_stream'', JBool False)]), [Response 200 None (Some (JObj [(''comments'', JList [JObj [(''id'', JInt 50), (''body'', JStr ''hi'')]])])) [], Response 429 None None [], Response 200 None (Some (JObj [(''tickets'', JList []), (''after_cursor'', JStr ''t2''), (''end_of_stream'', JBool True)])) []]), ((JObj [(''tickets'', JList []), (''after_cursor'', JStr ''t2''), (''end_of_stream'', JBool True)]), [])] []
   \<and> get_cursor_val [((''tickets'', Row_id 5),
          [(''subject'', Null), (''description'', Null),
           (''status'', Val (JStr ''closed'')), (''priority'', Null),
           (''type'', Null), (''requester_id'', Null),
           (''assignee_id'', Null), (''organization_id'', Null),
           (''created_at'', Null), (''updated_at'', Null),
           (''due_at'', Null)]),
         ((''raw_snapshots'', Raw ''tickets'' 5),
          [(''updated_at'', Null),
           (''payload_json'', Jsonb (JObj [(''id'', JInt 5), (''status'', JStr ''closed'')]))]),
         ((''ticket_comments'', Row_id 50),
          [(''ticket_id'', Num 5), (''author_id'', Null),
           (''public'', Flag False), (''body'', Val (JStr ''hi'')),
           (''created_at'', Null), (''updated_at'', Null)]),
         ((''raw_snapshots'', Raw ''comments'' 50),
          [(''updated_at'', Null),
           (''payload_json'', Jsonb (JObj [(''id'', JInt 50), (''body'', JStr ''hi'')]))]),
         ((''sync_state'', Name ''tickets''),
          [(''cursor_token'', Text ''t2''), (''updated_at'', Time 1704240000)])] ''tickets'' = JStr ''t2''"
proof -
  let ?p1 = "(JObj [(''users'', JList [JObj [(''id'', JInt 1), (''name'', JStr ''Ann'')]]),
             (''after_cursor'', JStr ''c1''), (''after_url'', JStr ''https://example.zendesk.com/next''),
             (''end_of_stream'', JBool False)])"
  let ?p2 = "(JObj [(''users'', JList []), (''after_cursor'', JStr ''c2''), (''end_of_stream'', JBool True)])"
  let ?tp1 = "(JObj [(''tickets'', JList [JObj [(''id'', JInt 5), (''status'', JStr ''closed'')]]),
             (''after_cursor'', JStr ''t1''), (''end_of_stream'', JBool False)])"
  let ?tp2 = "(JObj [(''tickets'', JList []), (''after_cursor'', JStr ''t2''), (''end_of_stream'', JBool True)])"
  let ?cp = "(JObj [(''comments'', JList [JObj [(''id'', JInt 50), (''body'', JStr ''hi'')]])])"
  let ?DU1 = "[((''users'', Row_id 1),
         [(''name'', Val (JStr ''Ann'')), (''email'', Null), (''role'', Null),
          (''role_type'', Null), (''active'', Flag False),
          (''suspended'', Flag False), (''organization_id'', Null),
          (''phone'', Null), (''locale'', Null), (''time_zone'', Null),
          (''created_at'', Null), (''updated_at'', Null),
          (''last_login_at'', Null), (''tags_json'', Jsonb (JList [])),
          (''user_fields_json'', Jsonb (JObj [])),
          (''photo_json'', Jsonb (JObj []))]),
        ((''raw_snapshots'', Raw ''users'' 1),
         [(''updated_at'', Null),
          (''payload_json'', Jsonb (JObj [(''id'', JInt 1), (''name'', JStr ''Ann'')]))]),
        ((''sync_state'', Name ''users''),
         [(''cursor_token'', Text ''c1''), (''updated_at'', Time 1704240000)])]"
  let ?DU2 = "[((''users'', Row_id 1),
         [(''name'', Val (JStr ''Ann'')), (''email'', Null), (''role'', Null),
          (''role_type'', Null), (''active'', Flag False),
          (''suspended'', Flag False), (''organization_id'', Null),
          (''phone'', Null), (''locale'', Null), (''time_zone'', Null),
          (''created_at'', Null), (''updated_at'', Null),
          (''last_login_at'', Null), (''tags_json'', Jsonb (JList [])),
          (''user_fields_json'', Jsonb (JObj [])),
          (''photo_json'', Jsonb (JObj []))]),
        ((''raw_snapshots'', Raw ''users'' 1),
         [(''updated_at'', Null),
          (''payload_json'', Jsonb (JObj [(''id'', JInt 1), (''name'', JStr ''Ann'')]))]),
        ((''sync_state'', Name ''users''),
         [(''cursor_token'', Text ''c2''), (''updated_at'', Time 1704240000)])]"
  let ?DT1 = "[((''tickets'', Row_id 5),
          [(''subject'', Null), (''description'', Null),
           (''status'', Val (JStr ''closed'')), (''priority'', Null),
           (''type'', Null), (''requester_id'', Null),
           (''assignee_id'', Null), (''organization_id'', Null),
           (''created_at'', Null), (''updated_at'', Null),
           (''due_at'', Null)]),
         ((''raw_snapshots'', Raw ''tickets'' 5),
          [(''updated_at'', Null),
           (''payload_json'', Jsonb (JObj [(''id'', JInt 5), (''status'', JStr ''closed'')]))]),
         ((''ticket_comments'', Row_id 50),
          [(''ticket_id'', Num 5), (''author_id'', Null),
           (''public'', Flag False), (''body'', Val (JStr ''hi'')),
           (''created_at'', Null), (''updated_at'', Null)]),
         ((''raw_snapshots'', Raw ''comments'' 50),
          [(''updated_at'', Null),
           (''payload_json'', Jsonb (JObj [(''id'', JInt 50), (''body'', JStr ''hi'')]))]),
         ((''sync_state'', Name ''tickets''),
          [(''cursor_token'', Text ''t1''), (''updated_at'', Time 1704240000)])]"
  let ?DT2 = "[((''tickets'', Row_id 5),
          [(''subject'', Null), (''description'', Null),
           (''status'', Val (JStr ''closed'')), (''priority'', Null),
           (''type'', Null), (''requester_id'', Null),
           (''assignee_id'', Null), (''organization_id'', Null),
           (''created_at'', Null), (''updated_at'', Null),
           (''due_at'', Null)]),
         ((''raw_snapshots'', Raw ''tickets'' 5),
          [(''updated_at'', Null),
           (''payload_json'', Jsonb (JObj [(''id'', JInt 5), (''status'', JStr ''closed'')]))]),
         ((''ticket_comments'', Row_id 50),
          [(''ticket_id'', Num 5), (''author_id'', Null),
           (''public'', Flag False), (''body'', Val (JStr ''hi'')),
           (''created_at'', Null), (''updated_at'', Null)]),
         ((''raw_snapshots'', Raw ''comments'' 50),
          [(''updated_at'', Null),
           (''payload_json'', Jsonb (JObj [(''id'', JInt 50), (''body'', JStr ''hi'')]))]),
         ((''sync_state'', Name ''tickets''),
          [(''cursor_token'', Text ''t2''), (''updated_at'', Time 1704240000)])]"
  let ?us = "[Response 503 None None [], Response 200 None (Some ?p1) [], Response 200 None (Some ?p2) []]"
  let ?s1 = "[Response 200 None (Some ?cp) [], Response 429 None None [], Response 200 None (Some ?tp2) []]"
  let ?ts = "Response 200 None (Some ?tp1) [] # ?s1"
  note ev = tickets_page_def users_page_def iter_items_def dget_default_def dget_def
    ticket_step_def por_def lower_def lower_char_def upsert_ticket_def upsert_comment_def
    upsert_user_def and_then_def insert_by_id_def raw_by_id_def upsert_raw_def put_def dindex_def
    parse_dt_def stamp_def param_def sample_env_def get_with_retry_def eval_nat_numeral
    comments_page_def comment_step_def next_link_def pget_def pget_default_def set_cursor_val_def
    pg_text_def py_str_def after_cursor_of_def RETRY_STATUS_def
  have u1: "users_page sample_env [] ?p1 = (?DU1, None)" by (simp add: ev)
  have u2: "users_page sample_env ?DU1 ?p2 = (?DU2, None)" by (simp add: ev)
  have t1: "tickets_page sample_env [] ?tp1 ?s1 = ((?DT1, None), [Response 429 None None [], Response 200 None (Some ?tp2) []])"
    by (simp add: ev)
  have t2: "tickets_page sample_env ?DT1 ?tp2 [] = ((?DT2, None), [])" by (simp add: ev)
  have tu: "truthy (after_cursor_of ?p2)" by (simp add: after_cursor_of_def dget_def)
  have tt: "truthy (after_cursor_of ?tp2)" by (simp add: after_cursor_of_def dget_def)
  have uc: "users_chain sample_env [] [?p1, ?p2] = Some ?DU2" by (simp add: u1 u2)
  have tc: "tickets_chain sample_env [] [(?tp1, ?s1), (?tp2, [])] = Some ?DT2"
    by (simp add: t1) (simp add: ev)
  have ur: "sync_users sample_env [] ?us = ((?DU2, None), [])"
    by (simp add: sync_users_def ev)
  have pr: "pages_read ?us = [?p1, ?p2]" by simp
  have tr: "sync_tickets_comments_attachments sample_env [] ?ts = ((?DT2, None), [])"
    by (simp add: sync_tickets_comments_attachments_def ev)
  have tr1: "\<exists>pre h tx. ?ts = pre @ Response 200 h (Some ?tp1) tx # ?s1 \<and> pages_read pre = []"
    by (intro exI [where x = "[]"] exI [where x = None]) simp
  have tr2: "\<exists>pre h tx. [Response 429 None None [], Response 200 None (Some ?tp2) []]
                = pre @ Response 200 h (Some ?tp2) tx # [] \<and> pages_read pre = []"
    by (intro exI [where x = "[Response 429 None None []]"] exI [where x = None]) simp
  have trace: "tickets_trace sample_env [] ?ts [(?tp1, ?s1), (?tp2, [])] []"
    using tr1 tr2 t1 t2 by simp
  note thm1 = cursor_checkpoint_per_page [where env = sample_env and d = ?DU1 and page = ?p2
      and d' = ?DU2 and td = ?DT1 and tpage = ?tp2 and ts = "[]" and td' = ?DT2 and ts' = "[]"
      and ud = "[]" and pages = "[?p1, ?p2]" and ud' = ?DU2
      and cd = "[]" and tpages = "[(?tp1, ?s1), (?tp2, [])]" and cd' = ?DT2]
  have a: "stored_as sample_env (after_cursor_of ?p2) (get_cursor_val ?DU2 ''users'')"
    using thm1 u2 tu by blast
  have b: "stored_as sample_env (after_cursor_of ?tp2) (get_cursor_val ?DT2 ''tickets'')"
    using thm1 tc tt by simp
  have cu: "get_cursor_val ?DU2 ''users'' = JStr ''c2''"
    using a by (simp add: after_cursor_of_def dget_def stored_as_def pg_text_def)
  have ct: "get_cursor_val ?DT2 ''tickets'' = JStr ''t2''"
    using b by (simp add: after_cursor_of_def dget_def stored_as_def pg_text_def)
  show ?thesis using u2 tu t2 tt ur pr uc cu tr tc trace ct by blast
qed

section \<open>The snapshot fallback of organizations\<close>

lemma org_loop_skips:
  "\<forall>ev \<in> set noise. org_skipped env ev \<Longrightarrow>
   org_loop env d seen k (noise @ s) = org_loop env d seen k s"
proof (induction noise)
  case Nil
  show ?case by simp
next
  case (Cons ev noise)
  have sk: "org_skipped env ev" using Cons.prems by simp
  have rest: "org_loop env d seen k (noise @ s) = org_loop env d seen k s"
    using Cons by simp
  show ?case
  proof (cases ev)
    case Net_error
    then show ?thesis using rest by simp
  next
    case (Response st ra body tx)
    then show ?thesis
      using sk rest by (auto simp: org_skipped_def split: option.splits if_splits)
  qed
qed

lemma org_loop_dup_page:
  assumes "org_page env d seen p = (d1, Inr (seen1, n, 0))" and "0 < n"
  shows "org_loop env d seen k (Response 200 ra (Some p) tx # s) =
           (if 2 \<le> k then snapshot_once env d1 s
            else (case pget p ''next_page'' of
                    Inl e \<Rightarrow> ((d1, Inl e), s)
                  | Inr nxt \<Rightarrow>
                      if \<not> truthy nxt then ((d1, Inr Incremental_complete), s)
                      else org_loop env d1 seen1 (k + 1) s))"
  using assms by (auto simp: Let_def split: sum.splits)

lemma dec_nat_nonempty: "dec_nat n \<noteq> []"
  by (subst dec_nat.simps) simp

lemma str_of_int_nonempty: "str_of_int i \<noteq> []"
  by (simp add: str_of_int_def dec_nat_nonempty)

lemma snapshot_once_reseeds:
  assumes "snapshot_once env d s = ((d', Inr m), s')"
  shows "m = Snapshot_complete
         \<and> get_cursor_val d' ''organizations'' = JStr (str_of_int (now env - 60))"
proof -
  obtain r s1 where g: "get_with_retry env (Z_BASE env @ ''/api/v2/organizations.json'') s = (r, s1)"
    by (cases "get_with_retry env (Z_BASE env @ ''/api/v2/organizations.json'') s")
  show ?thesis
  proof (cases r)
    case (Inl e)
    then show ?thesis using assms g by (simp add: snapshot_once_def)
  next
    case (Inr page)
    obtain d1 e s2 where p: "snapshot_pages env d page s1 = ((d1, e), s2)"
      by (cases "snapshot_pages env d page s1") auto
    show ?thesis
    proof (cases e)
      case (Some x)
      then show ?thesis using assms g Inr p by (simp add: snapshot_once_def)
    next
      case None
      have "set_now_cursor env d1 = (d', None)" "m = Snapshot_complete"
        using assms g Inr p None by (auto simp: snapshot_once_def split: prod.splits option.splits)
      then show ?thesis
        using get_after_set [of env d1 "''organizations''" "JStr (str_of_int (now env - 60))" d']
        by (simp add: set_now_cursor_def stored_as_string)
    qed
  qed
qed

lemma snapshot_pages_chain:
  "snapshot_pages env d page s = ((d', None), rest) \<Longrightarrow> \<exists>ps. orgs_chain env d (page # ps) = Some d'"
proof (induction env d page s arbitrary: d' rest rule: snapshot_pages.induct)
  case (1 env d page s)
  note run = "1.prems" [unfolded snapshot_pages.simps [of env d page s]]
  show ?case
  proof (cases page)
    case (JObj kv)
    show ?thesis
    proof (cases "iter_items (dget_default kv ''organizations'' (JList []))")
      case (Inl e)
      then show ?thesis using run JObj by simp
    next
      case (Inr orgs)
      obtain d1 e where p: "run_page (upsert_org env) d orgs = (d1, e)"
        by (cases "run_page (upsert_org env) d orgs")
      show ?thesis
      proof (cases e)
        case (Some x)
        then show ?thesis using run JObj Inr p by simp
      next
        case None
        have one: "orgs_chain env d [page] = Some d1" using JObj Inr p None by simp
        show ?thesis
        proof (cases "next_link ''next_page'' page")
          case (Inl x)
          then show ?thesis using run JObj Inr p None by simp
        next
          case nl: (Inr nxt)
          show ?thesis
          proof (cases "truthy nxt")
            case False
            then have "d' = d1" using run JObj Inr p None nl by simp
            then show ?thesis using one by blast
          next
            case True
            obtain r s1 where g: "get_with_retry env (py_str env nxt) s = (r, s1)"
              by (cases "get_with_retry env (py_str env nxt) s")
            show ?thesis
            proof (cases r)
              case (Inl x)
              then show ?thesis using run JObj Inr p None nl True g by simp
            next
              case gp: (Inr pg)
              have rec: "snapshot_pages env d1 pg s1 = ((d', None), rest)"
                using run JObj Inr p None nl True g gp by simp
              have "\<exists>ps. orgs_chain env d1 (pg # ps) = Some d'"
                using "1.IH" [OF JObj Inr p [symmetric] None nl _ g [symmetric, unfolded gp] refl rec] True
                by simp
              then obtain ps where "orgs_chain env d1 (pg # ps) = Some d'" by blast
              then have "orgs_chain env d (page # pg # ps) = Some d'"
                using JObj Inr p None by simp
              then show ?thesis by blast
            qed
          qed
        qed
      qed
    qed
  qed (use run in simp_all)
qed

lemma snapshot_once_lists:
  assumes "snapshot_once env d s = ((d', Inr m), s')"
  shows "\<exists>d1 ps. ps \<noteq> [] \<and> orgs_chain env d ps = Some d1 \<and> set_now_cursor env d1 = (d', None)"
proof -
  obtain r s1 where g: "get_with_retry env (Z_BASE env @ ''/api/v2/organizations.json'') s = (r, s1)"
    by (cases "get_with_retry env (Z_BASE env @ ''/api/v2/organizations.json'') s")
  show ?thesis
  proof (cases r)
    case (Inl e)
    then show ?thesis using assms g by (simp add: snapshot_once_def)
  next
    case (Inr page)
    obtain d1 e s2 where p: "snapshot_pages env d page s1 = ((d1, e), s2)"
      by (cases "snapshot_pages env d page s1") auto
    show ?thesis
    proof (cases e)
      case (Some x)
      then show ?thesis using assms g Inr p by (simp add: snapshot_once_def)
    next
      case None
      have d': "set_now_cursor env d1 = (d', None)"
        using assms g Inr p None by (auto simp: snapshot_once_def split: prod.splits option.splits)
      obtain ps where "orgs_chain env d (page # ps) = Some d1"
        using snapshot_pages_chain p None by blast
      then have "page # ps \<noteq> [] \<and> orgs_chain env d (page # ps) = Some d1 \<and> set_now_cursor env d1 = (d', None)"
        using d' by simp
      then show ?thesis by blast
    qed
  qed
qed

text \<open>
  C4, as amended. In the incremental organizations loop, three consecutive pages that are
  not empty and add no newly seen id (whatever retried responses lie between them) make the
  orchestrator continue as \<open>snapshot_once\<close> on the store the third page left. A snapshot
  that completes has listed pages and upserted their organizations, and leaves the epoch
  cursor at the clock minus 60 seconds.
\<close>

theorem duplicate_only_pages_switch_to_snapshot:
  assumes "\<forall>ev \<in> set (n1 @ n2 @ n3). org_skipped env ev"
    and "org_page env d seen p1 = (d1, Inr (seen1, c1, 0))" and "0 < c1"
    and "pget p1 ''next_page'' = Inr x1" and "truthy x1"
    and "org_page env d1 seen1 p2 = (d2, Inr (seen2, c2, 0))" and "0 < c2"
    and "pget p2 ''next_page'' = Inr x2" and "truthy x2"
    and "org_page env d2 seen2 p3 = (d3, Inr (seen3, c3, 0))" and "0 < c3"
  shows
    "org_loop env d seen 0
       (n1 @ Response 200 ha (Some p1) ta # n2 @ Response 200 hb (Some p2) tb #
        n3 @ Response 200 hc (Some p3) tc # rest)
       = snapshot_once env d3 rest
     \<and> (snapshot_once env d3 rest = ((d', Inr m), rest') \<longrightarrow>
          m = Snapshot_complete
          \<and> get_cursor_val d' ''organizations'' = JStr (str_of_int (now env - 60))
          \<and> (\<exists>d4 ps. ps \<noteq> [] \<and> orgs_chain env d3 ps = Some d4 \<and> set_now_cursor env d4 = (d', None)))"
proof -
  have n: "\<forall>ev \<in> set n1. org_skipped env ev" "\<forall>ev \<in> set n2. org_skipped env ev"
    "\<forall>ev \<in> set n3. org_skipped env ev"
    using assms(1) by auto
  let ?s3 = "n3 @ Response 200 hc (Some p3) tc # rest"
  let ?s2 = "n2 @ Response 200 hb (Some p2) tb # ?s3"
  have 3: "org_loop env d2 seen2 2 ?s3 = snapshot_once env d3 rest"
    unfolding org_loop_skips [OF n(3)] org_loop_dup_page [OF assms(10,11)] by simp
  have 2: "org_loop env d1 seen1 1 ?s2 = org_loop env d2 seen2 2 ?s3"
    unfolding org_loop_skips [OF n(2)] org_loop_dup_page [OF assms(6,7)]
    using assms(8,9) by (simp add: numeral_2_eq_2)
  have 1: "org_loop env d seen 0 (n1 @ Response 200 ha (Some p1) ta # ?s2) = org_loop env d1 seen1 1 ?s2"
    unfolding org_loop_skips [OF n(1)] org_loop_dup_page [OF assms(2,3)]
    using assms(4,5) by simp
  show ?thesis
    using 1 2 3 snapshot_once_reseeds [of env d3 rest d' m rest']
      snapshot_once_lists [of env d3 rest d' m rest']
    by simp
qed

lemma sample_org_1:
  "upsert_org sample_env d (JObj [(''id'', JInt 1), (''name'', JStr ''Acme'')])
     = (put ''raw_snapshots'' (Raw ''organizations'' 1)
          [(''updated_at'', Null),
           (''payload_json'', Jsonb (JObj [(''id'', JInt 1), (''name'', JStr ''Acme'')]))]
          (put ''organizations'' (Row_id 1)
             [(''name'', Val (JStr ''Acme'')), (''external_id'', Null), (''group_id'', Null),
              (''details'', Null), (''notes'', Null), (''shared_tickets'', Flag False),
              (''shared_comments'', Flag False), (''domain_names_json'', Jsonb (JList [])),
              (''tags_json'', Jsonb (JList [])), (''organization_fields_json'', Jsonb (JObj [])),
              (''created_at'', Null), (''updated_at'', Null)] d), None)"
  by (simp add: upsert_org_def and_then_def insert_by_id_def raw_by_id_def upsert_raw_def
        dindex_def dget_def sample_env_def parse_dt_def stamp_def param_def por_def)

lemma sample_org_2:
  "upsert_org sample_env d (JObj [(''id'', JInt 2), (''name'', JStr ''Bolt'')])
     = (put ''raw_snapshots'' (Raw ''organizations'' 2)
          [(''updated_at'', Null),
           (''payload_json'', Jsonb (JObj [(''id'', JInt 2), (''name'', JStr ''Bolt'')]))]
          (put ''organizations'' (Row_id 2)
             [(''name'', Val (JStr ''Bolt'')), (''external_id'', Null), (''group_id'', Null),
              (''details'', Null), (''notes'', Null), (''shared_tickets'', Flag False),
              (''shared_comments'', Flag False), (''domain_names_json'', Jsonb (JList [])),
              (''tags_json'', Jsonb (JList [])), (''organization_fields_json'', Jsonb (JObj [])),
              (''created_at'', Null), (''updated_at'', Null)] d), None)"
  by (simp add: upsert_org_def and_then_def insert_by_id_def raw_by_id_def upsert_raw_def
        dindex_def dget_def sample_env_def parse_dt_def stamp_def param_def por_def)

lemma sample_epochs:
  "str_of_int 1704067200 = ''1704067200''" "str_of_int 1704153600 = ''1704153600''"
  "str_of_int 1704239940 = ''1704239940''" "int_of_str ''1704000000'' = Some 1704000000"
  by (simp_all add: str_of_int_def int_of_str_def strip_def is_space_def is_digit_def digit_val_def)

lemma sample_clock:
  "now sample_env = 1704240000" "Z_BASE sample_env = ''https://example.zendesk.com''"
  "\<not> FORCE_ORG_SNAPSHOT sample_env"
  by (simp_all add: sample_env_def)

theorem duplicate_only_pages_switch_to_snapshot_witness:
  "org_skipped sample_env Net_error
   \<and> org_skipped sample_env (Response 429 (Some ''1'') None [])
   \<and> org_page sample_env
         [((''organizations'', Row_id 1),
          [(''name'', Val (JStr ''Acme'')), (''external_id'', Null), (''group_id'', Null),
           (''details'', Null), (''notes'', Null), (''shared_tickets'', Flag False),
           (''shared_comments'', Flag False), (''domain_names_json'', Jsonb (JList [])),
           (''tags_json'', Jsonb (JList [])), (''organization_fields_json'', Jsonb (JObj [])),
           (''created_at'', Null), (''updated_at'', Null)]),
         ((''raw_snapshots'', Raw ''organizations'' 1),
          [(''updated_at'', Null),
           (''payload_json'', Jsonb (JObj [(''id'', JInt 1), (''name'', JStr ''Acme'')]))]),
         ((''sync_state'', Name ''organizations''),
          [(''cursor_token'', Text ''1704067200''), (''updated_at'', Time 1704240000)])] [1]
         (JObj [(''organizations'', JList [JObj [(''id'', JInt 1), (''name'', JStr ''Acme'')]]),
              (''next_page'', JStr ''https://example.zendesk.com/p''), (''end_time'', JInt 1704067200)])
       = ([((''organizations'', Row_id 1),
          [(''name'', Val (JStr ''Acme'')), (''external_id'', Null), (''group_id'', Null),
           (''details'', Null), (''notes'', Null), (''shared_tickets'', Flag False),
           (''shared_comments'', Flag False), (''domain_names_json'', Jsonb (JList [])),
           (''tags_json'', Jsonb (JList [])), (''organization_fields_json'', Jsonb (JObj [])),
           (''created_at'', Null), (''updated_at'', Null)]),
         ((''raw_snapshots'', Raw ''organizations'' 1),
          [(''updated_at'', Null),
           (''payload_json'', Jsonb (JObj [(''id'', JInt 1), (''name'', JStr ''Acme'')]))]),
         ((''sync_state'', Name ''organizations''),
          [(''cursor_token'', Text ''1704067200''), (''updated_at'', Time 1704240000)])], Inr ([1], 1, 0))
   \<and> pget (JObj [(''organizations'', JList [JObj [(''id'', JInt 1), (''name'', JStr ''Acme'')]]),
              (''next_page'', JStr ''https://example.zendesk.com/p''), (''end_time'', JInt 1704067200)]) ''next_page'' = Inr (JStr ''https://example.zendesk.com/p'')
   \<and> org_loop sample_env
         [((''organizations'', Row_id 1),
          [(''name'', Val (JStr ''Acme'')), (''external_id'', Null), (''group_id'', Null),
           (''details'', Null), (''notes'', Null), (''shared_tickets'', Flag False),
           (''shared_comments'', Flag False), (''domain_names_json'', Jsonb (JList [])),
           (''tags_json'', Jsonb (JList [])), (''organization_fields_json'', Jsonb (JObj [])),
           (''created_at'', Null), (''updated_at'', Null)]),
         ((''raw_snapshots'', Raw ''organizations'' 1),
          [(''updated_at'', Null),
           (''payload_json'', Jsonb (JObj [(''id'', JInt 1), (''name'', JStr ''Acme'')]))]),
         ((''sync_state'', Name ''organizations''),
          [(''cursor_token'', Text ''1704067200''), (''updated_at'', Time 1704240000)])] [1] 0
         ([Net_error] @ Response 200 None (Some (JObj [(''organizations'', JList [JObj [(''id'', JInt 1), (''name'', JStr ''Acme'')]]),
              (''next_page'', JStr ''https://example.zendesk.com/p''), (''end_time'', JInt 1704067200)])) [] #
          [Response 429 (Some ''1'') None []] @ Response 200 None (Some (JObj [(''organizations'', JList [JObj [(''id'', JInt 1), (''name'', JStr ''Acme'')]]),
              (''next_page'', JStr ''https://example.zendesk.com/p''), (''end_time'', JInt 1704067200)])) [] #
          [] @ Response 200 None (Some (JObj [(''organizations'', JList [JObj [(''id'', JInt 1), (''name'', JStr ''Acme'')]]),
              (''next_page'', JStr ''https://example.zendesk.com/p''), (''end_time'', JInt 1704067200)])) [] #
          [Response 200 None (Some (JObj [(''organizations'', JList [JObj [(''id'', JInt 2), (''name'', JStr ''Bolt'')]])])) []])
       = (([((''organizations'', Row_id 1),
          [(''name'', Val (JStr ''Acme'')), (''external_id'', Null), (''group_id'', Null),
           (''details'', Null), (''notes'', Null), (''shared_tickets'', Flag False),
           (''shared_comments'', Flag False), (''domain_names_json'', Jsonb (JList [])),
           (''tags_json'', Jsonb (JList [])), (''organization_fields_json'', Jsonb (JObj [])),
           (''created_at'', Null), (''updated_at'', Null)]),
         ((''raw_snapshots'', Raw ''organizations'' 1),
          [(''updated_at'', Null),
           (''payload_json'', Jsonb (JObj [(''id'', JInt 1), (''name'', JStr ''Acme'')]))]),
         ((''sync_state'', Name ''organizations''),
          [(''cursor_token'', Text ''1704239940''), (''updated_at'', Time 1704240000)]),
         ((''organizations'', Row_id 2),
          [(''name'', Val (JStr ''Bolt'')), (''external_id'', Null), (''group_id'', Null),
           (''details'', Null), (''notes'', Null), (''shared_tickets'', Flag False),
           (''shared_comments'', Flag False), (''domain_names_json'', Jsonb (JList [])),
           (''tags_json'', Jsonb (JList [])), (''organization_fields_json'', Jsonb (JObj [])),
           (''created_at'', Null), (''updated_at'', Null)]),
         ((''raw_snapshots'', Raw ''organizations'' 2),
          [(''updated_at'', Null),
           (''payload_json'', Jsonb (JObj [(''id'', JInt 2), (''name'', JStr ''Bolt'')]))])], Inr Snapshot_complete), [])
   \<and> get_cursor_val [((''organizations'', Row_id 1),
          [(''name'', Val (JStr ''Acme'')), (''external_id'', Null), (''group_id'', Null),
           (''details'', Null), (''notes'', Null), (''shared_tickets'', Flag False),
           (''shared_comments'', Flag False), (''domain_names_json'', Jsonb (JList [])),
           (''tags_json'', Jsonb (JList [])), (''organization_fields_json'', Jsonb (JObj [])),
           (''created_at'', Null), (''updated_at'', Null)]),
         ((''raw_snapshots'', Raw ''organizations'' 1),
          [(''updated_at'', Null),
           (''payload_json'', Jsonb (JObj [(''id'', JInt 1), (''name'', JStr ''Acme'')]))]),
         ((''sync_state'', Name ''organizations''),
          [(''cursor_token'', Text ''1704239940''), (''updated_at'', Time 1704240000)]),
         ((''organizations'', Row_id 2),
          [(''name'', Val (JStr ''Bolt'')), (''external_id'', Null), (''group_id'', Null),
           (''details'', Null), (''notes'', Null), (''shared_tickets'', Flag False),
           (''shared_comments'', Flag False), (''domain_names_json'', Jsonb (JList [])),
           (''tags_json'', Jsonb (JList [])), (''organization_fields_json'', Jsonb (JObj [])),
           (''created_at'', Null), (''updated_at'', Null)]),
         ((''raw_snapshots'', Raw ''organizations'' 2),
          [(''updated_at'', Null),
           (''payload_json'', Jsonb (JObj [(''id'', JInt 2), (''name'', JStr ''Bolt'')]))])] ''organizations'' = JStr ''1704239940''"
proof -
  let ?d = "[((''organizations'', Row_id 1),
          [(''name'', Val (JStr ''Acme'')), (''external_id'', Null), (''group_id'', Null),
           (''details'', Null), (''notes'', Null), (''shared_tickets'', Flag False),
           (''shared_comments'', Flag False), (''domain_names_json'', Jsonb (JList [])),
           (''tags_json'', Jsonb (JList [])), (''organization_fields_json'', Jsonb (JObj [])),
           (''created_at'', Null), (''updated_at'', Null)]),
         ((''raw_snapshots'', Raw ''organizations'' 1),
          [(''updated_at'', Null),
           (''payload_json'', Jsonb (JObj [(''id'', JInt 1), (''name'', JStr ''Acme'')]))]),
         ((''sync_state'', Name ''organizations''),
          [(''cursor_token'', Text ''1704067200''), (''updated_at'', Time 1704240000)])]"
  let ?p = "(JObj [(''organizations'', JList [JObj [(''id'', JInt 1), (''name'', JStr ''Acme'')]]),
              (''next_page'', JStr ''https://example.zendesk.com/p''), (''end_time'', JInt 1704067200)])"
  let ?f = "[((''organizations'', Row_id 1),
          [(''name'', Val (JStr ''Acme'')), (''external_id'', Null), (''group_id'', Null),
           (''details'', Null), (''notes'', Null), (''shared_tickets'', Flag False),
           (''shared_comments'', Flag False), (''domain_names_json'', Jsonb (JList [])),
           (''tags_json'', Jsonb (JList [])), (''organization_fields_json'', Jsonb (JObj [])),
           (''created_at'', Null), (''updated_at'', Null)]),
         ((''raw_snapshots'', Raw ''organizations'' 1),
          [(''updated_at'', Null),
           (''payload_json'', Jsonb (JObj [(''id'', JInt 1), (''name'', JStr ''Acme'')]))]),
         ((''sync_state'', Name ''organizations''),
          [(''cursor_token'', Text ''1704239940''), (''updated_at'', Time 1704240000)]),
         ((''organizations'', Row_id 2),
          [(''name'', Val (JStr ''Bolt'')), (''external_id'', Null), (''group_id'', Null),
           (''details'', Null), (''notes'', Null), (''shared_tickets'', Flag False),
           (''shared_comments'', Flag False), (''domain_names_json'', Jsonb (JList [])),
           (''tags_json'', Jsonb (JList [])), (''organization_fields_json'', Jsonb (JObj [])),
           (''created_at'', Null), (''updated_at'', Null)]),
         ((''raw_snapshots'', Raw ''organizations'' 2),
          [(''updated_at'', Null),
           (''payload_json'', Jsonb (JObj [(''id'', JInt 2), (''name'', JStr ''Bolt'')]))])]"
  have n: "\<forall>ev \<in> set ([Net_error] @ [Response 429 (Some ''1'') None []] @ []). org_skipped sample_env ev"
    by (simp add: org_skipped_def sample_env_def)
  have pg: "org_page sample_env ?d [1] ?p = (?d, Inr ([1], 1, 0))"
    by (simp add: org_page_def iter_items_def dget_default_def dget_def sample_org_1 put_def
          set_cursor_val_def pg_text_def py_str_def sample_epochs sample_clock param_def)
  have nx: "pget ?p ''next_page'' = Inr (JStr ''https://example.zendesk.com/p'')"
    by (simp add: pget_def dget_def)
  have t: "truthy (JStr ''https://example.zendesk.com/p'')" by simp
  have pos: "0 < (1::nat)" by simp
  have sn: "snapshot_once sample_env ?d [Response 200 None (Some (JObj [(''organizations'', JList [JObj [(''id'', JInt 2), (''name'', JStr ''Bolt'')]])])) []]
            = ((?f, Inr Snapshot_complete), [])"
    by (simp add: snapshot_once_def get_with_retry_def eval_nat_numeral iter_items_def and_then_def
          dget_default_def dget_def sample_org_2 put_def next_link_def pget_def pget_default_def
          set_now_cursor_def set_cursor_val_def pg_text_def sample_epochs sample_clock param_def)
  note sw = duplicate_only_pages_switch_to_snapshot [OF n pg pos nx t pg pos nx t pg pos,
      where rest = "[Response 200 None (Some (JObj [(''organizations'', JList [JObj [(''id'', JInt 2), (''name'', JStr ''Bolt'')]])])) []]" and d' = ?f and m = Snapshot_complete
        and rest' = "[]" and ha = None and hb = None and hc = None and ta = "[]"
        and tb = "[]" and tc = "[]"]
  have run: "org_loop sample_env ?d [1] 0
         ([Net_error] @ Response 200 None (Some ?p) [] #
          [Response 429 (Some ''1'') None []] @ Response 200 None (Some ?p) [] #
          [] @ Response 200 None (Some ?p) [] #
          [Response 200 None (Some (JObj [(''organizations'', JList [JObj [(''id'', JInt 2), (''name'', JStr ''Bolt'')]])])) []])
       = ((?f, Inr Snapshot_complete), [])"
    using sw sn by simp
  have cur: "get_cursor_val ?f ''organizations'' = JStr ''1704239940''"
    using sw sn by (simp add: sample_epochs sample_clock)
  have sk: "org_skipped sample_env Net_error" "org_skipped sample_env (Response 429 (Some ''1'') None [])"
    using n by simp_all
  show ?thesis using sk pg nx run cur by blast
qed

text \<open>
  C4 as stated fails: an empty page adds no newly seen id, yet it resets the streak. After
  three consecutive empty pages the loop goes on incrementally, processes a fourth page and
  ends with that page's \<open>end_time\<close> as cursor, without any snapshot.
\<close>

theorem empty_pages_do_not_switch_counterexample:
  "org_page sample_env
       [((''sync_state'', Name ''organizations''),
          [(''cursor_token'', Text ''1704067200''), (''updated_at'', Time 1704240000)])] []
       (JObj [(''organizations'', JList []), (''next_page'', JStr ''https://example.zendesk.com/p''),
              (''end_time'', JInt 1704067200)])
     = ([((''sync_state'', Name ''organizations''),
          [(''cursor_token'', Text ''1704067200''), (''updated_at'', Time 1704240000)])], Inr ([], 0, 0))
   \<and> sync_organizations sample_env
       [((''sync_state'', Name ''organizations''),
          [(''cursor_token'', Text ''1704000000''), (''updated_at'', Time 1704000060)])]
       [Response 200 None (Some (JObj [(''organizations'', JList []), (''next_page'', JStr ''https://example.zendesk.com/p''),
              (''end_time'', JInt 1704067200)])) [],
        Response 200 None (Some (JObj [(''organizations'', JList []), (''next_page'', JStr ''https://example.zendesk.com/p''),
              (''end_time'', JInt 1704067200)])) [],
        Response 200 None (Some (JObj [(''organizations'', JList []), (''next_page'', JStr ''https://example.zendesk.com/p''),
              (''end_time'', JInt 1704067200)])) [],
        Response 200 None (Some (JObj [(''organizations'', JList [JObj [(''id'', JInt 1), (''name'', JStr ''Acme'')]]),
              (''end_time'', JInt 1704153600)])) []]
     = (([((''sync_state'', Name ''organizations''),
          [(''cursor_token'', Text ''1704153600''), (''updated_at'', Time 1704240000)]),
         ((''organizations'', Row_id 1),
          [(''name'', Val (JStr ''Acme'')), (''external_id'', Null), (''group_id'', Null),
           (''details'', Null), (''notes'', Null), (''shared_tickets'', Flag False),
           (''shared_comments'', Flag False), (''domain_names_json'', Jsonb (JList [])),
           (''tags_json'', Jsonb (JList [])), (''organization_fields_json'', Jsonb (JObj [])),
           (''created_at'', Null), (''updated_at'', Null)]),
         ((''raw_snapshots'', Raw ''organizations'' 1),
          [(''updated_at'', Null),
           (''payload_json'', Jsonb (JObj [(''id'', JInt 1), (''name'', JStr ''Acme'')]))])], Inr Incremental_complete), [])"
proof -
  have a: "org_page sample_env d [] (JObj [(''organizations'', JList []), (''next_page'', JStr ''https://example.zendesk.com/p''),
              (''end_time'', JInt 1704067200)])
       = (put ''sync_state'' (Name ''organizations'')
            [(''cursor_token'', Text ''1704067200''), (''updated_at'', Time 1704240000)] d, Inr ([], 0, 0))" for d
    by (simp add: org_page_def iter_items_def dget_default_def dget_def py_str_def sample_epochs
          set_cursor_val_def pg_text_def sample_clock)
  have b: "org_page sample_env d [] (JObj [(''organizations'', JList [JObj [(''id'', JInt 1), (''name'', JStr ''Acme'')]]),
              (''end_time'', JInt 1704153600)])
       = (put ''sync_state'' (Name ''organizations'')
            [(''cursor_token'', Text ''1704153600''), (''updated_at'', Time 1704240000)]
            (fst (upsert_org sample_env d (JObj [(''id'', JInt 1), (''name'', JStr ''Acme'')]))),
          Inr ([1], 1, 1))" for d
    by (simp add: org_page_def iter_items_def dget_default_def dget_def py_str_def sample_epochs
          sample_org_1 set_cursor_val_def pg_text_def sample_clock)
  have c: "get_cursor_val [((''sync_state'', Name ''organizations''),
          [(''cursor_token'', Text ''1704000000''), (''updated_at'', Time 1704000060)])] ''organizations'' = JStr ''1704000000''"
    by (simp add: get_cursor_val_def column_def)
  have 1: "org_page sample_env [((''sync_state'', Name ''organizations''),
          [(''cursor_token'', Text ''1704067200''), (''updated_at'', Time 1704240000)])] [] (JObj [(''organizations'', JList []), (''next_page'', JStr ''https://example.zendesk.com/p''),
              (''end_time'', JInt 1704067200)]) = ([((''sync_state'', Name ''organizations''),
          [(''cursor_token'', Text ''1704067200''), (''updated_at'', Time 1704240000)])], Inr ([], 0, 0))"
    unfolding a by (simp add: put_def)
  have 2: "sync_organizations sample_env [((''sync_state'', Name ''organizations''),
          [(''cursor_token'', Text ''1704000000''), (''updated_at'', Time 1704000060)])]
       [Response 200 None (Some (JObj [(''organizations'', JList []), (''next_page'', JStr ''https://example.zendesk.com/p''),
              (''end_time'', JInt 1704067200)])) [],
        Response 200 None (Some (JObj [(''organizations'', JList []), (''next_page'', JStr ''https://example.zendesk.com/p''),
              (''end_time'', JInt 1704067200)])) [],
        Response 200 None (Some (JObj [(''organizations'', JList []), (''next_page'', JStr ''https://example.zendesk.com/p''),
              (''end_time'', JInt 1704067200)])) [],
        Response 200 None (Some (JObj [(''organizations'', JList [JObj [(''id'', JInt 1), (''name'', JStr ''Acme'')]]),
              (''end_time'', JInt 1704153600)])) []]
     = (([((''sync_state'', Name ''organizations''),
          [(''cursor_token'', Text ''1704153600''), (''updated_at'', Time 1704240000)]),
         ((''organizations'', Row_id 1),
          [(''name'', Val (JStr ''Acme'')), (''external_id'', Null), (''group_id'', Null),
           (''details'', Null), (''notes'', Null), (''shared_tickets'', Flag False),
           (''shared_comments'', Flag False), (''domain_names_json'', Jsonb (JList [])),
           (''tags_json'', Jsonb (JList [])), (''organization_fields_json'', Jsonb (JObj [])),
           (''created_at'', Null), (''updated_at'', Null)]),
         ((''raw_snapshots'', Raw ''organizations'' 1),
          [(''updated_at'', Null),
           (''payload_json'', Jsonb (JObj [(''id'', JInt 1), (''name'', JStr ''Acme'')]))])], Inr Incremental_complete), [])"
    unfolding sync_organizations_def c
    by (simp add: sample_clock sample_epochs a b pget_def dget_def sample_org_1
          set_cursor_val_def pg_text_def put_def param_def)
  show ?thesis using 1 2 by blast
qed

end
